theory Spec2Isabelle
  imports Complex_Main
begin

section \<open>Values of the relational store\<close>

text \<open>
  The schema (\<^verbatim>\<open>001_initial_schema.sql\<close>) keeps money, quantities and tax rates in
  \<^verbatim>\<open>DECIMAL(p, 2)\<close> columns.  A value \<open>v\<close> of such a column is held here as the integer
  \<open>100 * v\<close>: a quantity of 10 is \<open>1000\<close>, a unit price of 50.00 is \<open>5000\<close>, a tax
  rate of 8 percent is \<open>800\<close>, a total of 756.00 is \<open>75600\<close>.  A \<^verbatim>\<open>DATE\<close> is the number
  of days since 1970-01-01, an instant (\<^verbatim>\<open>Date.now()\<close>, \<^verbatim>\<open>TIMESTAMP\<close>) the number of
  milliseconds since then, a \<^verbatim>\<open>UUID\<close> a natural number.  A string is a list of
  characters, each one of the first 256 code points.  Nullable columns are options.
  Row shapes follow the row types of \<^verbatim>\<open>types/database.ts\<close>; the bookkeeping columns
  \<^verbatim>\<open>created_at\<close> and \<^verbatim>\<open>updated_at\<close> are left out.
\<close>

type_synonym uuid = nat
type_synonym decimal = int
type_synonym date = int
type_synonym instant = int

datatype estimate_status = Draft | Sent | Approved | Declined

datatype invoice_status = Unpaid | Paid

text \<open>
  The errors of the store that matter here, by their class: 23505 (a unique index or
  primary key), 23503 (a foreign key), 22003 (a number too large for its column), 22001 (a
  string too long for its column) and 42501 (a row refused by a row-level security
  policy).
\<close>

datatype db_error =
    UniqueViolation | ForeignKeyViolation | NumericOverflow | StringTooLong | PolicyViolation

text \<open>
  Assigning a numeric to a \<^verbatim>\<open>DECIMAL(p, 2)\<close> target rounds it to two places, ties away
  from zero, and raises "numeric field overflow" when the rounded value needs more than
  \<open>p\<close> digits.  \<open>round_half_away n d\<close> is the quotient \<open>n / d\<close> (for \<open>d > 0\<close>) rounded to
  an integer that way.
\<close>

definition round_half_away :: "int \<Rightarrow> int \<Rightarrow> int" where
  "round_half_away n d =
     (if 0 \<le> n then (2 * n + d) div (2 * d) else - ((2 * (- n) + d) div (2 * d)))"

text \<open>
  The number a stored decimal stands for, and rounding a number to two places (ties away
  from zero), to state results the way the schema's arithmetic reads.
\<close>

definition dec :: "decimal \<Rightarrow> rat" where
  "dec v = of_int v / 100"

definition round2 :: "rat \<Rightarrow> rat" where
  "round2 x =
     (if 0 \<le> x then of_int \<lfloor>x * 100 + 1 / 2\<rfloor> / 100
      else - (of_int \<lfloor>- x * 100 + 1 / 2\<rfloor> / 100))"

definition numeric_fits :: "nat \<Rightarrow> decimal \<Rightarrow> bool" where
  "numeric_fits p v = (\<bar>v\<bar> < 10 ^ p)"

definition to_decimal_12_2 :: "int \<Rightarrow> int \<Rightarrow> db_error + decimal" where
  "to_decimal_12_2 n d =
     (let v = round_half_away n d in if numeric_fits 12 v then Inr v else Inl NumericOverflow)"

fun coalesce :: "'a option \<Rightarrow> 'a option \<Rightarrow> 'a option" where
  "coalesce (Some x) y = Some x"
| "coalesce None y = y"

text \<open>\<^verbatim>\<open>COALESCE(x, c)\<close> with a constant \<open>c\<close> that is not null.\<close>

fun coalesce_const :: "'a option \<Rightarrow> 'a \<Rightarrow> 'a" where
  "coalesce_const (Some x) c = x"
| "coalesce_const None c = c"

definition sql_sum :: "int list \<Rightarrow> int option" where
  "sql_sum xs = (if xs = [] then None else Some (sum_list xs))"

section \<open>Tables\<close>

record client =
  cl_id :: uuid
  cl_user_id :: uuid
  cl_name :: string
  cl_email :: "string option"

record estimate =
  est_id :: uuid
  est_user_id :: uuid
  est_client_id :: "uuid option"
  estimate_number :: string
  est_title :: string
  est_description :: "string option"
  est_status :: estimate_status
  est_issue_date :: date
  est_valid_until :: "date option"
  est_subtotal :: decimal
  est_tax_rate :: decimal
  est_tax_amount :: decimal
  est_total :: decimal
  est_notes :: "string option"
  est_job_site_address :: "string option"
  est_archived_at :: "instant option"

record estimate_item =
  ei_id :: uuid
  ei_estimate_id :: uuid
  ei_description :: string
  ei_quantity :: decimal
  ei_unit :: string
  ei_unit_price :: decimal
  ei_sort_order :: int

record invoice =
  inv_id :: uuid
  inv_user_id :: uuid
  inv_client_id :: "uuid option"
  inv_source_estimate_id :: "uuid option"
  invoice_number :: string
  inv_title :: string
  inv_description :: "string option"
  inv_status :: invoice_status
  inv_issue_date :: date
  inv_due_date :: "date option"
  inv_paid_date :: "date option"
  inv_subtotal :: decimal
  inv_tax_rate :: decimal
  inv_tax_amount :: decimal
  inv_total :: decimal
  inv_notes :: "string option"
  inv_archived_at :: "instant option"

record invoice_item =
  ii_id :: uuid
  ii_invoice_id :: uuid
  ii_description :: string
  ii_quantity :: decimal
  ii_unit :: string
  ii_unit_price :: decimal
  ii_sort_order :: int

record database =
  clients :: "client list"
  estimates :: "estimate list"
  estimate_items :: "estimate_item list"
  invoices :: "invoice list"
  invoice_items :: "invoice_item list"

text \<open>
  The generated column \<^verbatim>\<open>amount DECIMAL(12, 2) GENERATED ALWAYS AS (quantity * unit_price)\<close>
  is a function of the row.
\<close>

definition ei_amount :: "estimate_item \<Rightarrow> decimal" where
  "ei_amount it = round_half_away (ei_quantity it * ei_unit_price it) 100"

definition ii_amount :: "invoice_item \<Rightarrow> decimal" where
  "ii_amount it = round_half_away (ii_quantity it * ii_unit_price it) 100"

section \<open>The recalculation triggers\<close>

text \<open>
  A row-level trigger sees the old and the new row of the change that fired it: an
  insert has no old row, a delete no new one.
\<close>

datatype 'r trigger_event = TgInsert 'r | TgUpdate 'r 'r | TgDelete 'r

fun tg_new :: "'r trigger_event \<Rightarrow> 'r option" where
  "tg_new (TgInsert n) = Some n"
| "tg_new (TgUpdate old n) = Some n"
| "tg_new (TgDelete old) = None"

fun tg_old :: "'r trigger_event \<Rightarrow> 'r option" where
  "tg_old (TgInsert n) = None"
| "tg_old (TgUpdate old n) = Some old"
| "tg_old (TgDelete old) = Some old"

text \<open>\<^verbatim>\<open>COALESCE(NEW.estimate_id, OLD.estimate_id)\<close>\<close>

definition estimate_key :: "estimate_item trigger_event \<Rightarrow> uuid option" where
  "estimate_key ev =
     coalesce (map_option ei_estimate_id (tg_new ev)) (map_option ei_estimate_id (tg_old ev))"

definition invoice_key :: "invoice_item trigger_event \<Rightarrow> uuid option" where
  "invoice_key ev =
     coalesce (map_option ii_invoice_id (tg_new ev)) (map_option ii_invoice_id (tg_old ev))"

text \<open>
  \<^verbatim>\<open>recalculate_estimate_totals()\<close>: the subtotal is the sum of \<open>quantity * unit_price\<close> over
  the items of the estimate, assigned to a \<^verbatim>\<open>DECIMAL(12, 2)\<close> variable; the tax rate is read
  from the estimate (no row: the variable is null, and so is the tax amount); the tax
  amount \<open>v_subtotal * (v_tax_rate / 100)\<close> is assigned to a \<^verbatim>\<open>DECIMAL(12, 2)\<close> variable; the
  \<^verbatim>\<open>UPDATE\<close> writes the three totals to every estimate with that id (none when the parent
  is gone).  With subtotal \<open>s\<close> and rate \<open>r\<close> both in hundredths the exact tax is
  \<open>s * r / 10000\<close> hundredths.
\<close>

definition estimate_items_of :: "database \<Rightarrow> uuid \<Rightarrow> estimate_item list" where
  "estimate_items_of db k = filter (\<lambda>it. ei_estimate_id it = k) (estimate_items db)"

definition invoice_items_of :: "database \<Rightarrow> uuid \<Rightarrow> invoice_item list" where
  "invoice_items_of db k = filter (\<lambda>it. ii_invoice_id it = k) (invoice_items db)"

definition find_estimate :: "database \<Rightarrow> uuid \<Rightarrow> estimate option" where
  "find_estimate db k = find (\<lambda>e. est_id e = k) (estimates db)"

definition find_invoice :: "database \<Rightarrow> uuid \<Rightarrow> invoice option" where
  "find_invoice db k = find (\<lambda>i. inv_id i = k) (invoices db)"

definition recalculate_estimate_totals ::
    "database \<Rightarrow> estimate_item trigger_event \<Rightarrow> db_error + database" where
  "recalculate_estimate_totals db ev =
     (case estimate_key ev of
        None \<Rightarrow> Inr db
      | Some k \<Rightarrow>
          (case to_decimal_12_2
                  (coalesce_const
                      (sql_sum (map (\<lambda>it. ei_quantity it * ei_unit_price it)
                                    (estimate_items_of db k)))
                      0) 100 of
             Inl err \<Rightarrow> Inl err
           | Inr v_subtotal \<Rightarrow>
               (case map_option est_tax_rate (find_estimate db k) of
                  None \<Rightarrow> Inr db
                | Some v_tax_rate \<Rightarrow>
                    (case to_decimal_12_2 (v_subtotal * v_tax_rate) 10000 of
                       Inl err \<Rightarrow> Inl err
                     | Inr v_tax_amount \<Rightarrow>
                         if numeric_fits 12 (v_subtotal + v_tax_amount)
                         then Inr (db\<lparr>estimates :=
                                map (\<lambda>e. if est_id e = k
                                          then e\<lparr>est_subtotal := v_subtotal,
                                                 est_tax_amount := v_tax_amount,
                                                 est_total := v_subtotal + v_tax_amount\<rparr>
                                          else e)
                                    (estimates db)\<rparr>)
                         else Inl NumericOverflow))))"

definition recalculate_invoice_totals ::
    "database \<Rightarrow> invoice_item trigger_event \<Rightarrow> db_error + database" where
  "recalculate_invoice_totals db ev =
     (case invoice_key ev of
        None \<Rightarrow> Inr db
      | Some k \<Rightarrow>
          (case to_decimal_12_2
                  (coalesce_const
                      (sql_sum (map (\<lambda>it. ii_quantity it * ii_unit_price it)
                                    (invoice_items_of db k)))
                      0) 100 of
             Inl err \<Rightarrow> Inl err
           | Inr v_subtotal \<Rightarrow>
               (case map_option inv_tax_rate (find_invoice db k) of
                  None \<Rightarrow> Inr db
                | Some v_tax_rate \<Rightarrow>
                    (case to_decimal_12_2 (v_subtotal * v_tax_rate) 10000 of
                       Inl err \<Rightarrow> Inl err
                     | Inr v_tax_amount \<Rightarrow>
                         if numeric_fits 12 (v_subtotal + v_tax_amount)
                         then Inr (db\<lparr>invoices :=
                                map (\<lambda>i. if inv_id i = k
                                          then i\<lparr>inv_subtotal := v_subtotal,
                                                 inv_tax_amount := v_tax_amount,
                                                 inv_total := v_subtotal + v_tax_amount\<rparr>
                                          else i)
                                    (invoices db)\<rparr>)
                         else Inl NumericOverflow))))"

section \<open>Statements on the item tables\<close>

text \<open>
  An \<^verbatim>\<open>INSERT\<close>, \<^verbatim>\<open>UPDATE\<close> or \<^verbatim>\<open>DELETE\<close> on \<^verbatim>\<open>estimate_items\<close> or \<^verbatim>\<open>invoice_items\<close>
  changes its rows and then runs the \<^verbatim>\<open>AFTER ... FOR EACH ROW\<close> triggers once per changed
  row; an error anywhere aborts the statement and leaves the store as it was.

  The rows of an insert are first read into the types of the columns, in the order of
  the columns: a \<^verbatim>\<open>DECIMAL(10, 2)\<close> quantity, a \<^verbatim>\<open>VARCHAR(50)\<close> unit, a
  \<^verbatim>\<open>DECIMAL(12, 2)\<close> unit price.  (A string longer than its column is refused here; the
  store's exception for a string whose excess is all spaces, which it cuts, is not
  made.)  Then, row by row, the generated amount must fit \<^verbatim>\<open>DECIMAL(12, 2)\<close>, the row
  must pass the \<^verbatim>\<open>WITH CHECK\<close> policy of the session, and its primary key must be new.
  The reference to the parent is checked among the triggers of the row, ahead of the
  recalculation (the triggers of a row fire in the order of their names, and the
  store's own are named \<^verbatim>\<open>RI_ConstraintTrigger...\<close>); an update is checked when it
  changes the parent id.  The ids the store generates (\<^verbatim>\<open>uuid_generate_v4()\<close>) are part
  of the rows given to the insert.

  The policies of the item tables let a session touch the items of its own documents:
  \<^verbatim>\<open>EXISTS (SELECT 1 FROM estimates WHERE estimates.id = estimate_items.estimate_id AND
  estimates.user_id = auth.uid())\<close>.  A statement that is not given a session is one
  issued by the owner of the rows it names.

  An update is given as the columns it sets.  The table lets a statement set the parent
  id as well as the description, quantity, unit, unit price and sort order.
\<close>

fun first_error :: "db_error option list \<Rightarrow> db_error option" where
  "first_error [] = None"
| "first_error (Some err # es) = Some err"
| "first_error (None # es) = first_error es"

record item_patch =
  p_parent_id :: "uuid option"
  p_description :: "string option"
  p_quantity :: "decimal option"
  p_unit :: "string option"
  p_unit_price :: "decimal option"
  p_sort_order :: "int option"

definition owns_estimate :: "database \<Rightarrow> uuid option \<Rightarrow> uuid \<Rightarrow> bool" where
  "owns_estimate db uid k =
     list_ex (\<lambda>e. est_id e = k \<and> uid = Some (est_user_id e)) (estimates db)"

definition estimate_item_input_error :: "estimate_item \<Rightarrow> db_error option" where
  "estimate_item_input_error r =
     (if \<not> numeric_fits 10 (ei_quantity r) then Some NumericOverflow
      else if length (ei_unit r) > 50 then Some StringTooLong
      else if \<not> numeric_fits 12 (ei_unit_price r) then Some NumericOverflow
      else None)"

definition estimate_item_row_error :: "estimate_item \<Rightarrow> db_error option" where
  "estimate_item_row_error r =
     (case estimate_item_input_error r of
        Some err \<Rightarrow> Some err
      | None \<Rightarrow> if numeric_fits 12 (ei_amount r) then None else Some NumericOverflow)"

fun add_estimate_items ::
    "(estimate_item \<Rightarrow> bool) \<Rightarrow> database \<Rightarrow> estimate_item list \<Rightarrow> db_error + database" where
  "add_estimate_items policy db [] = Inr db"
| "add_estimate_items policy db (r # rs) =
     (if \<not> numeric_fits 12 (ei_amount r) then Inl NumericOverflow
      else if \<not> policy r then Inl PolicyViolation
      else if ei_id r \<in> set (map ei_id (estimate_items db)) then Inl UniqueViolation
      else add_estimate_items policy (db\<lparr>estimate_items := estimate_items db @ [r]\<rparr>) rs)"

fun estimate_item_reference_error ::
    "database \<Rightarrow> estimate_item trigger_event \<Rightarrow> db_error option" where
  "estimate_item_reference_error db (TgInsert n) =
     (if find_estimate db (ei_estimate_id n) = None then Some ForeignKeyViolation else None)"
| "estimate_item_reference_error db (TgUpdate old n) =
     (if ei_estimate_id n \<noteq> ei_estimate_id old \<and> find_estimate db (ei_estimate_id n) = None
      then Some ForeignKeyViolation else None)"
| "estimate_item_reference_error db (TgDelete old) = None"

fun fire_estimate_triggers ::
    "database \<Rightarrow> estimate_item trigger_event list \<Rightarrow> db_error + database" where
  "fire_estimate_triggers db [] = Inr db"
| "fire_estimate_triggers db (ev # evs) =
     (case estimate_item_reference_error db ev of
        Some err \<Rightarrow> Inl err
      | None \<Rightarrow>
          (case recalculate_estimate_totals db ev of
             Inl err \<Rightarrow> Inl err
           | Inr db' \<Rightarrow> fire_estimate_triggers db' evs))"

definition insert_estimate_items_under ::
    "(estimate_item \<Rightarrow> bool) \<Rightarrow> database \<Rightarrow> estimate_item list \<Rightarrow> db_error + database" where
  "insert_estimate_items_under policy db rows =
     (case first_error (map estimate_item_input_error rows) of
        Some err \<Rightarrow> Inl err
      | None \<Rightarrow>
          (case add_estimate_items policy db rows of
             Inl err \<Rightarrow> Inl err
           | Inr db1 \<Rightarrow> fire_estimate_triggers db1 (map TgInsert rows)))"

definition insert_estimate_items :: "database \<Rightarrow> estimate_item list \<Rightarrow> db_error + database" where
  "insert_estimate_items db rows = insert_estimate_items_under (\<lambda>r. True) db rows"

definition insert_estimate_items_as ::
    "uuid option \<Rightarrow> database \<Rightarrow> estimate_item list \<Rightarrow> db_error + database" where
  "insert_estimate_items_as uid db rows =
     insert_estimate_items_under (\<lambda>r. owns_estimate db uid (ei_estimate_id r)) db rows"

definition patch_estimate_item :: "item_patch \<Rightarrow> estimate_item \<Rightarrow> estimate_item" where
  "patch_estimate_item p it =
     it\<lparr>ei_estimate_id := coalesce_const (p_parent_id p) (ei_estimate_id it),
        ei_description := coalesce_const (p_description p) (ei_description it),
        ei_quantity := coalesce_const (p_quantity p) (ei_quantity it),
        ei_unit := coalesce_const (p_unit p) (ei_unit it),
        ei_unit_price := coalesce_const (p_unit_price p) (ei_unit_price it),
        ei_sort_order := coalesce_const (p_sort_order p) (ei_sort_order it)\<rparr>"

definition update_estimate_items ::
    "database \<Rightarrow> (estimate_item \<Rightarrow> bool) \<Rightarrow> item_patch \<Rightarrow> db_error + database" where
  "update_estimate_items db sel p =
     (let old = filter sel (estimate_items db) in
      case first_error (map (\<lambda>it. estimate_item_row_error (patch_estimate_item p it)) old) of
        Some err \<Rightarrow> Inl err
      | None \<Rightarrow>
          fire_estimate_triggers
            (db\<lparr>estimate_items := map (\<lambda>it. if sel it then patch_estimate_item p it else it)
                                   (estimate_items db)\<rparr>)
            (map (\<lambda>it. TgUpdate it (patch_estimate_item p it)) old))"

definition delete_estimate_items ::
    "database \<Rightarrow> (estimate_item \<Rightarrow> bool) \<Rightarrow> db_error + database" where
  "delete_estimate_items db sel =
     fire_estimate_triggers
       (db\<lparr>estimate_items := filter (\<lambda>it. \<not> sel it) (estimate_items db)\<rparr>)
       (map TgDelete (filter sel (estimate_items db)))"

definition owns_invoice :: "database \<Rightarrow> uuid option \<Rightarrow> uuid \<Rightarrow> bool" where
  "owns_invoice db uid k =
     list_ex (\<lambda>e. inv_id e = k \<and> uid = Some (inv_user_id e)) (invoices db)"

definition invoice_item_input_error :: "invoice_item \<Rightarrow> db_error option" where
  "invoice_item_input_error r =
     (if \<not> numeric_fits 10 (ii_quantity r) then Some NumericOverflow
      else if length (ii_unit r) > 50 then Some StringTooLong
      else if \<not> numeric_fits 12 (ii_unit_price r) then Some NumericOverflow
      else None)"

definition invoice_item_row_error :: "invoice_item \<Rightarrow> db_error option" where
  "invoice_item_row_error r =
     (case invoice_item_input_error r of
        Some err \<Rightarrow> Some err
      | None \<Rightarrow> if numeric_fits 12 (ii_amount r) then None else Some NumericOverflow)"

fun add_invoice_items ::
    "(invoice_item \<Rightarrow> bool) \<Rightarrow> database \<Rightarrow> invoice_item list \<Rightarrow> db_error + database" where
  "add_invoice_items policy db [] = Inr db"
| "add_invoice_items policy db (r # rs) =
     (if \<not> numeric_fits 12 (ii_amount r) then Inl NumericOverflow
      else if \<not> policy r then Inl PolicyViolation
      else if ii_id r \<in> set (map ii_id (invoice_items db)) then Inl UniqueViolation
      else add_invoice_items policy (db\<lparr>invoice_items := invoice_items db @ [r]\<rparr>) rs)"

fun invoice_item_reference_error ::
    "database \<Rightarrow> invoice_item trigger_event \<Rightarrow> db_error option" where
  "invoice_item_reference_error db (TgInsert n) =
     (if find_invoice db (ii_invoice_id n) = None then Some ForeignKeyViolation else None)"
| "invoice_item_reference_error db (TgUpdate old n) =
     (if ii_invoice_id n \<noteq> ii_invoice_id old \<and> find_invoice db (ii_invoice_id n) = None
      then Some ForeignKeyViolation else None)"
| "invoice_item_reference_error db (TgDelete old) = None"

fun fire_invoice_triggers ::
    "database \<Rightarrow> invoice_item trigger_event list \<Rightarrow> db_error + database" where
  "fire_invoice_triggers db [] = Inr db"
| "fire_invoice_triggers db (ev # evs) =
     (case invoice_item_reference_error db ev of
        Some err \<Rightarrow> Inl err
      | None \<Rightarrow>
          (case recalculate_invoice_totals db ev of
             Inl err \<Rightarrow> Inl err
           | Inr db' \<Rightarrow> fire_invoice_triggers db' evs))"

definition insert_invoice_items_under ::
    "(invoice_item \<Rightarrow> bool) \<Rightarrow> database \<Rightarrow> invoice_item list \<Rightarrow> db_error + database" where
  "insert_invoice_items_under policy db rows =
     (case first_error (map invoice_item_input_error rows) of
        Some err \<Rightarrow> Inl err
      | None \<Rightarrow>
          (case add_invoice_items policy db rows of
             Inl err \<Rightarrow> Inl err
           | Inr db1 \<Rightarrow> fire_invoice_triggers db1 (map TgInsert rows)))"

definition insert_invoice_items :: "database \<Rightarrow> invoice_item list \<Rightarrow> db_error + database" where
  "insert_invoice_items db rows = insert_invoice_items_under (\<lambda>r. True) db rows"

definition insert_invoice_items_as ::
    "uuid option \<Rightarrow> database \<Rightarrow> invoice_item list \<Rightarrow> db_error + database" where
  "insert_invoice_items_as uid db rows =
     insert_invoice_items_under (\<lambda>r. owns_invoice db uid (ii_invoice_id r)) db rows"

definition patch_invoice_item :: "item_patch \<Rightarrow> invoice_item \<Rightarrow> invoice_item" where
  "patch_invoice_item p it =
     it\<lparr>ii_invoice_id := coalesce_const (p_parent_id p) (ii_invoice_id it),
        ii_description := coalesce_const (p_description p) (ii_description it),
        ii_quantity := coalesce_const (p_quantity p) (ii_quantity it),
        ii_unit := coalesce_const (p_unit p) (ii_unit it),
        ii_unit_price := coalesce_const (p_unit_price p) (ii_unit_price it),
        ii_sort_order := coalesce_const (p_sort_order p) (ii_sort_order it)\<rparr>"

definition update_invoice_items ::
    "database \<Rightarrow> (invoice_item \<Rightarrow> bool) \<Rightarrow> item_patch \<Rightarrow> db_error + database" where
  "update_invoice_items db sel p =
     (let old = filter sel (invoice_items db) in
      case first_error (map (\<lambda>it. invoice_item_row_error (patch_invoice_item p it)) old) of
        Some err \<Rightarrow> Inl err
      | None \<Rightarrow>
          fire_invoice_triggers
            (db\<lparr>invoice_items := map (\<lambda>it. if sel it then patch_invoice_item p it else it)
                                   (invoice_items db)\<rparr>)
            (map (\<lambda>it. TgUpdate it (patch_invoice_item p it)) old))"

definition delete_invoice_items ::
    "database \<Rightarrow> (invoice_item \<Rightarrow> bool) \<Rightarrow> db_error + database" where
  "delete_invoice_items db sel =
     fire_invoice_triggers
       (db\<lparr>invoice_items := filter (\<lambda>it. \<not> sel it) (invoice_items db)\<rparr>)
       (map TgDelete (filter sel (invoice_items db)))"

section \<open>Documents and their totals\<close>

text \<open>
  A document is an estimate or an invoice.  The next definitions read a document's stored
  totals and its current line items out of the store, and name the single-row changes of
  the two item tables, so that a property of "every document" is one statement.
\<close>

datatype doc_ref = EstimateRef uuid | InvoiceRef uuid

record totals =
  t_subtotal :: decimal
  t_tax_rate :: decimal
  t_tax_amount :: decimal
  t_total :: decimal

fun document_totals :: "database \<Rightarrow> doc_ref \<Rightarrow> totals option" where
  "document_totals db (EstimateRef k) =
     map_option (\<lambda>e. \<lparr>t_subtotal = est_subtotal e, t_tax_rate = est_tax_rate e,
                       t_tax_amount = est_tax_amount e, t_total = est_total e\<rparr>)
                (find_estimate db k)"
| "document_totals db (InvoiceRef k) =
     map_option (\<lambda>i. \<lparr>t_subtotal = inv_subtotal i, t_tax_rate = inv_tax_rate i,
                       t_tax_amount = inv_tax_amount i, t_total = inv_total i\<rparr>)
                (find_invoice db k)"

text \<open>The (quantity, unit price) pairs of the document's current line items.\<close>

fun document_lines :: "database \<Rightarrow> doc_ref \<Rightarrow> (decimal \<times> decimal) list" where
  "document_lines db (EstimateRef k) =
     map (\<lambda>it. (ei_quantity it, ei_unit_price it)) (estimate_items_of db k)"
| "document_lines db (InvoiceRef k) =
     map (\<lambda>it. (ii_quantity it, ii_unit_price it)) (invoice_items_of db k)"

datatype item_mutation =
    InsertEstimateItem estimate_item
  | UpdateEstimateItem uuid item_patch
  | DeleteEstimateItem uuid
  | InsertInvoiceItem invoice_item
  | UpdateInvoiceItem uuid item_patch
  | DeleteInvoiceItem uuid

fun apply_item_mutation :: "database \<Rightarrow> item_mutation \<Rightarrow> db_error + database" where
  "apply_item_mutation db (InsertEstimateItem r) = insert_estimate_items db [r]"
| "apply_item_mutation db (UpdateEstimateItem x p) =
     update_estimate_items db (\<lambda>it. ei_id it = x) p"
| "apply_item_mutation db (DeleteEstimateItem x) =
     delete_estimate_items db (\<lambda>it. ei_id it = x)"
| "apply_item_mutation db (InsertInvoiceItem r) = insert_invoice_items db [r]"
| "apply_item_mutation db (UpdateInvoiceItem x p) =
     update_invoice_items db (\<lambda>it. ii_id it = x) p"
| "apply_item_mutation db (DeleteInvoiceItem x) =
     delete_invoice_items db (\<lambda>it. ii_id it = x)"

text \<open>
  The documents whose totals the triggers of the mutation recompute, those with the id
  \<^verbatim>\<open>COALESCE(NEW.estimate_id, OLD.estimate_id)\<close>: the parent of the new row of an insert,
  the parent after the update of an updated row, the parent of a deleted row.  The parents
  before the mutation are the other documents it touches.
\<close>

fun recalculated_documents :: "database \<Rightarrow> item_mutation \<Rightarrow> doc_ref list" where
  "recalculated_documents db (InsertEstimateItem r) = [EstimateRef (ei_estimate_id r)]"
| "recalculated_documents db (UpdateEstimateItem x p) =
     map (\<lambda>it. EstimateRef (ei_estimate_id (patch_estimate_item p it)))
         (filter (\<lambda>it. ei_id it = x) (estimate_items db))"
| "recalculated_documents db (DeleteEstimateItem x) =
     map (\<lambda>it. EstimateRef (ei_estimate_id it)) (filter (\<lambda>it. ei_id it = x) (estimate_items db))"
| "recalculated_documents db (InsertInvoiceItem r) = [InvoiceRef (ii_invoice_id r)]"
| "recalculated_documents db (UpdateInvoiceItem x p) =
     map (\<lambda>it. InvoiceRef (ii_invoice_id (patch_invoice_item p it)))
         (filter (\<lambda>it. ii_id it = x) (invoice_items db))"
| "recalculated_documents db (DeleteInvoiceItem x) =
     map (\<lambda>it. InvoiceRef (ii_invoice_id it)) (filter (\<lambda>it. ii_id it = x) (invoice_items db))"

fun documents_before :: "database \<Rightarrow> item_mutation \<Rightarrow> doc_ref list" where
  "documents_before db (InsertEstimateItem r) = []"
| "documents_before db (UpdateEstimateItem x p) =
     map (\<lambda>it. EstimateRef (ei_estimate_id it)) (filter (\<lambda>it. ei_id it = x) (estimate_items db))"
| "documents_before db (DeleteEstimateItem x) =
     map (\<lambda>it. EstimateRef (ei_estimate_id it)) (filter (\<lambda>it. ei_id it = x) (estimate_items db))"
| "documents_before db (InsertInvoiceItem r) = []"
| "documents_before db (UpdateInvoiceItem x p) =
     map (\<lambda>it. InvoiceRef (ii_invoice_id it)) (filter (\<lambda>it. ii_id it = x) (invoice_items db))"
| "documents_before db (DeleteInvoiceItem x) =
     map (\<lambda>it. InvoiceRef (ii_invoice_id it)) (filter (\<lambda>it. ii_id it = x) (invoice_items db))"

text \<open>
  The stored totals of document \<open>k\<close> agree with the current items of \<open>k\<close>: what the
  trigger establishes.
\<close>

definition estimate_in_sync :: "database \<Rightarrow> uuid \<Rightarrow> bool" where
  "estimate_in_sync db k =
     (case find_estimate db k of
        None \<Rightarrow> True
      | Some e \<Rightarrow>
          est_subtotal e =
            round_half_away (sum_list (map (\<lambda>it. ei_quantity it * ei_unit_price it)
                                          (estimate_items_of db k))) 100
          \<and> est_tax_amount e = round_half_away (est_subtotal e * est_tax_rate e) 10000
          \<and> est_total e = est_subtotal e + est_tax_amount e)"

definition invoice_in_sync :: "database \<Rightarrow> uuid \<Rightarrow> bool" where
  "invoice_in_sync db k =
     (case find_invoice db k of
        None \<Rightarrow> True
      | Some i \<Rightarrow>
          inv_subtotal i =
            round_half_away (sum_list (map (\<lambda>it. ii_quantity it * ii_unit_price it)
                                          (invoice_items_of db k))) 100
          \<and> inv_tax_amount i = round_half_away (inv_subtotal i * inv_tax_rate i) 10000
          \<and> inv_total i = inv_subtotal i + inv_tax_amount i)"

text \<open>A row with its three stored totals blanked: everything the trigger does not write.\<close>

definition est_core :: "estimate \<Rightarrow> estimate" where
  "est_core e = e\<lparr>est_subtotal := 0, est_tax_amount := 0, est_total := 0\<rparr>"

definition inv_core :: "invoice \<Rightarrow> invoice" where
  "inv_core i = i\<lparr>inv_subtotal := 0, inv_tax_amount := 0, inv_total := 0\<rparr>"

text \<open>The trigger's \<^verbatim>\<open>UPDATE\<close> as a function of one row.\<close>

definition set_estimate_totals :: "uuid \<Rightarrow> decimal \<Rightarrow> decimal \<Rightarrow> estimate \<Rightarrow> estimate" where
  "set_estimate_totals k s t e =
     (if est_id e = k then e\<lparr>est_subtotal := s, est_tax_amount := t, est_total := s + t\<rparr>
      else e)"

definition set_invoice_totals :: "uuid \<Rightarrow> decimal \<Rightarrow> decimal \<Rightarrow> invoice \<Rightarrow> invoice" where
  "set_invoice_totals k s t i =
     (if inv_id i = k then i\<lparr>inv_subtotal := s, inv_tax_amount := t, inv_total := s + t\<rparr>
      else i)"

fun document_in_sync :: "database \<Rightarrow> doc_ref \<Rightarrow> bool" where
  "document_in_sync db (EstimateRef k) = estimate_in_sync db k"
| "document_in_sync db (InvoiceRef k) = invoice_in_sync db k"


section \<open>Statements on the document tables\<close>

text \<open>
  Document numbers are unique per tenant:
  \<^verbatim>\<open>CREATE UNIQUE INDEX idx_estimates_number_user ON estimates(user_id, estimate_number)\<close> and
  \<^verbatim>\<open>idx_invoices_number_user ON invoices(user_id, invoice_number)\<close>.

  The store treats a new row in this order.  The values are read into the types of the
  columns, in the order of the columns: the number is a \<^verbatim>\<open>VARCHAR(50)\<close>, the title a
  \<^verbatim>\<open>VARCHAR(255)\<close>, the tax rate a \<^verbatim>\<open>DECIMAL(5, 2)\<close>, the totals are \<^verbatim>\<open>DECIMAL(12, 2)\<close>
  (a longer string is refused, as for the items).  The row must pass the policy
  \<^verbatim>\<open>WITH CHECK (auth.uid() = user_id)\<close>.  It enters the primary key and the unique
  index.  Its references to a client (and a source estimate) are checked when the
  statement ends.  The tenant's own row in \<^verbatim>\<open>profiles\<close> is taken to exist.

  Row-level security restricts every statement to the rows of the signed-in tenant.  The
  statements that are given a session (\<open>insert_estimate_as\<close>, \<open>update_estimate_as\<close>, ...)
  apply the policies; the others are the statements of the tenant that owns the rows
  they name.
\<close>

definition estimate_input_error :: "estimate \<Rightarrow> db_error option" where
  "estimate_input_error r =
     (if length (estimate_number r) > 50 \<or> length (est_title r) > 255 then Some StringTooLong
      else if \<not> (numeric_fits 12 (est_subtotal r) \<and> numeric_fits 5 (est_tax_rate r)
                  \<and> numeric_fits 12 (est_tax_amount r) \<and> numeric_fits 12 (est_total r))
      then Some NumericOverflow
      else None)"

definition invoice_input_error :: "invoice \<Rightarrow> db_error option" where
  "invoice_input_error r =
     (if length (invoice_number r) > 50 \<or> length (inv_title r) > 255 then Some StringTooLong
      else if \<not> (numeric_fits 12 (inv_subtotal r) \<and> numeric_fits 5 (inv_tax_rate r)
                  \<and> numeric_fits 12 (inv_tax_amount r) \<and> numeric_fits 12 (inv_total r))
      then Some NumericOverflow
      else None)"

definition estimate_reference_error :: "database \<Rightarrow> estimate \<Rightarrow> db_error option" where
  "estimate_reference_error db r =
     (if (case est_client_id r of None \<Rightarrow> False
          | Some c \<Rightarrow> c \<notin> set (map cl_id (clients db)))
      then Some ForeignKeyViolation
      else None)"

definition invoice_reference_error :: "database \<Rightarrow> invoice \<Rightarrow> db_error option" where
  "invoice_reference_error db r =
     (if (case inv_client_id r of None \<Rightarrow> False
          | Some c \<Rightarrow> c \<notin> set (map cl_id (clients db)))
         \<or> (case inv_source_estimate_id r of None \<Rightarrow> False
             | Some e \<Rightarrow> e \<notin> set (map est_id (estimates db)))
      then Some ForeignKeyViolation
      else None)"

definition insert_estimate_as :: "uuid option \<Rightarrow> database \<Rightarrow> estimate \<Rightarrow> db_error + database" where
  "insert_estimate_as uid db r =
     (case estimate_input_error r of
        Some err \<Rightarrow> Inl err
      | None \<Rightarrow>
          if uid \<noteq> Some (est_user_id r) then Inl PolicyViolation
          else if est_id r \<in> set (map est_id (estimates db)) then Inl UniqueViolation
          else if (est_user_id r, estimate_number r)
                    \<in> set (map (\<lambda>e. (est_user_id e, estimate_number e)) (estimates db))
          then Inl UniqueViolation
          else case estimate_reference_error db r of
                 Some err \<Rightarrow> Inl err
               | None \<Rightarrow> Inr (db\<lparr>estimates := estimates db @ [r]\<rparr>))"

definition insert_invoice_as :: "uuid option \<Rightarrow> database \<Rightarrow> invoice \<Rightarrow> db_error + database" where
  "insert_invoice_as uid db r =
     (case invoice_input_error r of
        Some err \<Rightarrow> Inl err
      | None \<Rightarrow>
          if uid \<noteq> Some (inv_user_id r) then Inl PolicyViolation
          else if inv_id r \<in> set (map inv_id (invoices db)) then Inl UniqueViolation
          else if (inv_user_id r, invoice_number r)
                    \<in> set (map (\<lambda>i. (inv_user_id i, invoice_number i)) (invoices db))
          then Inl UniqueViolation
          else case invoice_reference_error db r of
                 Some err \<Rightarrow> Inl err
               | None \<Rightarrow> Inr (db\<lparr>invoices := invoices db @ [r]\<rparr>))"

definition insert_estimate :: "database \<Rightarrow> estimate \<Rightarrow> db_error + database" where
  "insert_estimate db r = insert_estimate_as (Some (est_user_id r)) db r"

definition insert_invoice :: "database \<Rightarrow> invoice \<Rightarrow> db_error + database" where
  "insert_invoice db r = insert_invoice_as (Some (inv_user_id r)) db r"

text \<open>
  \<^verbatim>\<open>UPDATE estimates SET ... WHERE id = k\<close>, the assignments given as a function of the row.
  The store checks what the statement changes, in the order of an insert: a changed string
  or decimal must fit its column, the changed row must pass the policy (\<open>allowed\<close>), a
  changed primary key or (tenant, number) pair must be new to the table, a changed client
  must exist.  An update of the status, the archive stamp or the paid date alone can
  therefore not fail.  In a session the statement sees the rows of that tenant only
  (\<^verbatim>\<open>USING (auth.uid() = user_id)\<close>); a row it does not see is left as it is, without an
  error.
\<close>

definition estimate_update_error ::
    "bool \<Rightarrow> database \<Rightarrow> estimate \<Rightarrow> estimate \<Rightarrow> db_error option" where
  "estimate_update_error allowed db old new =
     (if (estimate_number new \<noteq> estimate_number old \<and> length (estimate_number new) > 50)
         \<or> (est_title new \<noteq> est_title old \<and> length (est_title new) > 255)
      then Some StringTooLong
      else if (est_subtotal new \<noteq> est_subtotal old \<and> \<not> numeric_fits 12 (est_subtotal new))
         \<or> (est_tax_rate new \<noteq> est_tax_rate old \<and> \<not> numeric_fits 5 (est_tax_rate new))
         \<or> (est_tax_amount new \<noteq> est_tax_amount old \<and> \<not> numeric_fits 12 (est_tax_amount new))
         \<or> (est_total new \<noteq> est_total old \<and> \<not> numeric_fits 12 (est_total new))
      then Some NumericOverflow
      else if \<not> allowed then Some PolicyViolation
      else if est_id new \<noteq> est_id old \<and> est_id new \<in> set (map est_id (estimates db))
      then Some UniqueViolation
      else if (est_user_id new, estimate_number new) \<noteq> (est_user_id old, estimate_number old)
              \<and> (est_user_id new, estimate_number new)
                    \<in> set (map (\<lambda>e. (est_user_id e, estimate_number e)) (estimates db))
      then Some UniqueViolation
      else if est_client_id new \<noteq> est_client_id old
              \<and> (case est_client_id new of None \<Rightarrow> False
                  | Some c \<Rightarrow> c \<notin> set (map cl_id (clients db)))
      then Some ForeignKeyViolation
      else None)"

definition invoice_update_error ::
    "bool \<Rightarrow> database \<Rightarrow> invoice \<Rightarrow> invoice \<Rightarrow> db_error option" where
  "invoice_update_error allowed db old new =
     (if (invoice_number new \<noteq> invoice_number old \<and> length (invoice_number new) > 50)
         \<or> (inv_title new \<noteq> inv_title old \<and> length (inv_title new) > 255)
      then Some StringTooLong
      else if (inv_subtotal new \<noteq> inv_subtotal old \<and> \<not> numeric_fits 12 (inv_subtotal new))
         \<or> (inv_tax_rate new \<noteq> inv_tax_rate old \<and> \<not> numeric_fits 5 (inv_tax_rate new))
         \<or> (inv_tax_amount new \<noteq> inv_tax_amount old \<and> \<not> numeric_fits 12 (inv_tax_amount new))
         \<or> (inv_total new \<noteq> inv_total old \<and> \<not> numeric_fits 12 (inv_total new))
      then Some NumericOverflow
      else if \<not> allowed then Some PolicyViolation
      else if inv_id new \<noteq> inv_id old \<and> inv_id new \<in> set (map inv_id (invoices db))
      then Some UniqueViolation
      else if (inv_user_id new, invoice_number new) \<noteq> (inv_user_id old, invoice_number old)
              \<and> (inv_user_id new, invoice_number new)
                    \<in> set (map (\<lambda>i. (inv_user_id i, invoice_number i)) (invoices db))
      then Some UniqueViolation
      else if (inv_client_id new \<noteq> inv_client_id old
               \<and> (case inv_client_id new of None \<Rightarrow> False
                   | Some c \<Rightarrow> c \<notin> set (map cl_id (clients db))))
              \<or> (inv_source_estimate_id new \<noteq> inv_source_estimate_id old
                  \<and> (case inv_source_estimate_id new of None \<Rightarrow> False
                      | Some e \<Rightarrow> e \<notin> set (map est_id (estimates db))))
      then Some ForeignKeyViolation
      else None)"

definition update_estimate :: "database \<Rightarrow> uuid \<Rightarrow> (estimate \<Rightarrow> estimate) \<Rightarrow> db_error + database" where
  "update_estimate db k f =
     (case first_error (map (\<lambda>e. estimate_update_error True db e (f e))
                            (filter (\<lambda>e. est_id e = k) (estimates db))) of
        Some err \<Rightarrow> Inl err
      | None \<Rightarrow> Inr (db\<lparr>estimates := map (\<lambda>e. if est_id e = k then f e else e) (estimates db)\<rparr>))"

definition update_invoice :: "database \<Rightarrow> uuid \<Rightarrow> (invoice \<Rightarrow> invoice) \<Rightarrow> db_error + database" where
  "update_invoice db k f =
     (case first_error (map (\<lambda>i. invoice_update_error True db i (f i))
                            (filter (\<lambda>i. inv_id i = k) (invoices db))) of
        Some err \<Rightarrow> Inl err
      | None \<Rightarrow> Inr (db\<lparr>invoices := map (\<lambda>i. if inv_id i = k then f i else i) (invoices db)\<rparr>))"

definition update_estimate_as ::
    "uuid option \<Rightarrow> database \<Rightarrow> uuid \<Rightarrow> (estimate \<Rightarrow> estimate) \<Rightarrow> db_error + database" where
  "update_estimate_as uid db k f =
     (case first_error
             (map (\<lambda>e. estimate_update_error (uid = Some (est_user_id (f e))) db e (f e))
                  (filter (\<lambda>e. est_id e = k \<and> uid = Some (est_user_id e)) (estimates db))) of
        Some err \<Rightarrow> Inl err
      | None \<Rightarrow>
          Inr (db\<lparr>estimates := map (\<lambda>e. if est_id e = k \<and> uid = Some (est_user_id e) then f e
                                         else e)
                                    (estimates db)\<rparr>))"

definition update_invoice_as ::
    "uuid option \<Rightarrow> database \<Rightarrow> uuid \<Rightarrow> (invoice \<Rightarrow> invoice) \<Rightarrow> db_error + database" where
  "update_invoice_as uid db k f =
     (case first_error
             (map (\<lambda>i. invoice_update_error (uid = Some (inv_user_id (f i))) db i (f i))
                  (filter (\<lambda>i. inv_id i = k \<and> uid = Some (inv_user_id i)) (invoices db))) of
        Some err \<Rightarrow> Inl err
      | None \<Rightarrow>
          Inr (db\<lparr>invoices := map (\<lambda>i. if inv_id i = k \<and> uid = Some (inv_user_id i) then f i
                                        else i)
                                   (invoices db)\<rparr>))"

text \<open>
  \<^verbatim>\<open>select ... .eq('id', k).single()\<close> in a session: the row with that id, when the
  session's tenant owns it (\<^verbatim>\<open>USING (auth.uid() = user_id)\<close>).
\<close>

definition select_estimate :: "uuid option \<Rightarrow> database \<Rightarrow> uuid \<Rightarrow> estimate option" where
  "select_estimate uid db k =
     find (\<lambda>e. est_id e = k \<and> uid = Some (est_user_id e)) (estimates db)"

definition select_client :: "uuid option \<Rightarrow> database \<Rightarrow> uuid \<Rightarrow> client option" where
  "select_client uid db c =
     find (\<lambda>cl. cl_id cl = c \<and> uid = Some (cl_user_id cl)) (clients db)"

section \<open>Clock and document numbers\<close>

text \<open>
  \<^verbatim>\<open>Date.now().toString().slice(-6)\<close>: the decimal digits of the clock reading, and of them
  the last six.  \<^verbatim>\<open>new Date(t).toISOString().split('T')[0]\<close> is the UTC calendar day of the
  instant \<open>t\<close>.
\<close>

definition digit_char :: "nat \<Rightarrow> char" where
  "digit_char n = ''0123456789'' ! (n mod 10)"

fun nat_digits :: "nat \<Rightarrow> string" where
  "nat_digits n = (if n < 10 then [digit_char n] else nat_digits (n div 10) @ [digit_char n])"

declare nat_digits.simps [simp del]

definition js_number_string :: "int \<Rightarrow> string" where
  "js_number_string i =
     (if 0 \<le> i then nat_digits (nat i) else CHR ''-'' # nat_digits (nat (- i)))"

definition slice_last :: "nat \<Rightarrow> string \<Rightarrow> string" where
  "slice_last n s = drop (length s - n) s"

definition document_number :: "string \<Rightarrow> instant \<Rightarrow> string" where
  "document_number prefix now = prefix @ ''-'' @ slice_last 6 (js_number_string now)"

definition ms_per_day :: int where
  "ms_per_day = 24 * 60 * 60 * 1000"

definition utc_date :: "instant \<Rightarrow> date" where
  "utc_date t = t div ms_per_day"

section \<open>Converting an estimate into an invoice\<close>

text \<open>
  \<^verbatim>\<open>EstimateDetail\<close> receives the estimate with its client and its item rows as the page
  loaded them (\<^verbatim>\<open>select('*, client:clients(*), items:estimate_items(*))\<close>, no ordering).
  \<^verbatim>\<open>handleConvertToInvoice\<close> reads the clock three times (number, issue date, due date),
  inserts the invoice without totals (the columns take their default 0), and, when the
  estimate has items, inserts one invoice item per estimate item, the sort order being
  the item's index in the list.  The ids the store generates are given.
\<close>

record estimate_detail =
  d_estimate :: estimate
  d_client :: "client option"
  d_items :: "estimate_item list"

record convert_env =
  now_number :: instant
  now_issue :: instant
  now_due :: instant
  new_invoice_id :: uuid
  new_item_id :: "nat \<Rightarrow> uuid"

datatype convert_outcome = InvoiceCreated uuid | ConvertFailed

definition converted_invoice :: "uuid \<Rightarrow> estimate_detail \<Rightarrow> convert_env \<Rightarrow> invoice" where
  "converted_invoice userId est env =
     \<lparr>inv_id = new_invoice_id env,
      inv_user_id = userId,
      inv_client_id = map_option cl_id (d_client est),
      inv_source_estimate_id = Some (est_id (d_estimate est)),
      invoice_number = document_number ''INV'' (now_number env),
      inv_title = est_title (d_estimate est),
      inv_description = est_description (d_estimate est),
      inv_status = Unpaid,
      inv_issue_date = utc_date (now_issue env),
      inv_due_date = Some (utc_date (now_due env + 30 * 24 * 60 * 60 * 1000)),
      inv_paid_date = None,
      inv_subtotal = 0,
      inv_tax_rate = est_tax_rate (d_estimate est),
      inv_tax_amount = 0,
      inv_total = 0,
      inv_notes = est_notes (d_estimate est),
      inv_archived_at = None\<rparr>"

definition converted_item :: "convert_env \<Rightarrow> nat \<times> estimate_item \<Rightarrow> invoice_item" where
  "converted_item env x =
     (case x of (index, item) \<Rightarrow>
        \<lparr>ii_id = new_item_id env index,
         ii_invoice_id = new_invoice_id env,
         ii_description = ei_description item,
         ii_quantity = ei_quantity item,
         ii_unit = ei_unit item,
         ii_unit_price = ei_unit_price item,
         ii_sort_order = int index\<rparr>)"

definition converted_items :: "estimate_detail \<Rightarrow> convert_env \<Rightarrow> invoice_item list" where
  "converted_items est env = map (converted_item env) (enumerate 0 (d_items est))"

definition handleConvertToInvoice ::
    "database \<Rightarrow> uuid \<Rightarrow> estimate_detail \<Rightarrow> convert_env \<Rightarrow> database \<times> convert_outcome" where
  "handleConvertToInvoice db userId est env =
     (case insert_invoice db (converted_invoice userId est env) of
        Inl err \<Rightarrow> (db, ConvertFailed)
      | Inr db1 \<Rightarrow>
          (let itemsToInsert = converted_items est env in
           if length itemsToInsert > 0
           then (case insert_invoice_items db1 itemsToInsert of
                   Inl err \<Rightarrow> (db1, ConvertFailed)
                 | Inr db2 \<Rightarrow> (db2, InvoiceCreated (new_invoice_id env)))
           else (db1, InvoiceCreated (new_invoice_id env))))"

text \<open>The detail page shows "Convert to Invoice" for an approved estimate only.\<close>

definition convert_offered :: "estimate_detail \<Rightarrow> bool" where
  "convert_offered est = (est_status (d_estimate est) = Approved)"


section \<open>Invoice lifecycle\<close>

text \<open>
  \<^verbatim>\<open>isOverdue\<close> of \<^verbatim>\<open>InvoicesList\<close> and \<^verbatim>\<open>InvoiceDetail\<close>:
  \<^verbatim>\<open>status === 'unpaid' && due_date && new Date(due_date) < new Date()\<close>.  It is computed
  when the component renders and stored nowhere.  \<^verbatim>\<open>new Date('YYYY-MM-DD')\<close> is midnight
  UTC at the start of that day; \<^verbatim>\<open>new Date()\<close> is the current instant.
\<close>

definition isOverdue :: "invoice_status \<Rightarrow> date option \<Rightarrow> instant \<Rightarrow> bool" where
  "isOverdue st due_date now =
     (st = Unpaid \<and> (case due_date of None \<Rightarrow> False | Some d \<Rightarrow> d * ms_per_day < now))"

text \<open>The spec's reading: unpaid, a due date set, and the due date before today.\<close>

definition spec_overdue :: "invoice_status \<Rightarrow> date option \<Rightarrow> date \<Rightarrow> bool" where
  "spec_overdue st due_date today =
     (st = Unpaid \<and> (case due_date of None \<Rightarrow> False | Some d \<Rightarrow> d < today))"

text \<open>
  \<^verbatim>\<open>handleTogglePaid\<close> (detail page and list): the new status is the opposite of the current
  one, the paid date is today (UTC) when the new status is paid and null otherwise; both
  are written in one \<^verbatim>\<open>UPDATE\<close>.  On an error the component keeps its state.
\<close>

definition handleTogglePaid ::
    "database \<Rightarrow> uuid \<Rightarrow> invoice_status \<Rightarrow> instant \<Rightarrow> database \<times> invoice_status" where
  "handleTogglePaid db invoice_id currentStatus now =
     (let newStatus = (if currentStatus = Paid then Unpaid else Paid);
          newPaidDate = (if newStatus = Paid then Some (utc_date now) else None)
      in case update_invoice db invoice_id
                (\<lambda>i. i\<lparr>inv_status := newStatus, inv_paid_date := newPaidDate\<rparr>) of
           Inl err \<Rightarrow> (db, currentStatus)
         | Inr db' \<Rightarrow> (db', newStatus))"

text \<open>The invariant of the data model: a paid date is recorded exactly for paid invoices.\<close>

definition paid_date_consistent :: "invoice \<Rightarrow> bool" where
  "paid_date_consistent i = ((inv_paid_date i \<noteq> None) = (inv_status i = Paid))"

section \<open>Estimate lifecycle and the archive flag\<close>

text \<open>\<^verbatim>\<open>handleStatusChange\<close> of the estimate detail page: any status may be set.\<close>

definition handleStatusChange :: "database \<Rightarrow> uuid \<Rightarrow> estimate_status \<Rightarrow> database \<times> bool" where
  "handleStatusChange db estimate_id newStatus =
     (case update_estimate db estimate_id (\<lambda>e. e\<lparr>est_status := newStatus\<rparr>) of
        Inl err \<Rightarrow> (db, False)
      | Inr db' \<Rightarrow> (db', True))"

text \<open>
  \<^verbatim>\<open>handleArchive\<close>: \<^verbatim>\<open>archivedAt ? null : new Date().toISOString()\<close> is written to
  \<^verbatim>\<open>archived_at\<close> and, unless the store reports an error, kept as the component's state.
\<close>

definition handleArchive_estimate ::
    "database \<Rightarrow> uuid \<Rightarrow> instant option \<Rightarrow> instant \<Rightarrow> database \<times> instant option" where
  "handleArchive_estimate db estimate_id archivedAt now =
     (let newArchivedAt = (case archivedAt of Some a \<Rightarrow> None | None \<Rightarrow> Some now)
      in case update_estimate db estimate_id (\<lambda>e. e\<lparr>est_archived_at := newArchivedAt\<rparr>) of
           Inl err \<Rightarrow> (db, archivedAt)
         | Inr db' \<Rightarrow> (db', newArchivedAt))"

definition handleArchive_invoice ::
    "database \<Rightarrow> uuid \<Rightarrow> instant option \<Rightarrow> instant \<Rightarrow> database \<times> instant option" where
  "handleArchive_invoice db invoice_id archivedAt now =
     (let newArchivedAt = (case archivedAt of Some a \<Rightarrow> None | None \<Rightarrow> Some now)
      in case update_invoice db invoice_id (\<lambda>i. i\<lparr>inv_archived_at := newArchivedAt\<rparr>) of
           Inl err \<Rightarrow> (db, archivedAt)
         | Inr db' \<Rightarrow> (db', newArchivedAt))"

text \<open>
  \<^verbatim>\<open>EstimatesPage\<close>: the tenant's estimates with \<^verbatim>\<open>archived_at\<close> null (the order, by creation
  time, is not kept).
\<close>

definition EstimatesPage :: "database \<Rightarrow> uuid \<Rightarrow> estimate list" where
  "EstimatesPage db tenant =
     filter (\<lambda>e. est_user_id e = tenant \<and> est_archived_at e = None) (estimates db)"

text \<open>
  \<^verbatim>\<open>InvoicesPage\<close>: the tenant's invoices, \<^verbatim>\<open>select('*, client:clients(*)')\<close> ordered by
  creation time, with no condition on \<^verbatim>\<open>archived_at\<close>; \<^verbatim>\<open>InvoicesList\<close> shows every row
  it is given.
\<close>

definition InvoicesPage :: "database \<Rightarrow> uuid \<Rightarrow> invoice list" where
  "InvoicesPage db tenant = filter (\<lambda>i. inv_user_id i = tenant) (invoices db)"

text \<open>
  The pages that open one document (\<^verbatim>\<open>InvoicePage\<close>, \<^verbatim>\<open>EditInvoicePage\<close>,
  \<^verbatim>\<open>EditEstimatePage\<close>) select it by id alone, archived or not: \<open>find_estimate\<close> and
  \<open>find_invoice\<close>.  The document-level views of these operations:
\<close>

datatype doc_row = EstimateRow estimate | InvoiceRow invoice

datatype doc_status = EstimateStatus estimate_status | InvoiceStatus invoice_status

fun document_row :: "database \<Rightarrow> doc_ref \<Rightarrow> doc_row option" where
  "document_row db (EstimateRef k) = map_option EstimateRow (find_estimate db k)"
| "document_row db (InvoiceRef k) = map_option InvoiceRow (find_invoice db k)"

fun row_status :: "doc_row \<Rightarrow> doc_status" where
  "row_status (EstimateRow e) = EstimateStatus (est_status e)"
| "row_status (InvoiceRow i) = InvoiceStatus (inv_status i)"

fun row_archived_at :: "doc_row \<Rightarrow> instant option" where
  "row_archived_at (EstimateRow e) = est_archived_at e"
| "row_archived_at (InvoiceRow i) = inv_archived_at i"

fun row_owner :: "doc_row \<Rightarrow> uuid" where
  "row_owner (EstimateRow e) = est_user_id e"
| "row_owner (InvoiceRow i) = inv_user_id i"

fun set_row_archived_at :: "instant option \<Rightarrow> doc_row \<Rightarrow> doc_row" where
  "set_row_archived_at a (EstimateRow e) = EstimateRow (e\<lparr>est_archived_at := a\<rparr>)"
| "set_row_archived_at a (InvoiceRow i) = InvoiceRow (i\<lparr>inv_archived_at := a\<rparr>)"

fun handleArchive ::
    "database \<Rightarrow> doc_ref \<Rightarrow> instant option \<Rightarrow> instant \<Rightarrow> database \<times> instant option" where
  "handleArchive db (EstimateRef k) archivedAt now = handleArchive_estimate db k archivedAt now"
| "handleArchive db (InvoiceRef k) archivedAt now = handleArchive_invoice db k archivedAt now"

fun default_list :: "database \<Rightarrow> uuid \<Rightarrow> doc_ref \<Rightarrow> bool" where
  "default_list db tenant (EstimateRef k) = (k \<in> set (map est_id (EstimatesPage db tenant)))"
| "default_list db tenant (InvoiceRef k) = (k \<in> set (map inv_id (InvoicesPage db tenant)))"

section \<open>Sending an estimate\<close>

text \<open>
  \<^verbatim>\<open>sendEstimateAction\<close> runs in the session of the signed-in user: it reads the estimate
  and, joined to it, the client through the policies, so that an estimate or a client of
  another tenant is not found.  Without a signed-in user, without the estimate, or
  without an email address of its client the action fails at once.  Otherwise the mail is
  handed to the mail service, whose answer is given: delivered, refused for an unverified
  domain, or failed otherwise.  Only after a delivery is the status set to sent, whatever
  it was; the result of that \<^verbatim>\<open>UPDATE\<close> is not looked at.
\<close>

datatype dispatch_result = Delivered | DomainNotVerified | DispatchFailed

datatype send_result = SendOk | SendError string

definition client_email :: "uuid option \<Rightarrow> database \<Rightarrow> estimate \<Rightarrow> string option" where
  "client_email uid db e =
     (case est_client_id e of
        None \<Rightarrow> None
      | Some c \<Rightarrow>
          (case select_client uid db c of
             None \<Rightarrow> None
           | Some cl \<Rightarrow>
               (case cl_email cl of
                  None \<Rightarrow> None
                | Some m \<Rightarrow> if m = [] then None else Some m)))"

definition sendEstimateAction ::
    "database \<Rightarrow> uuid option \<Rightarrow> uuid \<Rightarrow> dispatch_result \<Rightarrow> database \<times> send_result" where
  "sendEstimateAction db user estimateId dispatch =
     (case user of
        None \<Rightarrow> (db, SendError ''Unauthorized'')
      | Some u \<Rightarrow>
          (case select_estimate user db estimateId of
             None \<Rightarrow> (db, SendError ''Estimate not found'')
           | Some estimate \<Rightarrow>
               (case client_email user db estimate of
                  None \<Rightarrow> (db, SendError ''Client does not have an email address'')
                | Some to_address \<Rightarrow>
                    (case dispatch of
                       Delivered \<Rightarrow>
                         (case update_estimate_as user db estimateId
                                 (\<lambda>e. e\<lparr>est_status := Sent\<rparr>) of
                            Inl err \<Rightarrow> (db, SendOk)
                          | Inr db' \<Rightarrow> (db', SendOk))
                     | DomainNotVerified \<Rightarrow>
                         (db, SendError ''For testing, use your own email as the client email. Verify a domain at resend.com for production.'')
                     | DispatchFailed \<Rightarrow>
                         (db, SendError ''Failed to send email. Please check your email configuration.'')))))"

section \<open>The estimate form\<close>

text \<open>
  The state of \<^verbatim>\<open>EstimateForm\<close>.  An empty client selection or date is \<open>None\<close>; a number
  is the decimal it is stored as.  \<^verbatim>\<open>x || null\<close> turns the empty string into null, and
  \<^verbatim>\<open>trim()\<close> drops white space and line terminators at both ends; among the first 256
  code points these are U+0009 to U+000D, U+0020 and U+00A0.

  The totals the form shows (\<^verbatim>\<open>subtotal\<close>, \<^verbatim>\<open>taxAmount\<close>, \<^verbatim>\<open>total\<close>) are computed in binary
  floating point and sent with the estimate.  What the store reads of them into its
  \<^verbatim>\<open>DECIMAL(12, 2)\<close> columns is given with the submission (\<open>float_subtotal\<close>,
  \<open>float_tax_amount\<close>, \<open>float_total\<close>); the store then checks their range.  The ids the
  store generates, the session of the browser and the answer of the mail service are
  given with the submission as well.
\<close>

record line_item =
  li_description :: string
  li_quantity :: decimal
  li_unit :: string
  li_unit_price :: decimal

record estimate_form =
  ef_clientId :: "uuid option"
  ef_estimateNumber :: string
  ef_title :: string
  ef_description :: string
  ef_status :: estimate_status
  ef_issueDate :: date
  ef_validUntil :: "date option"
  ef_taxRate :: decimal
  ef_notes :: string
  ef_jobSiteAddress :: string
  ef_items :: "line_item list"
  ef_clientsList :: "client list"

text \<open>Create mode, or edit mode with the id and the status the form was loaded with.\<close>

datatype estimate_mode = CreateEstimate | EditEstimate uuid estimate_status

record submit_env =
  fresh_document_id :: uuid
  fresh_item_id :: "nat \<Rightarrow> uuid"
  session_user :: "uuid option"
  mail_service :: dispatch_result
  float_subtotal :: decimal
  float_tax_amount :: decimal
  float_total :: decimal

text \<open>
  What the form reports: a validation message, a failed save (one message for every error
  of the store, which is written to the console only), a save, a save followed by a
  delivered mail, or a save followed by a failed send with its message.
\<close>

datatype submit_outcome =
    ValidationError string
  | SaveFailed
  | Saved uuid
  | SentOk uuid
  | SendFailed uuid string

definition js_or_null :: "string \<Rightarrow> string option" where
  "js_or_null s = (if s = [] then None else Some s)"

definition js_whitespace :: "char \<Rightarrow> bool" where
  "js_whitespace c =
     (c \<in> set [CHR 0x09, CHR 0x0A, CHR 0x0B, CHR 0x0C, CHR 0x0D, CHR 0x20, CHR 0xA0])"

definition js_trim :: "string \<Rightarrow> string" where
  "js_trim s = rev (dropWhile js_whitespace (rev (dropWhile js_whitespace s)))"

definition validate_estimate_form :: "estimate_form \<Rightarrow> bool \<Rightarrow> string option" where
  "validate_estimate_form f sendEmail =
     (if js_trim (ef_title f) = [] then Some ''Please enter an estimate title''
      else if js_trim (ef_estimateNumber f) = [] then Some ''Please enter an estimate number''
      else if length (ef_items f) = 0 then Some ''Please add at least one line item''
      else if sendEmail then
        (case ef_clientId f of
           None \<Rightarrow> Some ''Please select a client to send the estimate''
         | Some c \<Rightarrow>
             (case find (\<lambda>cl. cl_id cl = c) (ef_clientsList f) of
                None \<Rightarrow> Some ''Selected client does not have an email address''
              | Some cl \<Rightarrow>
                  (case cl_email cl of
                     None \<Rightarrow> Some ''Selected client does not have an email address''
                   | Some m \<Rightarrow>
                       if m = [] then Some ''Selected client does not have an email address''
                       else None)))
      else None)"

definition estimate_item_row :: "uuid \<Rightarrow> submit_env \<Rightarrow> nat \<times> line_item \<Rightarrow> estimate_item" where
  "estimate_item_row estimate_id env x =
     (case x of (index, item) \<Rightarrow>
        \<lparr>ei_id = fresh_item_id env index,
         ei_estimate_id = estimate_id,
         ei_description = li_description item,
         ei_quantity = li_quantity item,
         ei_unit = li_unit item,
         ei_unit_price = li_unit_price item,
         ei_sort_order = int index\<rparr>)"

definition estimate_item_rows :: "uuid \<Rightarrow> submit_env \<Rightarrow> line_item list \<Rightarrow> estimate_item list" where
  "estimate_item_rows estimate_id env its = map (estimate_item_row estimate_id env) (enumerate 0 its)"

definition new_estimate_row ::
    "uuid \<Rightarrow> estimate_form \<Rightarrow> estimate_status \<Rightarrow> bool \<Rightarrow> submit_env \<Rightarrow> estimate" where
  "new_estimate_row userId f saveStatus sendEmail env =
     \<lparr>est_id = fresh_document_id env,
      est_user_id = userId,
      est_client_id = ef_clientId f,
      estimate_number = ef_estimateNumber f,
      est_title = ef_title f,
      est_description = js_or_null (ef_description f),
      est_status = (if sendEmail then Draft else saveStatus),
      est_issue_date = ef_issueDate f,
      est_valid_until = ef_validUntil f,
      est_subtotal = float_subtotal env,
      est_tax_rate = ef_taxRate f,
      est_tax_amount = float_tax_amount env,
      est_total = float_total env,
      est_notes = js_or_null (ef_notes f),
      est_job_site_address = js_or_null (ef_jobSiteAddress f),
      est_archived_at = None\<rparr>"

definition edited_estimate_row ::
    "estimate_form \<Rightarrow> estimate_status \<Rightarrow> bool \<Rightarrow> estimate_status \<Rightarrow> submit_env
       \<Rightarrow> estimate \<Rightarrow> estimate" where
  "edited_estimate_row f saveStatus sendEmail initialStatus env e =
     e\<lparr>est_client_id := ef_clientId f,
       estimate_number := ef_estimateNumber f,
       est_title := ef_title f,
       est_description := js_or_null (ef_description f),
       est_status := (if sendEmail then initialStatus else saveStatus),
       est_issue_date := ef_issueDate f,
       est_valid_until := ef_validUntil f,
       est_subtotal := float_subtotal env,
       est_tax_rate := ef_taxRate f,
       est_tax_amount := float_tax_amount env,
       est_total := float_total env,
       est_notes := js_or_null (ef_notes f),
       est_job_site_address := js_or_null (ef_jobSiteAddress f)\<rparr>"

text \<open>
  The writes of \<^verbatim>\<open>handleSubmit\<close>, made in the session of the browser: in create mode the
  estimate and then its items; in edit mode the estimate, then the deletion of all its
  items (whose result is not looked at), then the new items.  The first error reported by
  the store is thrown; what was written before it stays written.
\<close>

definition save_estimate ::
    "database \<Rightarrow> uuid \<Rightarrow> estimate_mode \<Rightarrow> estimate_form \<Rightarrow> estimate_status \<Rightarrow> bool \<Rightarrow> submit_env
       \<Rightarrow> database \<times> (db_error + uuid)" where
  "save_estimate db userId mode f saveStatus sendEmail env =
     (case mode of
        CreateEstimate \<Rightarrow>
          (case insert_estimate_as (session_user env) db
                  (new_estimate_row userId f saveStatus sendEmail env) of
             Inl err \<Rightarrow> (db, Inl err)
           | Inr db1 \<Rightarrow>
               (case insert_estimate_items_as (session_user env) db1
                       (estimate_item_rows (fresh_document_id env) env (ef_items f)) of
                  Inl err \<Rightarrow> (db1, Inl err)
                | Inr db2 \<Rightarrow> (db2, Inr (fresh_document_id env))))
      | EditEstimate estimate_id initialStatus \<Rightarrow>
          (case update_estimate_as (session_user env) db estimate_id
                  (edited_estimate_row f saveStatus sendEmail initialStatus env) of
             Inl err \<Rightarrow> (db, Inl err)
           | Inr db1 \<Rightarrow>
               (let db2 = (case delete_estimate_items db1
                                   (\<lambda>it. ei_estimate_id it = estimate_id
                                         \<and> owns_estimate db1 (session_user env)
                                               (ei_estimate_id it)) of
                             Inl err \<Rightarrow> db1
                           | Inr d \<Rightarrow> d);
                    itemsToInsert = estimate_item_rows estimate_id env (ef_items f)
                in if length itemsToInsert > 0
                   then (case insert_estimate_items_as (session_user env) db2 itemsToInsert of
                           Inl err \<Rightarrow> (db2, Inl err)
                         | Inr db3 \<Rightarrow> (db3, Inr estimate_id))
                   else (db2, Inr estimate_id))))"

text \<open>
  \<^verbatim>\<open>handleSubmit(saveStatus, sendEmail)\<close>: the validation, the writes, and, when asked
  for, the send action.  An error of the store is caught: it is written to the console
  and the form shows "Failed to save estimate. Please try again.".
\<close>

definition handleSubmit_estimate ::
    "database \<Rightarrow> uuid \<Rightarrow> estimate_mode \<Rightarrow> estimate_form \<Rightarrow> estimate_status \<Rightarrow> bool \<Rightarrow> submit_env
       \<Rightarrow> database \<times> submit_outcome" where
  "handleSubmit_estimate db userId mode f saveStatus sendEmail env =
     (case validate_estimate_form f sendEmail of
        Some message \<Rightarrow> (db, ValidationError message)
      | None \<Rightarrow>
          (case save_estimate db userId mode f saveStatus sendEmail env of
             (db', Inl err) \<Rightarrow> (db', SaveFailed)
           | (db', Inr estimateId) \<Rightarrow>
               if sendEmail
               then (case sendEstimateAction db' (session_user env) estimateId (mail_service env) of
                       (db'', SendError message) \<Rightarrow> (db'', SendFailed estimateId message)
                     | (db'', SendOk) \<Rightarrow> (db'', SentOk estimateId))
               else (db', Saved estimateId)))"

section \<open>The invoice form\<close>

record invoice_form =
  vf_clientId :: "uuid option"
  vf_invoiceNumber :: string
  vf_title :: string
  vf_description :: string
  vf_status :: invoice_status
  vf_issueDate :: date
  vf_dueDate :: "date option"
  vf_taxRate :: decimal
  vf_notes :: string
  vf_items :: "line_item list"

datatype invoice_mode = CreateInvoice | EditInvoice uuid

definition validate_invoice_form :: "invoice_form \<Rightarrow> string option" where
  "validate_invoice_form f =
     (if js_trim (vf_title f) = [] then Some ''Please enter an invoice title''
      else if js_trim (vf_invoiceNumber f) = [] then Some ''Please enter an invoice number''
      else if length (vf_items f) = 0 then Some ''Please add at least one line item''
      else None)"

definition invoice_item_row :: "uuid \<Rightarrow> submit_env \<Rightarrow> nat \<times> line_item \<Rightarrow> invoice_item" where
  "invoice_item_row invoice_id env x =
     (case x of (index, item) \<Rightarrow>
        \<lparr>ii_id = fresh_item_id env index,
         ii_invoice_id = invoice_id,
         ii_description = li_description item,
         ii_quantity = li_quantity item,
         ii_unit = li_unit item,
         ii_unit_price = li_unit_price item,
         ii_sort_order = int index\<rparr>)"

definition invoice_item_rows :: "uuid \<Rightarrow> submit_env \<Rightarrow> line_item list \<Rightarrow> invoice_item list" where
  "invoice_item_rows invoice_id env its = map (invoice_item_row invoice_id env) (enumerate 0 its)"

text \<open>
  The insert names no totals, no paid date, no source estimate and no archive stamp: the
  columns take their defaults (0 and null).
\<close>

definition new_invoice_row :: "uuid \<Rightarrow> invoice_form \<Rightarrow> submit_env \<Rightarrow> invoice" where
  "new_invoice_row userId f env =
     \<lparr>inv_id = fresh_document_id env,
      inv_user_id = userId,
      inv_client_id = vf_clientId f,
      inv_source_estimate_id = None,
      invoice_number = vf_invoiceNumber f,
      inv_title = vf_title f,
      inv_description = js_or_null (vf_description f),
      inv_status = vf_status f,
      inv_issue_date = vf_issueDate f,
      inv_due_date = vf_dueDate f,
      inv_paid_date = None,
      inv_subtotal = 0,
      inv_tax_rate = vf_taxRate f,
      inv_tax_amount = 0,
      inv_total = 0,
      inv_notes = js_or_null (vf_notes f),
      inv_archived_at = None\<rparr>"

definition edited_invoice_row :: "invoice_form \<Rightarrow> invoice \<Rightarrow> invoice" where
  "edited_invoice_row f i =
     i\<lparr>inv_client_id := vf_clientId f,
       invoice_number := vf_invoiceNumber f,
       inv_title := vf_title f,
       inv_description := js_or_null (vf_description f),
       inv_status := vf_status f,
       inv_issue_date := vf_issueDate f,
       inv_due_date := vf_dueDate f,
       inv_tax_rate := vf_taxRate f,
       inv_notes := js_or_null (vf_notes f)\<rparr>"

text \<open>
  The writes of the invoice form's \<^verbatim>\<open>handleSubmit\<close>, in the session of the browser, in the
  order of the estimate form's; an error of the store is caught and the form shows
  "Failed to save invoice. Please try again.".
\<close>

definition save_invoice ::
    "database \<Rightarrow> uuid \<Rightarrow> invoice_mode \<Rightarrow> invoice_form \<Rightarrow> submit_env
       \<Rightarrow> database \<times> (db_error + uuid)" where
  "save_invoice db userId mode f env =
     (case mode of
        CreateInvoice \<Rightarrow>
          (case insert_invoice_as (session_user env) db (new_invoice_row userId f env) of
             Inl err \<Rightarrow> (db, Inl err)
           | Inr db1 \<Rightarrow>
               (case insert_invoice_items_as (session_user env) db1
                       (invoice_item_rows (fresh_document_id env) env (vf_items f)) of
                  Inl err \<Rightarrow> (db1, Inl err)
                | Inr db2 \<Rightarrow> (db2, Inr (fresh_document_id env))))
      | EditInvoice invoice_id \<Rightarrow>
          (case update_invoice_as (session_user env) db invoice_id (edited_invoice_row f) of
             Inl err \<Rightarrow> (db, Inl err)
           | Inr db1 \<Rightarrow>
               (let db2 = (case delete_invoice_items db1
                                   (\<lambda>it. ii_invoice_id it = invoice_id
                                         \<and> owns_invoice db1 (session_user env)
                                               (ii_invoice_id it)) of
                             Inl err \<Rightarrow> db1
                           | Inr d \<Rightarrow> d);
                    itemsToInsert = invoice_item_rows invoice_id env (vf_items f)
                in if length itemsToInsert > 0
                   then (case insert_invoice_items_as (session_user env) db2 itemsToInsert of
                           Inl err \<Rightarrow> (db2, Inl err)
                         | Inr db3 \<Rightarrow> (db3, Inr invoice_id))
                   else (db2, Inr invoice_id))))"

definition handleSubmit_invoice ::
    "database \<Rightarrow> uuid \<Rightarrow> invoice_mode \<Rightarrow> invoice_form \<Rightarrow> submit_env
       \<Rightarrow> database \<times> submit_outcome" where
  "handleSubmit_invoice db userId mode f env =
     (case validate_invoice_form f of
        Some message \<Rightarrow> (db, ValidationError message)
      | None \<Rightarrow>
          (case save_invoice db userId mode f env of
             (db', Inl err) \<Rightarrow> (db', SaveFailed)
           | (db', Inr invoiceId) \<Rightarrow> (db', Saved invoiceId)))"


section \<open>Example data\<close>

text \<open>
  The estimate of the conversion example: Labor, 10 hours at 50.00, and Materials,
  1 each at 200.00, taxed at 8 percent, for a client with an email address.
\<close>

definition example_client :: client where
  "example_client =
     \<lparr>cl_id = 7, cl_user_id = 100, cl_name = ''Ada'', cl_email = Some ''ada@example.com''\<rparr>"

definition example_estimate :: estimate where
  "example_estimate =
     \<lparr>est_id = 1, est_user_id = 100, est_client_id = Some 7, estimate_number = ''EST-000001'',
      est_title = ''Deck'', est_description = None, est_status = Approved,
      est_issue_date = 20000, est_valid_until = None,
      est_subtotal = 0, est_tax_rate = 800, est_tax_amount = 0, est_total = 0,
      est_notes = None, est_job_site_address = None, est_archived_at = None\<rparr>"

definition example_labor :: estimate_item where
  "example_labor =
     \<lparr>ei_id = 11, ei_estimate_id = 1, ei_description = ''Labor'', ei_quantity = 1000,
      ei_unit = ''hr'', ei_unit_price = 5000, ei_sort_order = 0\<rparr>"

definition example_materials :: estimate_item where
  "example_materials =
     \<lparr>ei_id = 12, ei_estimate_id = 1, ei_description = ''Materials'', ei_quantity = 100,
      ei_unit = ''each'', ei_unit_price = 20000, ei_sort_order = 1\<rparr>"

definition example_db :: database where
  "example_db =
     \<lparr>clients = [example_client], estimates = [example_estimate], estimate_items = [],
      invoices = [], invoice_items = []\<rparr>"

text \<open>The example store after Labor has been inserted.\<close>

definition example_db1 :: database where
  "example_db1 =
     example_db\<lparr>estimates := [example_estimate\<lparr>est_subtotal := 50000, est_tax_amount := 4000,
                                                est_total := 54000\<rparr>],
                estimate_items := [example_labor]\<rparr>"

text \<open>
  The example estimate as the detail page holds it, with both items, and with stored
  totals that do not match the items (a stale total of 1.00); the clock reads
  2023-11-14T22:15:23.456Z, day 19675.
\<close>

definition stale_estimate :: estimate where
  "stale_estimate = example_estimate\<lparr>est_subtotal := 100, est_tax_amount := 0, est_total := 100\<rparr>"

definition stale_db :: database where
  "stale_db =
     \<lparr>clients = [example_client], estimates = [stale_estimate],
      estimate_items = [example_labor, example_materials], invoices = [], invoice_items = []\<rparr>"

definition stale_detail :: estimate_detail where
  "stale_detail =
     \<lparr>d_estimate = stale_estimate, d_client = Some example_client,
      d_items = [example_labor, example_materials]\<rparr>"

definition example_env :: convert_env where
  "example_env =
     \<lparr>now_number = 1700000123456, now_issue = 1700000123456, now_due = 1700000123456,
      new_invoice_id = 2, new_item_id = (\<lambda>index. 21 + index)\<rparr>"

text \<open>The same estimate when the store returned Materials before Labor.\<close>

definition swapped_detail :: estimate_detail where
  "swapped_detail = stale_detail\<lparr>d_items := [example_materials, example_labor]\<rparr>"

text \<open>The store after the stale example estimate has been converted.\<close>

definition converted_db :: database where
  "converted_db =
     stale_db\<lparr>invoices :=
        [\<lparr>inv_id = 2, inv_user_id = 100, inv_client_id = Some 7,
          inv_source_estimate_id = Some 1, invoice_number = ''INV-123456'',
          inv_title = ''Deck'', inv_description = None, inv_status = Unpaid,
          inv_issue_date = 19675, inv_due_date = Some 19705, inv_paid_date = None,
          inv_subtotal = 70000, inv_tax_rate = 800, inv_tax_amount = 5600, inv_total = 75600,
          inv_notes = None, inv_archived_at = None\<rparr>],
       invoice_items :=
        [\<lparr>ii_id = 21, ii_invoice_id = 2, ii_description = ''Labor'', ii_quantity = 1000,
          ii_unit = ''hr'', ii_unit_price = 5000, ii_sort_order = 0\<rparr>,
         \<lparr>ii_id = 22, ii_invoice_id = 2, ii_description = ''Materials'', ii_quantity = 100,
          ii_unit = ''each'', ii_unit_price = 20000, ii_sort_order = 1\<rparr>]\<rparr>"

text \<open>The store after the estimate with its items in the other order has been converted.\<close>

definition swapped_db :: database where
  "swapped_db =
     converted_db\<lparr>invoice_items :=
        [\<lparr>ii_id = 21, ii_invoice_id = 2, ii_description = ''Materials'', ii_quantity = 100,
          ii_unit = ''each'', ii_unit_price = 20000, ii_sort_order = 0\<rparr>,
         \<lparr>ii_id = 22, ii_invoice_id = 2, ii_description = ''Labor'', ii_quantity = 1000,
          ii_unit = ''hr'', ii_unit_price = 5000, ii_sort_order = 1\<rparr>]\<rparr>"


text \<open>The example store after the estimate has been archived at the example instant.\<close>

definition archived_db :: database where
  "archived_db =
     example_db\<lparr>estimates := [example_estimate\<lparr>est_archived_at := Some 1700000123456\<rparr>]\<rparr>"

text \<open>
  The invoice form opened on the converted invoice, with the status select set to paid and
  the two items kept; the ids the store will hand out; a mail service that fails.
\<close>

definition labor_line :: line_item where
  "labor_line =
     \<lparr>li_description = ''Labor'', li_quantity = 1000, li_unit = ''hr'', li_unit_price = 5000\<rparr>"

definition materials_line :: line_item where
  "materials_line =
     \<lparr>li_description = ''Materials'', li_quantity = 100, li_unit = ''each'',
      li_unit_price = 20000\<rparr>"

definition paid_form :: invoice_form where
  "paid_form =
     \<lparr>vf_clientId = Some 7, vf_invoiceNumber = ''INV-123456'', vf_title = ''Deck'',
      vf_description = [], vf_status = Paid, vf_issueDate = 19675, vf_dueDate = Some 19705,
      vf_taxRate = 800, vf_notes = [], vf_items = [labor_line, materials_line]\<rparr>"

definition example_submit_env :: submit_env where
  "example_submit_env =
     \<lparr>fresh_document_id = 3, fresh_item_id = (\<lambda>index. 31 + index),
      session_user = Some 100, mail_service = DispatchFailed,
      float_subtotal = 70000, float_tax_amount = 5600, float_total = 75600\<rparr>"

text \<open>
  A second estimate of tenant 100 with number EST-000002, the form of a third one with the
  same number, and an estimate of tenant 200 with that number; likewise an invoice of
  tenant 100 with number INV-123456 and one of tenant 200.
\<close>

definition second_estimate :: estimate where
  "second_estimate =
     example_estimate\<lparr>est_id := 5, estimate_number := ''EST-000002'', est_title := ''Porch'',
                      est_status := Draft\<rparr>"

definition other_tenant_estimate :: estimate where
  "other_tenant_estimate = second_estimate\<lparr>est_id := 6, est_user_id := 200, est_client_id := None\<rparr>"

definition porch_form :: estimate_form where
  "porch_form =
     \<lparr>ef_clientId = Some 7, ef_estimateNumber = ''EST-000002'', ef_title = ''Porch'',
      ef_description = [], ef_status = Draft, ef_issueDate = 19675, ef_validUntil = None,
      ef_taxRate = 800, ef_notes = [], ef_jobSiteAddress = [],
      ef_items = [labor_line, materials_line], ef_clientsList = [example_client]\<rparr>"

definition first_invoice :: invoice where
  "first_invoice =
     \<lparr>inv_id = 2, inv_user_id = 100, inv_client_id = Some 7,
      inv_source_estimate_id = Some 1, invoice_number = ''INV-123456'',
      inv_title = ''Deck'', inv_description = None, inv_status = Unpaid,
      inv_issue_date = 19675, inv_due_date = Some 19705, inv_paid_date = None,
      inv_subtotal = 0, inv_tax_rate = 800, inv_tax_amount = 0, inv_total = 0,
      inv_notes = None, inv_archived_at = None\<rparr>"

definition other_tenant_invoice :: invoice where
  "other_tenant_invoice =
     first_invoice\<lparr>inv_id := 8, inv_user_id := 200, inv_client_id := None,
                   inv_source_estimate_id := None\<rparr>"

text \<open>
  Two estimates of tenant 100, the first with both example items and the totals that go
  with them, and the update that moves an item to another document; two invoices of
  tenant 100, the first with one item and its totals.
\<close>

definition two_estimates_db :: database where
  "two_estimates_db =
     \<lparr>clients = [example_client],
      estimates = [example_estimate\<lparr>est_subtotal := 70000, est_tax_amount := 5600,
                                     est_total := 75600\<rparr>,
                   second_estimate],
      estimate_items = [example_labor, example_materials], invoices = [], invoice_items = []\<rparr>"

definition move_to :: "uuid \<Rightarrow> item_patch" where
  "move_to k =
     \<lparr>p_parent_id = Some k, p_description = None, p_quantity = None, p_unit = None,
      p_unit_price = None, p_sort_order = None\<rparr>"

definition second_invoice :: invoice where
  "second_invoice = first_invoice\<lparr>inv_id := 9, invoice_number := ''INV-123457''\<rparr>"

definition invoice_labor :: invoice_item where
  "invoice_labor =
     \<lparr>ii_id = 21, ii_invoice_id = 2, ii_description = ''Labor'', ii_quantity = 1000,
      ii_unit = ''hr'', ii_unit_price = 5000, ii_sort_order = 0\<rparr>"

definition two_invoices_db :: database where
  "two_invoices_db =
     \<lparr>clients = [example_client], estimates = [example_estimate], estimate_items = [],
      invoices = [first_invoice\<lparr>inv_subtotal := 50000, inv_tax_amount := 4000,
                                  inv_total := 54000\<rparr>,
                  second_invoice],
      invoice_items = [invoice_labor]\<rparr>"

text \<open>The two stores after item 12, and item 21, has been moved to the second document.\<close>

definition two_estimates_moved :: database where
  "two_estimates_moved =
     two_estimates_db
       \<lparr>estimates := [example_estimate\<lparr>est_subtotal := 70000, est_tax_amount := 5600,
                                       est_total := 75600\<rparr>,
                      second_estimate\<lparr>est_subtotal := 20000, est_tax_amount := 1600,
                                      est_total := 21600\<rparr>],
         estimate_items := [example_labor, example_materials\<lparr>ei_estimate_id := 5\<rparr>]\<rparr>"

definition two_invoices_moved :: database where
  "two_invoices_moved =
     two_invoices_db
       \<lparr>invoices := [first_invoice\<lparr>inv_subtotal := 50000, inv_tax_amount := 4000,
                                   inv_total := 54000\<rparr>,
                     second_invoice\<lparr>inv_subtotal := 50000, inv_tax_amount := 4000,
                                    inv_total := 54000\<rparr>],
         invoice_items := [invoice_labor\<lparr>ii_invoice_id := 9\<rparr>]\<rparr>"

text \<open>
  The example store after the porch form has been saved over the example estimate, with
  the status it was loaded with.
\<close>

definition porch_saved_db :: database where
  "porch_saved_db =
     \<lparr>clients = [example_client],
      estimates =
        [\<lparr>est_id = 1, est_user_id = 100, est_client_id = Some 7, estimate_number = ''EST-000002'',
          est_title = ''Porch'', est_description = None, est_status = Approved,
          est_issue_date = 19675, est_valid_until = None,
          est_subtotal = 70000, est_tax_rate = 800, est_tax_amount = 5600, est_total = 75600,
          est_notes = None, est_job_site_address = None, est_archived_at = None\<rparr>],
      estimate_items =
        [\<lparr>ei_id = 31, ei_estimate_id = 1, ei_description = ''Labor'', ei_quantity = 1000,
          ei_unit = ''hr'', ei_unit_price = 5000, ei_sort_order = 0\<rparr>,
         \<lparr>ei_id = 32, ei_estimate_id = 1, ei_description = ''Materials'', ei_quantity = 100,
          ei_unit = ''each'', ei_unit_price = 20000, ei_sort_order = 1\<rparr>],
      invoices = [], invoice_items = []\<rparr>"


section \<open>Rounding and fixed-point arithmetic\<close>

lemmas store_defs =
  insert_estimate_items_def insert_estimate_items_as_def insert_estimate_items_under_def
  estimate_item_input_error_def estimate_item_row_error_def owns_estimate_def
  numeric_fits_def ei_amount_def
  round_half_away_def find_estimate_def recalculate_estimate_totals_def estimate_key_def
  estimate_items_of_def sql_sum_def to_decimal_12_2_def
  insert_invoice_items_def insert_invoice_items_as_def insert_invoice_items_under_def
  invoice_item_input_error_def invoice_item_row_error_def owns_invoice_def
  ii_amount_def find_invoice_def
  recalculate_invoice_totals_def invoice_key_def invoice_items_of_def

lemmas example_defs =
  example_db_def example_db1_def example_estimate_def example_labor_def
  example_materials_def example_client_def stale_estimate_def stale_db_def
  stale_detail_def example_env_def swapped_detail_def converted_db_def swapped_db_def archived_db_def
  labor_line_def materials_line_def paid_form_def example_submit_env_def
  second_estimate_def other_tenant_estimate_def porch_form_def first_invoice_def
  other_tenant_invoice_def two_estimates_db_def move_to_def second_invoice_def
  invoice_labor_def two_invoices_db_def two_estimates_moved_def two_invoices_moved_def
  porch_saved_db_def

lemmas clock_defs =
  document_number_def js_number_string_def slice_last_def digit_char_def nat_digits.simps
  utc_date_def ms_per_day_def

lemmas update_defs =
  update_estimate_def estimate_update_error_def update_invoice_def invoice_update_error_def
  update_estimate_as_def update_invoice_as_def select_estimate_def select_client_def
  delete_estimate_items_def delete_invoice_items_def

lemmas form_defs =
  handleSubmit_invoice_def save_invoice_def validate_invoice_form_def
  js_trim_def js_whitespace_def js_or_null_def
  edited_invoice_row_def new_invoice_row_def invoice_item_rows_def invoice_item_row_def
  handleSubmit_estimate_def validate_estimate_form_def save_estimate_def
  edited_estimate_row_def new_estimate_row_def estimate_item_rows_def estimate_item_row_def
  sendEstimateAction_def client_email_def

lemmas convert_defs =
  handleConvertToInvoice_def converted_invoice_def converted_items_def converted_item_def
  insert_invoice_def insert_invoice_as_def invoice_input_error_def invoice_reference_error_def
  insert_estimate_def insert_estimate_as_def estimate_input_error_def
  estimate_reference_error_def

lemma dec_round_half_away:
  assumes "0 < d"
  shows "dec (round_half_away n d) = round2 (of_int n / of_int d / 100)"
proof -
  have fl: "\<lfloor>(of_int m :: rat) / of_int d / 100 * 100 + 1 / 2\<rfloor> = (2 * m + d) div (2 * d)" for m :: int
  proof -
    have "(of_int m :: rat) / of_int d / 100 * 100 + 1 / 2 = of_int (2 * m + d) / of_int (2 * d)"
      using assms by (simp add: field_simps)
    then show ?thesis
      by (simp only: floor_divide_of_int_eq)
  qed
  show ?thesis
  proof (cases "0 \<le> n")
    case True
    then have "0 \<le> (of_int n :: rat) / of_int d / 100"
      using assms by simp
    then show ?thesis
      using True fl[of n] by (simp add: dec_def round2_def round_half_away_def)
  next
    case False
    then have neg: "\<not> 0 \<le> (of_int n :: rat) / of_int d / 100"
      using assms by (simp add: field_simps)
    have "- ((of_int n :: rat) / of_int d / 100) * 100 + 1 / 2
            = of_int (- n) / of_int d / 100 * 100 + 1 / 2"
      by simp
    then have "\<lfloor>- ((of_int n :: rat) / of_int d / 100) * 100 + 1 / 2\<rfloor> = (2 * (- n) + d) div (2 * d)"
      using fl[of "- n"] by simp
    then show ?thesis
      using False neg by (simp add: dec_def round2_def round_half_away_def)
  qed
qed

lemma dec_line_sum:
  "(of_int (\<Sum>x\<leftarrow>xs. q x * p x) :: rat) / 10000 = (\<Sum>x\<leftarrow>xs. dec (q x) * dec (p x))"
  by (induction xs) (simp_all add: dec_def add_divide_distrib)

lemma round_half_away_zero [simp]: "0 < d \<Longrightarrow> round_half_away 0 d = 0"
  by (simp add: round_half_away_def)

lemma coalesce_sql_sum: "coalesce_const (sql_sum xs) 0 = sum_list xs"
  by (simp add: sql_sum_def)

lemma find_map_preserve:
  assumes "\<And>x. P (f x) = P x"
  shows "find P (map f xs) = map_option f (find P xs)"
  using assms by (induction xs) auto

lemma dec_subtotal:
  "dec (round_half_away (\<Sum>x\<leftarrow>xs. q x * p x) 100) = round2 (\<Sum>x\<leftarrow>xs. dec (q x) * dec (p x))"
proof -
  have "dec (round_half_away (\<Sum>x\<leftarrow>xs. q x * p x) 100)
          = round2 (of_int (\<Sum>x\<leftarrow>xs. q x * p x) / of_int 100 / 100)"
    by (rule dec_round_half_away) simp
  also have "(of_int (\<Sum>x\<leftarrow>xs. q x * p x) :: rat) / of_int 100 / 100
          = (\<Sum>x\<leftarrow>xs. dec (q x) * dec (p x))"
    using dec_line_sum[of q p xs] by simp
  finally show ?thesis .
qed

lemma dec_tax: "dec (round_half_away (s * r) 10000) = round2 (dec s * dec r / 100)"
proof -
  have "dec (round_half_away (s * r) 10000) = round2 (of_int (s * r) / of_int 10000 / 100)"
    by (rule dec_round_half_away) simp
  also have "(of_int (s * r) :: rat) / of_int 10000 / 100 = dec s * dec r / 100"
    by (simp add: dec_def)
  finally show ?thesis .
qed

lemma dec_add: "dec (a + b) = dec a + dec b"
  by (simp add: dec_def add_divide_distrib)

section \<open>The estimate trigger keeps totals in step\<close>

lemma recalc_estimate_cases:
  assumes "recalculate_estimate_totals db ev = Inr db'"
  obtains (nokey) "estimate_key ev = None" "db' = db"
  | (noparent) k where "estimate_key ev = Some k" "find_estimate db k = None" "db' = db"
  | (upd) k e s t where "estimate_key ev = Some k" "find_estimate db k = Some e"
      "s = round_half_away (sum_list (map (\<lambda>it. ei_quantity it * ei_unit_price it) (estimate_items_of db k))) 100"
      "t = round_half_away (s * est_tax_rate e) 10000"
      "db' = db\<lparr>estimates := map (set_estimate_totals k s t) (estimates db)\<rparr>"
proof (cases "estimate_key ev")
  case None
  with assms show ?thesis using nokey by (simp add: recalculate_estimate_totals_def)
next
  case (Some k)
  show ?thesis
  proof (cases "find_estimate db k")
    case None
    with Some assms have "db' = db"
      by (simp add: recalculate_estimate_totals_def split: sum.splits)
    with Some None show ?thesis using noparent by blast
  next
    case (Some e)
    note fe = this
    with \<open>estimate_key ev = Some k\<close> assms
    have "db' = db\<lparr>estimates := map (set_estimate_totals k
        (round_half_away (sum_list (map (\<lambda>it. ei_quantity it * ei_unit_price it) (estimate_items_of db k))) 100)
        (round_half_away (round_half_away (sum_list (map (\<lambda>it. ei_quantity it * ei_unit_price it) (estimate_items_of db k))) 100 * est_tax_rate e) 10000))
        (estimates db)\<rparr>"
      by (simp add: recalculate_estimate_totals_def coalesce_sql_sum to_decimal_12_2_def Let_def set_estimate_totals_def[abs_def]
          split: sum.splits if_splits) blast
    with \<open>estimate_key ev = Some k\<close> fe show ?thesis using upd by blast
  qed
qed

lemma find_estimate_Some_set: "find_estimate db k = Some e \<Longrightarrow> e \<in> set (estimates db) \<and> est_id e = k"
  by (auto simp: find_estimate_def find_Some_iff)

lemma find_estimate_None_set: "find_estimate db k = None \<Longrightarrow> e \<in> set (estimates db) \<Longrightarrow> est_id e \<noteq> k"
  by (auto simp: find_estimate_def find_None_iff)

lemma est_core_set_totals: "est_core (set_estimate_totals k s t e) = est_core e"
  by (simp add: est_core_def set_estimate_totals_def)

lemma recalc_estimate_frame:
  assumes "recalculate_estimate_totals db ev = Inr db'"
  shows "estimate_items db' = estimate_items db" "invoices db' = invoices db"
        "invoice_items db' = invoice_items db" "clients db' = clients db"
        "map est_core (estimates db') = map est_core (estimates db)"
  using assms by (cases rule: recalc_estimate_cases; simp add: est_core_set_totals comp_def)+

lemma find_estimate_set_totals:
  "find_estimate (db\<lparr>estimates := map (set_estimate_totals k s t) (estimates db)\<rparr>) k' =
     map_option (set_estimate_totals k s t) (find_estimate db k')"
  unfolding find_estimate_def
  by (simp add: find_map_preserve set_estimate_totals_def)

lemma estimate_items_of_estimates_upd [simp]:
  "estimate_items_of (db\<lparr>estimates := es\<rparr>) k = estimate_items_of db k"
  by (simp add: estimate_items_of_def)

lemma recalc_estimate_sync:
  assumes "recalculate_estimate_totals db ev = Inr db'"
    and "estimate_key ev = Some k \<or> estimate_in_sync db k"
  shows "estimate_in_sync db' k"
  using assms(1)
proof (cases rule: recalc_estimate_cases)
  case nokey
  with assms(2) show ?thesis by simp
next
  case (noparent k0)
  with assms(2) show ?thesis by (auto simp: estimate_in_sync_def)
next
  case (upd k0 e s t)
  show ?thesis
  proof (cases "k0 = k")
    case True
    with upd show ?thesis
      by (simp add: estimate_in_sync_def find_estimate_set_totals set_estimate_totals_def
            find_estimate_Some_set)
  next
    case False
    with upd assms(2) have "estimate_in_sync db k" by simp
    with False upd show ?thesis
      by (auto simp: estimate_in_sync_def find_estimate_set_totals set_estimate_totals_def
            dest: find_estimate_Some_set split: option.splits)
  qed
qed

lemma fire_estimate_frame:
  assumes "fire_estimate_triggers db evs = Inr db'"
  shows "estimate_items db' = estimate_items db \<and> invoices db' = invoices db
        \<and> invoice_items db' = invoice_items db \<and> clients db' = clients db
        \<and> map est_core (estimates db') = map est_core (estimates db)"
  using assms
proof (induction evs arbitrary: db)
  case Nil
  then show ?case by simp
next
  case (Cons ev evs)
  then obtain db1 where 1: "recalculate_estimate_totals db ev = Inr db1"
    and 2: "fire_estimate_triggers db1 evs = Inr db'"
    by (auto split: sum.splits option.splits)
  from Cons.IH[OF 2] recalc_estimate_frame[OF 1] show ?case by simp
qed

lemma fire_estimate_sync:
  assumes "fire_estimate_triggers db evs = Inr db'"
    and "(\<exists>ev \<in> set evs. estimate_key ev = Some k) \<or> estimate_in_sync db k"
  shows "estimate_in_sync db' k"
  using assms
proof (induction evs arbitrary: db)
  case Nil
  then show ?case by simp
next
  case (Cons ev evs)
  then obtain db1 where 1: "recalculate_estimate_totals db ev = Inr db1"
    and 2: "fire_estimate_triggers db1 evs = Inr db'"
    by (auto split: sum.splits option.splits)
  from Cons.prems(2) have "(\<exists>ev \<in> set evs. estimate_key ev = Some k) \<or> estimate_in_sync db1 k"
    using recalc_estimate_sync[OF 1, of k] by auto
  from Cons.IH[OF 2 this] show ?case .
qed

lemma add_estimate_items_result:
  "add_estimate_items policy db rows = Inr db1
     \<Longrightarrow> db1 = db\<lparr>estimate_items := estimate_items db @ rows\<rparr>"
proof (induction rows arbitrary: db)
  case Nil
  then show ?case by simp
next
  case (Cons r rs)
  then have "add_estimate_items policy (db\<lparr>estimate_items := estimate_items db @ [r]\<rparr>) rs = Inr db1"
    by (simp split: if_splits)
  from Cons.IH[OF this] show ?case by simp
qed

lemma add_estimate_items_policy:
  "add_estimate_items policy db rows = Inr db1 \<Longrightarrow> r \<in> set rows \<Longrightarrow> policy r"
proof (induction rows arbitrary: db)
  case Nil
  then show ?case by simp
next
  case (Cons x xs)
  from Cons.prems(1) have p: "policy x"
    and rest: "add_estimate_items policy (db\<lparr>estimate_items := estimate_items db @ [x]\<rparr>) xs = Inr db1"
    by (simp_all split: if_splits)
  from Cons.prems(2) Cons.IH[OF rest] p show ?case by auto
qed

lemma estimate_key_simps [simp]:
  "estimate_key (TgInsert r) = Some (ei_estimate_id r)"
  "estimate_key (TgUpdate old r) = Some (ei_estimate_id r)"
  "estimate_key (TgDelete old) = Some (ei_estimate_id old)"
  by (simp_all add: estimate_key_def)

lemma patch_estimate_item_id [simp]:
  "ei_id (patch_estimate_item p it) = ei_id it"
  by (simp add: patch_estimate_item_def)

lemma patch_estimate_item_parent:
  "ei_estimate_id (patch_estimate_item p it) = coalesce_const (p_parent_id p) (ei_estimate_id it)"
  by (simp add: patch_estimate_item_def)

lemma insert_estimate_items_under_cases:
  assumes "insert_estimate_items_under policy db rows = Inr db'"
  obtains db1 where "add_estimate_items policy db rows = Inr db1"
    "fire_estimate_triggers db1 (map TgInsert rows) = Inr db'"
  using assms by (auto simp: insert_estimate_items_under_def split: sum.splits option.splits)

lemma insert_estimate_items_under_frame:
  assumes "insert_estimate_items_under policy db rows = Inr db'"
  shows "estimate_items db' = estimate_items db @ rows \<and> invoices db' = invoices db
        \<and> invoice_items db' = invoice_items db \<and> clients db' = clients db
        \<and> map est_core (estimates db') = map est_core (estimates db)"
proof -
  from assms obtain db1 where 1: "add_estimate_items policy db rows = Inr db1"
    and 2: "fire_estimate_triggers db1 (map TgInsert rows) = Inr db'"
    by (rule insert_estimate_items_under_cases)
  from fire_estimate_frame[OF 2] add_estimate_items_result[OF 1] show ?thesis by simp
qed

lemma insert_estimate_items_under_sync:
  assumes "insert_estimate_items_under policy db rows = Inr db'"
    and "(\<exists>r \<in> set rows. ei_estimate_id r = k) \<or> estimate_in_sync db k"
  shows "estimate_in_sync db' k"
proof -
  from assms(1) obtain db1 where 1: "add_estimate_items policy db rows = Inr db1"
    and 2: "fire_estimate_triggers db1 (map TgInsert rows) = Inr db'"
    by (rule insert_estimate_items_under_cases)
  show ?thesis
  proof (cases "\<exists>r \<in> set rows. ei_estimate_id r = k")
    case True
    then have "\<exists>ev \<in> set (map TgInsert rows). estimate_key ev = Some k" by auto
    with fire_estimate_sync[OF 2] show ?thesis by blast
  next
    case False
    with assms(2) have s: "estimate_in_sync db k" by simp
    from False have "estimate_items_of db1 k = estimate_items_of db k"
      using add_estimate_items_result[OF 1] by (auto simp: estimate_items_of_def)
    moreover have "find_estimate db1 k = find_estimate db k"
      using add_estimate_items_result[OF 1] by (simp add: find_estimate_def)
    ultimately have "estimate_in_sync db1 k" using s by (simp add: estimate_in_sync_def split: option.splits)
    with fire_estimate_sync[OF 2] show ?thesis by blast
  qed
qed

lemmas insert_estimate_items_frame =
  insert_estimate_items_under_frame[of "\<lambda>r. True", folded insert_estimate_items_def]

lemmas insert_estimate_items_sync =
  insert_estimate_items_under_sync[of "\<lambda>r. True", folded insert_estimate_items_def]



lemma update_estimate_items_frame:
  assumes "update_estimate_items db sel p = Inr db'"
  shows "estimate_items db' = map (\<lambda>it. if sel it then patch_estimate_item p it else it) (estimate_items db)
        \<and> invoices db' = invoices db
        \<and> invoice_items db' = invoice_items db \<and> clients db' = clients db
        \<and> map est_core (estimates db') = map est_core (estimates db)"
  using assms fire_estimate_frame
  by (fastforce simp: update_estimate_items_def Let_def split: option.splits)

lemma update_estimate_items_sync:
  assumes "update_estimate_items db sel p = Inr db'"
    and "it \<in> set (estimate_items db)" "sel it"
  shows "estimate_in_sync db' (ei_estimate_id (patch_estimate_item p it))"
proof -
  from assms(1) have 2: "fire_estimate_triggers
            (db\<lparr>estimate_items := map (\<lambda>it. if sel it then patch_estimate_item p it else it)
                                   (estimate_items db)\<rparr>)
            (map (\<lambda>it. TgUpdate it (patch_estimate_item p it)) (filter sel (estimate_items db))) = Inr db'"
    by (simp add: update_estimate_items_def Let_def split: option.splits)
  from assms(2,3) have "\<exists>ev \<in> set (map (\<lambda>it. TgUpdate it (patch_estimate_item p it)) (filter sel (estimate_items db))).
      estimate_key ev = Some (ei_estimate_id (patch_estimate_item p it))"
    by auto
  with fire_estimate_sync[OF 2] show ?thesis by blast
qed

lemma delete_estimate_items_frame:
  assumes "delete_estimate_items db sel = Inr db'"
  shows "estimate_items db' = filter (\<lambda>it. \<not> sel it) (estimate_items db)
        \<and> invoices db' = invoices db
        \<and> invoice_items db' = invoice_items db \<and> clients db' = clients db
        \<and> map est_core (estimates db') = map est_core (estimates db)"
  using assms fire_estimate_frame
  by (fastforce simp: delete_estimate_items_def)

lemma delete_estimate_items_sync:
  assumes "delete_estimate_items db sel = Inr db'"
    and "it \<in> set (estimate_items db)" "sel it"
  shows "estimate_in_sync db' (ei_estimate_id it)"
proof -
  from assms(1) have 2: "fire_estimate_triggers
       (db\<lparr>estimate_items := filter (\<lambda>it. \<not> sel it) (estimate_items db)\<rparr>)
       (map TgDelete (filter sel (estimate_items db))) = Inr db'"
    by (simp add: delete_estimate_items_def)
  from assms(2,3) have "\<exists>ev \<in> set (map TgDelete (filter sel (estimate_items db))).
      estimate_key ev = Some (ei_estimate_id it)"
    by auto
  with fire_estimate_sync[OF 2] show ?thesis by blast
qed

section \<open>The invoice trigger keeps totals in step\<close>

lemma recalc_invoice_cases:
  assumes "recalculate_invoice_totals db ev = Inr db'"
  obtains (nokey) "invoice_key ev = None" "db' = db"
  | (noparent) k where "invoice_key ev = Some k" "find_invoice db k = None" "db' = db"
  | (upd) k e s t where "invoice_key ev = Some k" "find_invoice db k = Some e"
      "s = round_half_away (sum_list (map (\<lambda>it. ii_quantity it * ii_unit_price it) (invoice_items_of db k))) 100"
      "t = round_half_away (s * inv_tax_rate e) 10000"
      "db' = db\<lparr>invoices := map (set_invoice_totals k s t) (invoices db)\<rparr>"
proof (cases "invoice_key ev")
  case None
  with assms show ?thesis using nokey by (simp add: recalculate_invoice_totals_def)
next
  case (Some k)
  show ?thesis
  proof (cases "find_invoice db k")
    case None
    with Some assms have "db' = db"
      by (simp add: recalculate_invoice_totals_def split: sum.splits)
    with Some None show ?thesis using noparent by blast
  next
    case (Some e)
    note fe = this
    with \<open>invoice_key ev = Some k\<close> assms
    have "db' = db\<lparr>invoices := map (set_invoice_totals k
        (round_half_away (sum_list (map (\<lambda>it. ii_quantity it * ii_unit_price it) (invoice_items_of db k))) 100)
        (round_half_away (round_half_away (sum_list (map (\<lambda>it. ii_quantity it * ii_unit_price it) (invoice_items_of db k))) 100 * inv_tax_rate e) 10000))
        (invoices db)\<rparr>"
      by (simp add: recalculate_invoice_totals_def coalesce_sql_sum to_decimal_12_2_def Let_def set_invoice_totals_def[abs_def]
          split: sum.splits if_splits) blast
    with \<open>invoice_key ev = Some k\<close> fe show ?thesis using upd by blast
  qed
qed

lemma find_invoice_Some_set: "find_invoice db k = Some e \<Longrightarrow> e \<in> set (invoices db) \<and> inv_id e = k"
  by (auto simp: find_invoice_def find_Some_iff)

lemma find_invoice_None_set: "find_invoice db k = None \<Longrightarrow> e \<in> set (invoices db) \<Longrightarrow> inv_id e \<noteq> k"
  by (auto simp: find_invoice_def find_None_iff)

lemma inv_core_set_totals: "inv_core (set_invoice_totals k s t e) = inv_core e"
  by (simp add: inv_core_def set_invoice_totals_def)

lemma recalc_invoice_frame:
  assumes "recalculate_invoice_totals db ev = Inr db'"
  shows "invoice_items db' = invoice_items db" "estimates db' = estimates db"
        "estimate_items db' = estimate_items db" "clients db' = clients db"
        "map inv_core (invoices db') = map inv_core (invoices db)"
  using assms by (cases rule: recalc_invoice_cases; simp add: inv_core_set_totals comp_def)+

lemma find_invoice_set_totals:
  "find_invoice (db\<lparr>invoices := map (set_invoice_totals k s t) (invoices db)\<rparr>) k' =
     map_option (set_invoice_totals k s t) (find_invoice db k')"
  unfolding find_invoice_def
  by (simp add: find_map_preserve set_invoice_totals_def)

lemma invoice_items_of_invoices_upd [simp]:
  "invoice_items_of (db\<lparr>invoices := es\<rparr>) k = invoice_items_of db k"
  by (simp add: invoice_items_of_def)

lemma recalc_invoice_sync:
  assumes "recalculate_invoice_totals db ev = Inr db'"
    and "invoice_key ev = Some k \<or> invoice_in_sync db k"
  shows "invoice_in_sync db' k"
  using assms(1)
proof (cases rule: recalc_invoice_cases)
  case nokey
  with assms(2) show ?thesis by simp
next
  case (noparent k0)
  with assms(2) show ?thesis by (auto simp: invoice_in_sync_def)
next
  case (upd k0 e s t)
  show ?thesis
  proof (cases "k0 = k")
    case True
    with upd show ?thesis
      by (simp add: invoice_in_sync_def find_invoice_set_totals set_invoice_totals_def
            find_invoice_Some_set)
  next
    case False
    with upd assms(2) have "invoice_in_sync db k" by simp
    with False upd show ?thesis
      by (auto simp: invoice_in_sync_def find_invoice_set_totals set_invoice_totals_def
            dest: find_invoice_Some_set split: option.splits)
  qed
qed

lemma fire_invoice_frame:
  assumes "fire_invoice_triggers db evs = Inr db'"
  shows "invoice_items db' = invoice_items db \<and> estimates db' = estimates db
        \<and> estimate_items db' = estimate_items db \<and> clients db' = clients db
        \<and> map inv_core (invoices db') = map inv_core (invoices db)"
  using assms
proof (induction evs arbitrary: db)
  case Nil
  then show ?case by simp
next
  case (Cons ev evs)
  then obtain db1 where 1: "recalculate_invoice_totals db ev = Inr db1"
    and 2: "fire_invoice_triggers db1 evs = Inr db'"
    by (auto split: sum.splits option.splits)
  from Cons.IH[OF 2] recalc_invoice_frame[OF 1] show ?case by simp
qed

lemma fire_invoice_sync:
  assumes "fire_invoice_triggers db evs = Inr db'"
    and "(\<exists>ev \<in> set evs. invoice_key ev = Some k) \<or> invoice_in_sync db k"
  shows "invoice_in_sync db' k"
  using assms
proof (induction evs arbitrary: db)
  case Nil
  then show ?case by simp
next
  case (Cons ev evs)
  then obtain db1 where 1: "recalculate_invoice_totals db ev = Inr db1"
    and 2: "fire_invoice_triggers db1 evs = Inr db'"
    by (auto split: sum.splits option.splits)
  from Cons.prems(2) have "(\<exists>ev \<in> set evs. invoice_key ev = Some k) \<or> invoice_in_sync db1 k"
    using recalc_invoice_sync[OF 1, of k] by auto
  from Cons.IH[OF 2 this] show ?case .
qed

lemma add_invoice_items_result:
  "add_invoice_items policy db rows = Inr db1
     \<Longrightarrow> db1 = db\<lparr>invoice_items := invoice_items db @ rows\<rparr>"
proof (induction rows arbitrary: db)
  case Nil
  then show ?case by simp
next
  case (Cons r rs)
  then have "add_invoice_items policy (db\<lparr>invoice_items := invoice_items db @ [r]\<rparr>) rs = Inr db1"
    by (simp split: if_splits)
  from Cons.IH[OF this] show ?case by simp
qed

lemma add_invoice_items_policy:
  "add_invoice_items policy db rows = Inr db1 \<Longrightarrow> r \<in> set rows \<Longrightarrow> policy r"
proof (induction rows arbitrary: db)
  case Nil
  then show ?case by simp
next
  case (Cons x xs)
  from Cons.prems(1) have p: "policy x"
    and rest: "add_invoice_items policy (db\<lparr>invoice_items := invoice_items db @ [x]\<rparr>) xs = Inr db1"
    by (simp_all split: if_splits)
  from Cons.prems(2) Cons.IH[OF rest] p show ?case by auto
qed

lemma invoice_key_simps [simp]:
  "invoice_key (TgInsert r) = Some (ii_invoice_id r)"
  "invoice_key (TgUpdate old r) = Some (ii_invoice_id r)"
  "invoice_key (TgDelete old) = Some (ii_invoice_id old)"
  by (simp_all add: invoice_key_def)

lemma patch_invoice_item_id [simp]:
  "ii_id (patch_invoice_item p it) = ii_id it"
  by (simp add: patch_invoice_item_def)

lemma patch_invoice_item_parent:
  "ii_invoice_id (patch_invoice_item p it) = coalesce_const (p_parent_id p) (ii_invoice_id it)"
  by (simp add: patch_invoice_item_def)

lemma insert_invoice_items_under_cases:
  assumes "insert_invoice_items_under policy db rows = Inr db'"
  obtains db1 where "add_invoice_items policy db rows = Inr db1"
    "fire_invoice_triggers db1 (map TgInsert rows) = Inr db'"
  using assms by (auto simp: insert_invoice_items_under_def split: sum.splits option.splits)

lemma insert_invoice_items_under_frame:
  assumes "insert_invoice_items_under policy db rows = Inr db'"
  shows "invoice_items db' = invoice_items db @ rows \<and> estimates db' = estimates db
        \<and> estimate_items db' = estimate_items db \<and> clients db' = clients db
        \<and> map inv_core (invoices db') = map inv_core (invoices db)"
proof -
  from assms obtain db1 where 1: "add_invoice_items policy db rows = Inr db1"
    and 2: "fire_invoice_triggers db1 (map TgInsert rows) = Inr db'"
    by (rule insert_invoice_items_under_cases)
  from fire_invoice_frame[OF 2] add_invoice_items_result[OF 1] show ?thesis by simp
qed

lemma insert_invoice_items_under_sync:
  assumes "insert_invoice_items_under policy db rows = Inr db'"
    and "(\<exists>r \<in> set rows. ii_invoice_id r = k) \<or> invoice_in_sync db k"
  shows "invoice_in_sync db' k"
proof -
  from assms(1) obtain db1 where 1: "add_invoice_items policy db rows = Inr db1"
    and 2: "fire_invoice_triggers db1 (map TgInsert rows) = Inr db'"
    by (rule insert_invoice_items_under_cases)
  show ?thesis
  proof (cases "\<exists>r \<in> set rows. ii_invoice_id r = k")
    case True
    then have "\<exists>ev \<in> set (map TgInsert rows). invoice_key ev = Some k" by auto
    with fire_invoice_sync[OF 2] show ?thesis by blast
  next
    case False
    with assms(2) have s: "invoice_in_sync db k" by simp
    from False have "invoice_items_of db1 k = invoice_items_of db k"
      using add_invoice_items_result[OF 1] by (auto simp: invoice_items_of_def)
    moreover have "find_invoice db1 k = find_invoice db k"
      using add_invoice_items_result[OF 1] by (simp add: find_invoice_def)
    ultimately have "invoice_in_sync db1 k" using s by (simp add: invoice_in_sync_def split: option.splits)
    with fire_invoice_sync[OF 2] show ?thesis by blast
  qed
qed

lemmas insert_invoice_items_frame =
  insert_invoice_items_under_frame[of "\<lambda>r. True", folded insert_invoice_items_def]

lemmas insert_invoice_items_sync =
  insert_invoice_items_under_sync[of "\<lambda>r. True", folded insert_invoice_items_def]

lemmas insert_invoice_items_as_frame =
  insert_invoice_items_under_frame[of "\<lambda>r. owns_invoice db uid (ii_invoice_id r)" db,
    folded insert_invoice_items_as_def] for db uid

lemmas insert_invoice_items_as_sync =
  insert_invoice_items_under_sync[of "\<lambda>r. owns_invoice db uid (ii_invoice_id r)" db,
    folded insert_invoice_items_as_def] for db uid

lemma update_invoice_items_frame:
  assumes "update_invoice_items db sel p = Inr db'"
  shows "invoice_items db' = map (\<lambda>it. if sel it then patch_invoice_item p it else it) (invoice_items db)
        \<and> estimates db' = estimates db
        \<and> estimate_items db' = estimate_items db \<and> clients db' = clients db
        \<and> map inv_core (invoices db') = map inv_core (invoices db)"
  using assms fire_invoice_frame
  by (fastforce simp: update_invoice_items_def Let_def split: option.splits)

lemma update_invoice_items_sync:
  assumes "update_invoice_items db sel p = Inr db'"
    and "it \<in> set (invoice_items db)" "sel it"
  shows "invoice_in_sync db' (ii_invoice_id (patch_invoice_item p it))"
proof -
  from assms(1) have 2: "fire_invoice_triggers
            (db\<lparr>invoice_items := map (\<lambda>it. if sel it then patch_invoice_item p it else it)
                                   (invoice_items db)\<rparr>)
            (map (\<lambda>it. TgUpdate it (patch_invoice_item p it)) (filter sel (invoice_items db))) = Inr db'"
    by (simp add: update_invoice_items_def Let_def split: option.splits)
  from assms(2,3) have "\<exists>ev \<in> set (map (\<lambda>it. TgUpdate it (patch_invoice_item p it)) (filter sel (invoice_items db))).
      invoice_key ev = Some (ii_invoice_id (patch_invoice_item p it))"
    by auto
  with fire_invoice_sync[OF 2] show ?thesis by blast
qed

lemma delete_invoice_items_frame:
  assumes "delete_invoice_items db sel = Inr db'"
  shows "invoice_items db' = filter (\<lambda>it. \<not> sel it) (invoice_items db)
        \<and> estimates db' = estimates db
        \<and> estimate_items db' = estimate_items db \<and> clients db' = clients db
        \<and> map inv_core (invoices db') = map inv_core (invoices db)"
  using assms fire_invoice_frame
  by (fastforce simp: delete_invoice_items_def)

lemma delete_invoice_items_sync:
  assumes "delete_invoice_items db sel = Inr db'"
    and "it \<in> set (invoice_items db)" "sel it"
  shows "invoice_in_sync db' (ii_invoice_id it)"
proof -
  from assms(1) have 2: "fire_invoice_triggers
       (db\<lparr>invoice_items := filter (\<lambda>it. \<not> sel it) (invoice_items db)\<rparr>)
       (map TgDelete (filter sel (invoice_items db))) = Inr db'"
    by (simp add: delete_invoice_items_def)
  from assms(2,3) have "\<exists>ev \<in> set (map TgDelete (filter sel (invoice_items db))).
      invoice_key ev = Some (ii_invoice_id it)"
    by auto
  with fire_invoice_sync[OF 2] show ?thesis by blast
qed

section \<open>Single-row mutations\<close>

lemma find_estimate_core:
  assumes "map est_core (estimates db') = map est_core (estimates db)"
  shows "map_option est_core (find_estimate db' k) = map_option est_core (find_estimate db k)"
proof -
  have "map_option est_core (find (\<lambda>e. est_id e = k) xs) = find (\<lambda>e. est_id e = k) (map est_core xs)" for xs
    by (rule find_map_preserve[symmetric]) (simp add: est_core_def)
  with assms show ?thesis by (simp add: find_estimate_def)
qed

lemma est_core_fields:
  assumes "est_core e' = est_core e"
  shows "est_id e' = est_id e" "est_user_id e' = est_user_id e" "est_client_id e' = est_client_id e"
    "estimate_number e' = estimate_number e" "est_title e' = est_title e"
    "est_description e' = est_description e" "est_status e' = est_status e"
    "est_issue_date e' = est_issue_date e" "est_valid_until e' = est_valid_until e"
    "est_tax_rate e' = est_tax_rate e" "est_notes e' = est_notes e"
    "est_job_site_address e' = est_job_site_address e" "est_archived_at e' = est_archived_at e"
proof -
  have c: "f (est_core e') = f (est_core e)" for f :: "estimate \<Rightarrow> 'b"
    using assms by simp
  show "est_id e' = est_id e" using c[of est_id] by (simp add: est_core_def)
  show "est_user_id e' = est_user_id e" using c[of est_user_id] by (simp add: est_core_def)
  show "est_client_id e' = est_client_id e" using c[of est_client_id] by (simp add: est_core_def)
  show "estimate_number e' = estimate_number e" using c[of estimate_number] by (simp add: est_core_def)
  show "est_title e' = est_title e" using c[of est_title] by (simp add: est_core_def)
  show "est_description e' = est_description e" using c[of est_description] by (simp add: est_core_def)
  show "est_status e' = est_status e" using c[of est_status] by (simp add: est_core_def)
  show "est_issue_date e' = est_issue_date e" using c[of est_issue_date] by (simp add: est_core_def)
  show "est_valid_until e' = est_valid_until e" using c[of est_valid_until] by (simp add: est_core_def)
  show "est_tax_rate e' = est_tax_rate e" using c[of est_tax_rate] by (simp add: est_core_def)
  show "est_notes e' = est_notes e" using c[of est_notes] by (simp add: est_core_def)
  show "est_job_site_address e' = est_job_site_address e" using c[of est_job_site_address] by (simp add: est_core_def)
  show "est_archived_at e' = est_archived_at e" using c[of est_archived_at] by (simp add: est_core_def)
qed

lemma find_estimate_core_cases:
  assumes "map est_core (estimates db') = map est_core (estimates db)"
    and "find_estimate db k = Some e"
  obtains e' where "find_estimate db' k = Some e'" "est_core e' = est_core e"
  using find_estimate_core[OF assms(1), of k] assms(2) by auto

lemma apply_estimate_mutation_core:
  assumes "apply_item_mutation db m = Inr db'"
  shows "map est_core (estimates db') = map est_core (estimates db)"
proof (cases m)
  case (InsertEstimateItem r)
  with assms show ?thesis using insert_estimate_items_frame by auto
next
  case (UpdateEstimateItem x p)
  with assms show ?thesis using update_estimate_items_frame by auto
next
  case (DeleteEstimateItem x)
  with assms show ?thesis using delete_estimate_items_frame by auto
next
  case (InsertInvoiceItem r)
  with assms show ?thesis using insert_invoice_items_frame by auto
next
  case (UpdateInvoiceItem x p)
  with assms show ?thesis using update_invoice_items_frame by auto
next
  case (DeleteInvoiceItem x)
  with assms show ?thesis using delete_invoice_items_frame by auto
qed

lemma find_invoice_core:
  assumes "map inv_core (invoices db') = map inv_core (invoices db)"
  shows "map_option inv_core (find_invoice db' k) = map_option inv_core (find_invoice db k)"
proof -
  have "map_option inv_core (find (\<lambda>e. inv_id e = k) xs) = find (\<lambda>e. inv_id e = k) (map inv_core xs)" for xs
    by (rule find_map_preserve[symmetric]) (simp add: inv_core_def)
  with assms show ?thesis by (simp add: find_invoice_def)
qed

lemma inv_core_fields:
  assumes "inv_core i' = inv_core i"
  shows "inv_id i' = inv_id i" "inv_user_id i' = inv_user_id i" "inv_client_id i' = inv_client_id i"
    "inv_source_estimate_id i' = inv_source_estimate_id i"
    "invoice_number i' = invoice_number i" "inv_title i' = inv_title i"
    "inv_description i' = inv_description i" "inv_status i' = inv_status i"
    "inv_issue_date i' = inv_issue_date i" "inv_due_date i' = inv_due_date i"
    "inv_paid_date i' = inv_paid_date i"
    "inv_tax_rate i' = inv_tax_rate i" "inv_notes i' = inv_notes i"
    "inv_archived_at i' = inv_archived_at i"
proof -
  have c: "f (inv_core i') = f (inv_core i)" for f :: "invoice \<Rightarrow> 'b"
    using assms by simp
  show "inv_id i' = inv_id i" using c[of inv_id] by (simp add: inv_core_def)
  show "inv_user_id i' = inv_user_id i" using c[of inv_user_id] by (simp add: inv_core_def)
  show "inv_client_id i' = inv_client_id i" using c[of inv_client_id] by (simp add: inv_core_def)
  show "inv_source_estimate_id i' = inv_source_estimate_id i"
    using c[of inv_source_estimate_id] by (simp add: inv_core_def)
  show "invoice_number i' = invoice_number i" using c[of invoice_number] by (simp add: inv_core_def)
  show "inv_title i' = inv_title i" using c[of inv_title] by (simp add: inv_core_def)
  show "inv_description i' = inv_description i" using c[of inv_description] by (simp add: inv_core_def)
  show "inv_status i' = inv_status i" using c[of inv_status] by (simp add: inv_core_def)
  show "inv_issue_date i' = inv_issue_date i" using c[of inv_issue_date] by (simp add: inv_core_def)
  show "inv_due_date i' = inv_due_date i" using c[of inv_due_date] by (simp add: inv_core_def)
  show "inv_paid_date i' = inv_paid_date i" using c[of inv_paid_date] by (simp add: inv_core_def)
  show "inv_tax_rate i' = inv_tax_rate i" using c[of inv_tax_rate] by (simp add: inv_core_def)
  show "inv_notes i' = inv_notes i" using c[of inv_notes] by (simp add: inv_core_def)
  show "inv_archived_at i' = inv_archived_at i" using c[of inv_archived_at] by (simp add: inv_core_def)
qed

lemma find_invoice_core_cases:
  assumes "map inv_core (invoices db') = map inv_core (invoices db)"
    and "find_invoice db k = Some e"
  obtains e' where "find_invoice db' k = Some e'" "inv_core e' = inv_core e"
  using find_invoice_core[OF assms(1), of k] assms(2) by auto

lemma apply_invoice_mutation_core:
  assumes "apply_item_mutation db m = Inr db'"
  shows "map inv_core (invoices db') = map inv_core (invoices db)"
proof (cases m)
  case (InsertInvoiceItem r)
  with assms show ?thesis using insert_invoice_items_frame by auto
next
  case (UpdateInvoiceItem x p)
  with assms show ?thesis using update_invoice_items_frame by auto
next
  case (DeleteInvoiceItem x)
  with assms show ?thesis using delete_invoice_items_frame by auto
next
  case (InsertEstimateItem r)
  with assms show ?thesis using insert_estimate_items_frame by auto
next
  case (UpdateEstimateItem x p)
  with assms show ?thesis using update_estimate_items_frame by auto
next
  case (DeleteEstimateItem x)
  with assms show ?thesis using delete_estimate_items_frame by auto
qed

lemma item_mutation_in_sync:
  assumes "apply_item_mutation db m = Inr db'"
    and "d \<in> set (recalculated_documents db m)"
  shows "document_in_sync db' d"
proof (cases m)
  case (InsertEstimateItem r)
  with assms show ?thesis using insert_estimate_items_sync[of db "[r]" db'] by auto
next
  case (UpdateEstimateItem x p)
  with assms show ?thesis using update_estimate_items_sync[of db _ p db'] by auto
next
  case (DeleteEstimateItem x)
  with assms show ?thesis using delete_estimate_items_sync[of db _ db'] by auto
next
  case (InsertInvoiceItem r)
  with assms show ?thesis using insert_invoice_items_sync[of db "[r]" db'] by auto
next
  case (UpdateInvoiceItem x p)
  with assms show ?thesis using update_invoice_items_sync[of db _ p db'] by auto
next
  case (DeleteInvoiceItem x)
  with assms show ?thesis using delete_invoice_items_sync[of db _ db'] by auto
qed

section \<open>Inserted documents\<close>

lemma insert_estimate_as_result:
  assumes "insert_estimate_as uid db r = Inr db1"
  shows "db1 = db\<lparr>estimates := estimates db @ [r]\<rparr>"
    "est_id r \<notin> set (map est_id (estimates db))"
    "(est_user_id r, estimate_number r)
       \<notin> set (map (\<lambda>e. (est_user_id e, estimate_number e)) (estimates db))"
    "uid = Some (est_user_id r)"
    "estimate_input_error r = None" "estimate_reference_error db r = None"
  using assms by (simp_all add: insert_estimate_as_def split: if_splits option.splits)

lemma insert_estimate_as_ok:
  assumes "estimate_input_error r = None" "uid = Some (est_user_id r)"
    "est_id r \<notin> set (map est_id (estimates db))"
    "(est_user_id r, estimate_number r)
       \<notin> set (map (\<lambda>e. (est_user_id e, estimate_number e)) (estimates db))"
    "estimate_reference_error db r = None"
  shows "insert_estimate_as uid db r = Inr (db\<lparr>estimates := estimates db @ [r]\<rparr>)"
  using assms by (simp add: insert_estimate_as_def)

lemma insert_estimate_result:
  assumes "insert_estimate db r = Inr db1"
  shows "db1 = db\<lparr>estimates := estimates db @ [r]\<rparr>" "est_id r \<notin> set (map est_id (estimates db))"
    "(est_user_id r, estimate_number r) \<notin> set (map (\<lambda>e. (est_user_id e, estimate_number e)) (estimates db))"
  using insert_estimate_as_result(1-3)[OF assms[unfolded insert_estimate_def]] .

lemma find_snoc_fresh:
  assumes "\<forall>x \<in> set xs. \<not> P x" "P r"
  shows "find P (xs @ [r]) = Some r"
  using assms by (induction xs) auto

lemma find_estimate_inserted_as:
  assumes "insert_estimate_as uid db r = Inr db1"
  shows "find_estimate db1 (est_id r) = Some r"
proof -
  from insert_estimate_as_result(2)[OF assms]
  have "\<forall>x \<in> set (estimates db). \<not> est_id x = est_id r"
    by (auto simp: image_iff)
  then have "find (\<lambda>e. est_id e = est_id r) (estimates db @ [r]) = Some r"
    by (rule find_snoc_fresh) simp
  with insert_estimate_as_result(1)[OF assms] show ?thesis
    by (simp add: find_estimate_def)
qed

lemmas find_estimate_inserted =
  find_estimate_inserted_as[of "Some (est_user_id r)" db r, folded insert_estimate_def] for db r

lemma insert_invoice_as_result:
  assumes "insert_invoice_as uid db r = Inr db1"
  shows "db1 = db\<lparr>invoices := invoices db @ [r]\<rparr>"
    "inv_id r \<notin> set (map inv_id (invoices db))"
    "(inv_user_id r, invoice_number r)
       \<notin> set (map (\<lambda>e. (inv_user_id e, invoice_number e)) (invoices db))"
    "uid = Some (inv_user_id r)"
    "invoice_input_error r = None" "invoice_reference_error db r = None"
  using assms by (simp_all add: insert_invoice_as_def split: if_splits option.splits)

lemma insert_invoice_as_ok:
  assumes "invoice_input_error r = None" "uid = Some (inv_user_id r)"
    "inv_id r \<notin> set (map inv_id (invoices db))"
    "(inv_user_id r, invoice_number r)
       \<notin> set (map (\<lambda>e. (inv_user_id e, invoice_number e)) (invoices db))"
    "invoice_reference_error db r = None"
  shows "insert_invoice_as uid db r = Inr (db\<lparr>invoices := invoices db @ [r]\<rparr>)"
  using assms by (simp add: insert_invoice_as_def)

lemma insert_invoice_result:
  assumes "insert_invoice db r = Inr db1"
  shows "db1 = db\<lparr>invoices := invoices db @ [r]\<rparr>" "inv_id r \<notin> set (map inv_id (invoices db))"
    "(inv_user_id r, invoice_number r) \<notin> set (map (\<lambda>e. (inv_user_id e, invoice_number e)) (invoices db))"
  using insert_invoice_as_result(1-3)[OF assms[unfolded insert_invoice_def]] .

lemma find_invoice_inserted_as:
  assumes "insert_invoice_as uid db r = Inr db1"
  shows "find_invoice db1 (inv_id r) = Some r"
proof -
  from insert_invoice_as_result(2)[OF assms]
  have "\<forall>x \<in> set (invoices db). \<not> inv_id x = inv_id r"
    by (auto simp: image_iff)
  then have "find (\<lambda>e. inv_id e = inv_id r) (invoices db @ [r]) = Some r"
    by (rule find_snoc_fresh) simp
  with insert_invoice_as_result(1)[OF assms] show ?thesis
    by (simp add: find_invoice_def)
qed

lemmas find_invoice_inserted =
  find_invoice_inserted_as[of "Some (inv_user_id r)" db r, folded insert_invoice_def] for db r


section \<open>Conversion\<close>

lemma enumerate_Nil_iff [simp]: "enumerate n xs = [] \<longleftrightarrow> xs = []"
  by (cases xs) simp_all

lemma converted_items_parent:
  "it \<in> set (converted_items est env) \<Longrightarrow> ii_invoice_id it = new_invoice_id env"
  by (auto simp: converted_items_def converted_item_def)

lemma converted_items_lines:
  "map (\<lambda>it. f (ii_quantity it) (ii_unit_price it)) (converted_items est env)
     = map (\<lambda>it. f (ei_quantity it) (ei_unit_price it)) (d_items est)"
proof -
  have "map (\<lambda>it. f (ii_quantity it) (ii_unit_price it)) (map (converted_item env) xs)
          = map (\<lambda>it. f (ei_quantity it) (ei_unit_price it)) (map snd xs)" for xs
    by (induction xs) (auto simp: converted_item_def)
  from this[of "enumerate 0 (d_items est)"] show ?thesis
    unfolding converted_items_def map_snd_enumerate .
qed

lemma convert_created_cases:
  assumes "handleConvertToInvoice db userId est env = (db', InvoiceCreated k)"
  obtains db1 where "k = new_invoice_id env"
    "insert_invoice db (converted_invoice userId est env) = Inr db1"
    "(d_items est = [] \<and> db' = db1)
     \<or> (d_items est \<noteq> [] \<and> insert_invoice_items db1 (converted_items est env) = Inr db')"
  using assms
  by (auto simp: handleConvertToInvoice_def Let_def converted_items_def
      split: sum.splits if_splits)

text \<open>After a successful conversion: the new invoice row up to its totals, the item rows
  of the new invoice, and the totals in step with them.\<close>

lemma convert_created_state:
  assumes "handleConvertToInvoice db userId est env = (db', InvoiceCreated k)"
    and "invoice_items_of db (new_invoice_id env) = []"
  shows "k = new_invoice_id env"
    and "\<exists>i. find_invoice db' k = Some i \<and> inv_core i = inv_core (converted_invoice userId est env)"
    and "invoice_items_of db' k = converted_items est env"
    and "invoice_in_sync db' k"
proof -
  from assms(1) obtain db1 where k: "k = new_invoice_id env"
    and ins: "insert_invoice db (converted_invoice userId est env) = Inr db1"
    and rest: "(d_items est = [] \<and> db' = db1)
     \<or> (d_items est \<noteq> [] \<and> insert_invoice_items db1 (converted_items est env) = Inr db')"
    by (rule convert_created_cases)
  have id: "inv_id (converted_invoice userId est env) = k"
    using k by (simp add: converted_invoice_def)
  have f1: "find_invoice db1 k = Some (converted_invoice userId est env)"
    using find_invoice_inserted[OF ins] id by simp
  have items1: "invoice_items_of db1 k = []"
    using insert_invoice_result(1)[OF ins] assms(2) k by (simp add: invoice_items_of_def)
  show "k = new_invoice_id env" by (rule k)
  from rest show "\<exists>i. find_invoice db' k = Some i \<and> inv_core i = inv_core (converted_invoice userId est env)"
  proof
    assume "d_items est = [] \<and> db' = db1"
    with f1 show ?thesis by simp
  next
    assume a: "d_items est \<noteq> [] \<and> insert_invoice_items db1 (converted_items est env) = Inr db'"
    then have "map inv_core (invoices db') = map inv_core (invoices db1)"
      using insert_invoice_items_frame by blast
    from find_invoice_core_cases[OF this f1] show ?thesis by blast
  qed
  from rest show items: "invoice_items_of db' k = converted_items est env"
  proof
    assume "d_items est = [] \<and> db' = db1"
    with items1 show ?thesis by (simp add: converted_items_def)
  next
    assume a: "d_items est \<noteq> [] \<and> insert_invoice_items db1 (converted_items est env) = Inr db'"
    then have "invoice_items db' = invoice_items db1 @ converted_items est env"
      using insert_invoice_items_frame by blast
    then have "invoice_items_of db' k = invoice_items_of db1 k @ filter (\<lambda>it. ii_invoice_id it = k) (converted_items est env)"
      by (simp add: invoice_items_of_def)
    moreover have "filter (\<lambda>it. ii_invoice_id it = k) (converted_items est env) = converted_items est env"
      using converted_items_parent k by (auto intro: filter_True)
    ultimately show ?thesis using items1 by simp
  qed
  from rest show "invoice_in_sync db' k"
  proof
    assume a: "d_items est = [] \<and> db' = db1"
    with f1 items1 show ?thesis
      by (simp add: invoice_in_sync_def converted_invoice_def)
  next
    assume a: "d_items est \<noteq> [] \<and> insert_invoice_items db1 (converted_items est env) = Inr db'"
    then have "converted_items est env \<noteq> []" by (simp add: converted_items_def)
    then obtain r where "r \<in> set (converted_items est env)" by (cases "converted_items est env") auto
    then have "\<exists>r \<in> set (converted_items est env). ii_invoice_id r = k"
      using converted_items_parent k by blast
    with a insert_invoice_items_sync show ?thesis by blast
  qed
qed


lemma utc_date_plus_30_days: "utc_date (t + 30 * 24 * 60 * 60 * 1000) = utc_date t + 30"
  by (simp add: utc_date_def ms_per_day_def)

lemma stale_conversion:
  "handleConvertToInvoice stale_db 100 stale_detail example_env = (converted_db, InvoiceCreated 2)"
  by (simp add: example_defs convert_defs clock_defs store_defs)


section \<open>Dates and instants\<close>

lemma before_instant_iff:
  fixes d now :: int
  shows "d * ms_per_day < now \<longleftrightarrow> d < utc_date now \<or> (d = utc_date now \<and> 0 < now mod ms_per_day)"
proof -
  define q where "q = now div ms_per_day"
  define r where "r = now mod ms_per_day"
  have D: "0 < ms_per_day"
    by (simp add: ms_per_day_def)
  have now: "now = q * ms_per_day + r"
    by (simp add: q_def r_def)
  have r: "0 \<le> r" "r < ms_per_day"
    using D by (simp_all add: r_def)
  have "d * ms_per_day < q * ms_per_day + r \<longleftrightarrow> d < q \<or> (d = q \<and> 0 < r)"
  proof (cases "d < q")
    case True
    then have "(d + 1) * ms_per_day \<le> q * ms_per_day"
      using D by (intro mult_right_mono) simp_all
    then have "d * ms_per_day + ms_per_day \<le> q * ms_per_day"
      by (simp add: algebra_simps)
    with D r True show ?thesis by linarith
  next
    case False
    show ?thesis
    proof (cases "d = q")
      case True
      then show ?thesis by simp
    next
      case neq: False
      with False have "(q + 1) * ms_per_day \<le> d * ms_per_day"
        using D by (intro mult_right_mono) simp_all
      then have "q * ms_per_day + ms_per_day \<le> d * ms_per_day"
        by (simp add: algebra_simps)
      with r False neq show ?thesis by linarith
    qed
  qed
  then show ?thesis
    by (simp add: utc_date_def q_def r_def)
qed


section \<open>Updates of document rows\<close>

lemma first_error_None: "(\<And>x. x \<in> set xs \<Longrightarrow> x = None) \<Longrightarrow> first_error xs = None"
proof (induction xs)
  case Nil
  then show ?case by simp
next
  case (Cons x xs)
  then have "x = None" by simp
  with Cons show ?case by simp
qed

lemma update_estimate_unconstrained:
  assumes "\<And>e. est_id (f e) = est_id e \<and> est_user_id (f e) = est_user_id e
        \<and> estimate_number (f e) = estimate_number e \<and> est_title (f e) = est_title e
        \<and> est_client_id (f e) = est_client_id e
        \<and> est_tax_rate (f e) = est_tax_rate e \<and> est_subtotal (f e) = est_subtotal e
        \<and> est_tax_amount (f e) = est_tax_amount e \<and> est_total (f e) = est_total e"
  shows "update_estimate db k f
           = Inr (db\<lparr>estimates := map (\<lambda>e. if est_id e = k then f e else e) (estimates db)\<rparr>)"
proof -
  have "first_error (map (\<lambda>e. estimate_update_error True db e (f e))
                            (filter (\<lambda>e. est_id e = k) (estimates db))) = None"
    by (rule first_error_None) (auto simp: estimate_update_error_def assms)
  then show ?thesis by (simp add: update_estimate_def)
qed

lemma find_SomeD: "find P xs = Some x \<Longrightarrow> P x"
  by (auto simp: find_Some_iff)

lemma find_estimate_updated:
  assumes "\<And>e. est_id (f e) = est_id e"
  shows "find_estimate (db\<lparr>estimates := map (\<lambda>e. if est_id e = k then f e else e) (estimates db)\<rparr>) k'
           = (if k' = k then map_option f (find_estimate db k') else find_estimate db k')"
proof -
  have "find (\<lambda>e. est_id e = k') (map (\<lambda>e. if est_id e = k then f e else e) xs)
          = map_option (\<lambda>e. if est_id e = k then f e else e) (find (\<lambda>e. est_id e = k') xs)" for xs
    by (rule find_map_preserve) (simp add: assms)
  moreover have "map_option (\<lambda>e. if est_id e = k then f e else e) (find (\<lambda>e. est_id e = k') xs)
          = (if k' = k then map_option f (find (\<lambda>e. est_id e = k') xs) else find (\<lambda>e. est_id e = k') xs)" for xs
    by (cases "find (\<lambda>e. est_id e = k') xs") (auto dest: find_SomeD)
  ultimately show ?thesis by (simp add: find_estimate_def)
qed


lemma update_invoice_unconstrained:
  assumes "\<And>e. inv_id (f e) = inv_id e \<and> inv_user_id (f e) = inv_user_id e
        \<and> invoice_number (f e) = invoice_number e \<and> inv_title (f e) = inv_title e
        \<and> inv_client_id (f e) = inv_client_id e
        \<and> inv_source_estimate_id (f e) = inv_source_estimate_id e
        \<and> inv_tax_rate (f e) = inv_tax_rate e \<and> inv_subtotal (f e) = inv_subtotal e
        \<and> inv_tax_amount (f e) = inv_tax_amount e \<and> inv_total (f e) = inv_total e"
  shows "update_invoice db k f
           = Inr (db\<lparr>invoices := map (\<lambda>e. if inv_id e = k then f e else e) (invoices db)\<rparr>)"
proof -
  have "first_error (map (\<lambda>e. invoice_update_error True db e (f e))
                            (filter (\<lambda>e. inv_id e = k) (invoices db))) = None"
    by (rule first_error_None) (auto simp: invoice_update_error_def assms)
  then show ?thesis by (simp add: update_invoice_def)
qed


lemma find_invoice_updated:
  assumes "\<And>e. inv_id (f e) = inv_id e"
  shows "find_invoice (db\<lparr>invoices := map (\<lambda>e. if inv_id e = k then f e else e) (invoices db)\<rparr>) k'
           = (if k' = k then map_option f (find_invoice db k') else find_invoice db k')"
proof -
  have "find (\<lambda>e. inv_id e = k') (map (\<lambda>e. if inv_id e = k then f e else e) xs)
          = map_option (\<lambda>e. if inv_id e = k then f e else e) (find (\<lambda>e. inv_id e = k') xs)" for xs
    by (rule find_map_preserve) (simp add: assms)
  moreover have "map_option (\<lambda>e. if inv_id e = k then f e else e) (find (\<lambda>e. inv_id e = k') xs)
          = (if k' = k then map_option f (find (\<lambda>e. inv_id e = k') xs) else find (\<lambda>e. inv_id e = k') xs)" for xs
    by (cases "find (\<lambda>e. inv_id e = k') xs") (auto dest: find_SomeD)
  ultimately show ?thesis by (simp add: find_invoice_def)
qed


lemma find_estimate_updated_as:
  assumes "\<And>e. est_id (f e) = est_id e" and "find_estimate db k = Some e"
    and "uid = Some (est_user_id e)"
  shows "find_estimate (db\<lparr>estimates := map (\<lambda>e. if est_id e = k \<and> uid = Some (est_user_id e) then f e else e)
                                            (estimates db)\<rparr>) k
           = Some (f e)"
proof -
  have "find (\<lambda>e. est_id e = k) (map (\<lambda>e. if est_id e = k \<and> uid = Some (est_user_id e) then f e else e) xs)
          = map_option (\<lambda>e. if est_id e = k \<and> uid = Some (est_user_id e) then f e else e)
              (find (\<lambda>e. est_id e = k) xs)" for xs
    by (rule find_map_preserve) (simp add: assms(1))
  with assms(2,3) show ?thesis
    by (auto simp: find_estimate_def dest: find_SomeD)
qed

lemma select_estimate_owner:
  assumes "find_estimate db k = Some e" "uid = Some (est_user_id e)"
  shows "select_estimate uid db k = Some e"
proof -
  have "find (\<lambda>e. est_id e = k) xs = Some e \<Longrightarrow> uid = Some (est_user_id e)
          \<Longrightarrow> find (\<lambda>e. est_id e = k \<and> uid = Some (est_user_id e)) xs = Some e" for xs
    by (induction xs) (auto split: if_splits)
  with assms show ?thesis by (simp add: find_estimate_def select_estimate_def)
qed

lemma select_estimate_SomeD:
  assumes "select_estimate uid db k = Some e"
  shows "e \<in> set (estimates db)" "est_id e = k" "uid = Some (est_user_id e)"
  using assms by (auto simp: select_estimate_def find_Some_iff)


lemma update_invoice_as_result:
  assumes "update_invoice_as uid db k f = Inr db1"
  shows "db1 = db\<lparr>invoices := map (\<lambda>e. if inv_id e = k \<and> uid = Some (inv_user_id e) then f e else e)
                                     (invoices db)\<rparr>"
  using assms by (auto simp: update_invoice_as_def split: option.splits)

lemma find_invoice_updated_as:
  assumes "\<And>e. inv_id (f e) = inv_id e" and "find_invoice db k = Some e"
    and "uid = Some (inv_user_id e)"
  shows "find_invoice (db\<lparr>invoices := map (\<lambda>e. if inv_id e = k \<and> uid = Some (inv_user_id e) then f e else e)
                                            (invoices db)\<rparr>) k
           = Some (f e)"
proof -
  have "find (\<lambda>e. inv_id e = k) (map (\<lambda>e. if inv_id e = k \<and> uid = Some (inv_user_id e) then f e else e) xs)
          = map_option (\<lambda>e. if inv_id e = k \<and> uid = Some (inv_user_id e) then f e else e)
              (find (\<lambda>e. inv_id e = k) xs)" for xs
    by (rule find_map_preserve) (simp add: assms(1))
  with assms(2,3) show ?thesis
    by (auto simp: find_invoice_def dest: find_SomeD)
qed

lemma update_estimate_as_unconstrained:
  assumes "\<And>e. est_id (f e) = est_id e \<and> est_user_id (f e) = est_user_id e
        \<and> estimate_number (f e) = estimate_number e \<and> est_title (f e) = est_title e
        \<and> est_client_id (f e) = est_client_id e
        \<and> est_tax_rate (f e) = est_tax_rate e \<and> est_subtotal (f e) = est_subtotal e
        \<and> est_tax_amount (f e) = est_tax_amount e \<and> est_total (f e) = est_total e"
  shows "update_estimate_as uid db k f
           = Inr (db\<lparr>estimates := map (\<lambda>e. if est_id e = k \<and> uid = Some (est_user_id e) then f e else e)
                                         (estimates db)\<rparr>)"
proof -
  have "first_error
          (map (\<lambda>e. estimate_update_error (uid = Some (est_user_id (f e))) db e (f e))
               (filter (\<lambda>e. est_id e = k \<and> uid = Some (est_user_id e)) (estimates db))) = None"
    by (rule first_error_None) (auto simp: estimate_update_error_def assms)
  then show ?thesis by (simp add: update_estimate_as_def)
qed

lemma update_invoice_as_unconstrained:
  assumes "\<And>e. inv_id (f e) = inv_id e \<and> inv_user_id (f e) = inv_user_id e
        \<and> invoice_number (f e) = invoice_number e \<and> inv_title (f e) = inv_title e
        \<and> inv_client_id (f e) = inv_client_id e
        \<and> inv_source_estimate_id (f e) = inv_source_estimate_id e
        \<and> inv_tax_rate (f e) = inv_tax_rate e \<and> inv_subtotal (f e) = inv_subtotal e
        \<and> inv_tax_amount (f e) = inv_tax_amount e \<and> inv_total (f e) = inv_total e"
  shows "update_invoice_as uid db k f
           = Inr (db\<lparr>invoices := map (\<lambda>e. if inv_id e = k \<and> uid = Some (inv_user_id e) then f e else e)
                                         (invoices db)\<rparr>)"
proof -
  have "first_error
          (map (\<lambda>e. invoice_update_error (uid = Some (inv_user_id (f e))) db e (f e))
               (filter (\<lambda>e. inv_id e = k \<and> uid = Some (inv_user_id e)) (invoices db))) = None"
    by (rule first_error_None) (auto simp: invoice_update_error_def assms)
  then show ?thesis by (simp add: update_invoice_as_def)
qed


section \<open>Archive, status and paid toggles\<close>

lemma archive_estimate_result:
  "handleArchive_estimate db k archivedAt now =
     (db\<lparr>estimates := map (\<lambda>e. if est_id e = k
          then e\<lparr>est_archived_at := (case archivedAt of Some a \<Rightarrow> None | None \<Rightarrow> Some now)\<rparr> else e) (estimates db)\<rparr>,
      case archivedAt of Some a \<Rightarrow> None | None \<Rightarrow> Some now)"
proof -
  have "update_estimate db k (\<lambda>e. e\<lparr>est_archived_at := (case archivedAt of Some a \<Rightarrow> None | None \<Rightarrow> Some now)\<rparr>)
      = Inr (db\<lparr>estimates := map (\<lambda>e. if est_id e = k
          then e\<lparr>est_archived_at := (case archivedAt of Some a \<Rightarrow> None | None \<Rightarrow> Some now)\<rparr> else e) (estimates db)\<rparr>)"
    by (rule update_estimate_unconstrained) simp
  then show ?thesis by (simp add: handleArchive_estimate_def Let_def)
qed

lemma archive_invoice_result:
  "handleArchive_invoice db k archivedAt now =
     (db\<lparr>invoices := map (\<lambda>i. if inv_id i = k
          then i\<lparr>inv_archived_at := (case archivedAt of Some a \<Rightarrow> None | None \<Rightarrow> Some now)\<rparr> else i) (invoices db)\<rparr>,
      case archivedAt of Some a \<Rightarrow> None | None \<Rightarrow> Some now)"
proof -
  have "update_invoice db k (\<lambda>i. i\<lparr>inv_archived_at := (case archivedAt of Some a \<Rightarrow> None | None \<Rightarrow> Some now)\<rparr>)
      = Inr (db\<lparr>invoices := map (\<lambda>i. if inv_id i = k
          then i\<lparr>inv_archived_at := (case archivedAt of Some a \<Rightarrow> None | None \<Rightarrow> Some now)\<rparr> else i) (invoices db)\<rparr>)"
    by (rule update_invoice_unconstrained) simp
  then show ?thesis by (simp add: handleArchive_invoice_def Let_def)
qed

lemma find_invoice_estimates_upd [simp]: "find_invoice (db\<lparr>estimates := es\<rparr>) k = find_invoice db k"
  by (simp add: find_invoice_def)

lemma find_estimate_invoices_upd [simp]: "find_estimate (db\<lparr>invoices := is\<rparr>) k = find_estimate db k"
  by (simp add: find_estimate_def)

lemma archive_rows:
  assumes "handleArchive db d archivedAt now = (db', toggled)"
  shows "toggled = (case archivedAt of Some a \<Rightarrow> None | None \<Rightarrow> Some now)"
    and "document_row db' d' = (if d' = d then map_option (set_row_archived_at toggled) (document_row db d')
                                else document_row db d')"
    and "estimate_items db' = estimate_items db" "invoice_items db' = invoice_items db"
    and "clients db' = clients db"
proof -
  show "toggled = (case archivedAt of Some a \<Rightarrow> None | None \<Rightarrow> Some now)"
    using assms by (cases d) (auto simp: archive_estimate_result archive_invoice_result)
  show "document_row db' d' = (if d' = d then map_option (set_row_archived_at toggled) (document_row db d')
                                else document_row db d')"
  proof (cases d)
    case (EstimateRef k)
    with assms show ?thesis
      by (cases d') (auto simp: archive_estimate_result find_estimate_updated option.map_comp comp_def)
  next
    case (InvoiceRef k)
    with assms show ?thesis
      by (cases d') (auto simp: archive_invoice_result find_invoice_updated option.map_comp comp_def)
  qed
  show "estimate_items db' = estimate_items db" "invoice_items db' = invoice_items db"
    "clients db' = clients db"
    using assms by (cases d; auto simp: archive_estimate_result archive_invoice_result)+
qed


lemma toggle_paid_result:
  "handleTogglePaid db k st now =
     (db\<lparr>invoices := map (\<lambda>i. if inv_id i = k
          then i\<lparr>inv_status := (if st = Paid then Unpaid else Paid),
                 inv_paid_date := (if st = Paid then None else Some (utc_date now))\<rparr> else i) (invoices db)\<rparr>,
      if st = Paid then Unpaid else Paid)"
proof (cases "st = Paid")
  case True
  have "update_invoice db k (\<lambda>i. i\<lparr>inv_status := Unpaid, inv_paid_date := None\<rparr>)
      = Inr (db\<lparr>invoices := map (\<lambda>i. if inv_id i = k
          then i\<lparr>inv_status := Unpaid, inv_paid_date := None\<rparr> else i) (invoices db)\<rparr>)"
    by (rule update_invoice_unconstrained) simp
  with True show ?thesis by (simp add: handleTogglePaid_def)
next
  case False
  have "update_invoice db k (\<lambda>i. i\<lparr>inv_status := Paid, inv_paid_date := Some (utc_date now)\<rparr>)
      = Inr (db\<lparr>invoices := map (\<lambda>i. if inv_id i = k
          then i\<lparr>inv_status := Paid, inv_paid_date := Some (utc_date now)\<rparr> else i) (invoices db)\<rparr>)"
    by (rule update_invoice_unconstrained) simp
  with False show ?thesis by (simp add: handleTogglePaid_def)
qed

lemma status_change_result:
  "handleStatusChange db k s =
     (db\<lparr>estimates := map (\<lambda>e. if est_id e = k then e\<lparr>est_status := s\<rparr> else e) (estimates db)\<rparr>, True)"
proof -
  have "update_estimate db k (\<lambda>e. e\<lparr>est_status := s\<rparr>)
      = Inr (db\<lparr>estimates := map (\<lambda>e. if est_id e = k then e\<lparr>est_status := s\<rparr> else e) (estimates db)\<rparr>)"
    by (rule update_estimate_unconstrained) simp
  then show ?thesis by (simp add: handleStatusChange_def)
qed


lemma archived_estimate_not_listed:
  assumes "a \<noteq> None"
  shows "k \<notin> set (map est_id (EstimatesPage
            (db\<lparr>estimates := map (\<lambda>e. if est_id e = k then e\<lparr>est_archived_at := a\<rparr> else e) (estimates db)\<rparr>)
            tenant))"
proof
  define g :: "estimate \<Rightarrow> estimate"
    where "g = (\<lambda>e. if est_id e = k then e\<lparr>est_archived_at := a\<rparr> else e)"
  assume "k \<in> set (map est_id (EstimatesPage
            (db\<lparr>estimates := map (\<lambda>e. if est_id e = k then e\<lparr>est_archived_at := a\<rparr> else e) (estimates db)\<rparr>)
            tenant))"
  then obtain x where "x \<in> set (EstimatesPage (db\<lparr>estimates := map g (estimates db)\<rparr>) tenant)"
    and xk: "est_id x = k"
    unfolding g_def[symmetric] set_map by blast
  then have "x \<in> set (map g (estimates db))" and xa: "est_archived_at x = None"
    by (simp_all add: EstimatesPage_def)
  then obtain e0 where "x = g e0"
    unfolding set_map by blast
  with xk have "est_archived_at x = a"
    by (simp add: g_def split: if_splits)
  with xa assms show False by simp
qed

lemma invoice_listed:
  assumes "find_invoice db k = Some i"
  shows "k \<in> set (map inv_id (InvoicesPage db (inv_user_id i)))"
proof -
  from find_invoice_Some_set[OF assms] have "i \<in> set (InvoicesPage db (inv_user_id i))" "inv_id i = k"
    by (simp_all add: InvoicesPage_def)
  then have "k \<in> inv_id ` set (InvoicesPage db (inv_user_id i))"
    by blast
  then show ?thesis by simp
qed

lemma archive_hidden:
  assumes "handleArchive db (EstimateRef k) archivedAt now = (db', toggled)" "toggled \<noteq> None"
  shows "\<not> default_list db' tenant (EstimateRef k)"
proof -
  from assms(1) have "db' = db\<lparr>estimates := map (\<lambda>e. if est_id e = k then e\<lparr>est_archived_at := toggled\<rparr> else e) (estimates db)\<rparr>"
    by (auto simp: archive_estimate_result)
  with archived_estimate_not_listed[OF assms(2)] show ?thesis by simp
qed

lemma listed_when_active:
  assumes "document_row db d = Some row" "row_archived_at row = None \<or> (\<exists>k. d = InvoiceRef k)"
  shows "default_list db (row_owner row) d"
proof (cases d)
  case (EstimateRef k)
  with assms(1) obtain e where e: "find_estimate db k = Some e" and row: "row = EstimateRow e"
    by auto
  from find_estimate_Some_set[OF e] assms(2) row EstimateRef
  have "e \<in> set (EstimatesPage db (row_owner row))" "est_id e = k"
    by (simp_all add: EstimatesPage_def)
  then have "k \<in> est_id ` set (EstimatesPage db (row_owner row))"
    by blast
  with EstimateRef show ?thesis by simp
next
  case (InvoiceRef k)
  with assms(1) obtain i where i: "find_invoice db k = Some i" and row: "row = InvoiceRow i"
    by auto
  from invoice_listed[OF i] row InvoiceRef show ?thesis by simp
qed

lemma row_after_set_archived [simp]:
  "row_archived_at (set_row_archived_at a row) = a"
  "row_owner (set_row_archived_at a row) = row_owner row"
  "row_status (set_row_archived_at a row) = row_status row"
  by (cases row; simp)+

lemma status_change_row:
  assumes "document_row db (EstimateRef k) = Some row"
  shows "\<exists>db''. handleStatusChange db k s = (db'', True)
              \<and> map_option row_status (document_row db'' (EstimateRef k)) = Some (EstimateStatus s)
              \<and> map_option row_archived_at (document_row db'' (EstimateRef k)) = Some (row_archived_at row)"
proof -
  from assms obtain e where e: "find_estimate db k = Some e" and row: "row = EstimateRow e"
    by auto
  have "find_estimate (db\<lparr>estimates := map (\<lambda>e. if est_id e = k then e\<lparr>est_status := s\<rparr> else e) (estimates db)\<rparr>) k
      = Some (e\<lparr>est_status := s\<rparr>)"
    using e by (simp add: find_estimate_updated)
  with row show ?thesis by (simp add: status_change_result)
qed

lemma toggle_paid_row:
  assumes "document_row db (InvoiceRef k) = Some row"
  shows "\<exists>db''. handleTogglePaid db k st t = (db'', if st = Paid then Unpaid else Paid)
              \<and> map_option row_status (document_row db'' (InvoiceRef k))
                   = Some (InvoiceStatus (if st = Paid then Unpaid else Paid))
              \<and> map_option row_archived_at (document_row db'' (InvoiceRef k)) = Some (row_archived_at row)"
proof -
  from assms obtain i where i: "find_invoice db k = Some i" and row: "row = InvoiceRow i"
    by auto
  have "find_invoice (db\<lparr>invoices := map (\<lambda>i. if inv_id i = k
          then i\<lparr>inv_status := (if st = Paid then Unpaid else Paid),
                 inv_paid_date := (if st = Paid then None else Some (utc_date t))\<rparr> else i) (invoices db)\<rparr>) k
      = Some (i\<lparr>inv_status := (if st = Paid then Unpaid else Paid),
                 inv_paid_date := (if st = Paid then None else Some (utc_date t))\<rparr>)"
    using i by (simp add: find_invoice_updated)
  with row show ?thesis by (simp add: toggle_paid_result)
qed

section \<open>Saving and sending an estimate\<close>










lemma estimate_item_rows_Nil [simp]: "estimate_item_rows k env its = [] \<longleftrightarrow> its = []"
  by (simp add: estimate_item_rows_def)








section \<open>Claims\<close>

text \<open>
  C1.  The trigger recomputes the totals of the document with the id
  \<^verbatim>\<open>COALESCE(NEW.estimate_id, OLD.estimate_id)\<close> only.  An update that moves a line item
  to another estimate therefore leaves the totals of the estimate it came from as they
  were.  Estimate 1, taxed at 8 percent, has the items Labor (10 at 50.00) and Materials
  (1 at 200.00) and the totals 700.00, 56.00 and 756.00; after
  \<^verbatim>\<open>UPDATE estimate_items SET estimate_id = 5 WHERE id = 12\<close> has completed, its one item is
  Labor, whose amount is 500.00, and its stored totals are still 700.00, 56.00 and 756.00.
\<close>

theorem item_move_leaves_totals_stale:
  "document_in_sync two_estimates_db (EstimateRef 1)
   \<and> apply_item_mutation two_estimates_db (UpdateEstimateItem 12 (move_to 5))
        = Inr two_estimates_moved
   \<and> documents_before two_estimates_db (UpdateEstimateItem 12 (move_to 5)) = [EstimateRef 1]
   \<and> document_lines two_estimates_moved (EstimateRef 1) = [(1000, 5000)]
   \<and> document_totals two_estimates_moved (EstimateRef 1)
        = Some \<lparr>t_subtotal = 70000, t_tax_rate = 800, t_tax_amount = 5600, t_total = 75600\<rparr>
   \<and> round2 (\<Sum>(q, p)\<leftarrow>document_lines two_estimates_moved (EstimateRef 1). dec q * dec p) = 500
   \<and> dec 70000 = 700
   \<and> \<not> document_in_sync two_estimates_moved (EstimateRef 1)"
proof -
  have run: "apply_item_mutation two_estimates_db (UpdateEstimateItem 12 (move_to 5))
               = Inr two_estimates_moved"
    by (simp add: example_defs store_defs update_estimate_items_def patch_estimate_item_def)
  have before: "document_in_sync two_estimates_db (EstimateRef 1)"
    by (simp add: example_defs estimate_in_sync_def find_estimate_def estimate_items_of_def
          round_half_away_def)
  have docs: "documents_before two_estimates_db (UpdateEstimateItem 12 (move_to 5)) = [EstimateRef 1]"
    by (simp add: example_defs)
  have lines: "document_lines two_estimates_moved (EstimateRef 1) = [(1000, 5000)]"
    by (simp add: example_defs estimate_items_of_def)
  have totals: "document_totals two_estimates_moved (EstimateRef 1)
           = Some \<lparr>t_subtotal = 70000, t_tax_rate = 800, t_tax_amount = 5600, t_total = 75600\<rparr>"
    by (simp add: example_defs find_estimate_def)
  have stale: "\<not> document_in_sync two_estimates_moved (EstimateRef 1)"
    by (simp add: example_defs estimate_in_sync_def find_estimate_def estimate_items_of_def
          round_half_away_def)
  have "dec (round_half_away (\<Sum>x\<leftarrow>[(1000, 5000)]. fst x * snd x) 100)
          = round2 (\<Sum>x\<leftarrow>[(1000, 5000)]. dec (fst x) * dec (snd x))"
    by (rule dec_subtotal)
  then have "round2 (\<Sum>(q, p)\<leftarrow>[(1000, 5000)]. dec q * dec p) = 500"
    by (simp add: round_half_away_def dec_def)
  then have amount:
    "round2 (\<Sum>(q, p)\<leftarrow>document_lines two_estimates_moved (EstimateRef 1). dec q * dec p) = 500"
    by (simp only: lines)
  have shown: "dec 70000 = 700"
    by (simp add: dec_def)
  from before run docs lines totals amount shown stale show ?thesis
    by - (intro conjI, assumption+)
qed


text \<open>
  C2 (as amended).  Whenever the conversion of an estimate succeeds, the new invoice has
  the client id of the estimate's client, \<open>source_estimate_id\<close> equal to the estimate's
  id, the invoice number generated from the clock, title, description, tax rate and notes
  copied verbatim, status unpaid, no paid date, issue date the UTC day of the clock and due
  date thirty days later; its line items are, in the order the estimate's items were
  loaded, rows with the same description, quantity, unit and unit price, new ids, and the
  position in that list as sort order.
\<close>

theorem conversion_copies_estimate:
  assumes "handleConvertToInvoice db userId est env = (db', InvoiceCreated k)"
    and "invoice_items_of db (new_invoice_id env) = []"
  shows "k = new_invoice_id env
    \<and> (\<exists>i. find_invoice db' k = Some i
          \<and> inv_user_id i = userId
          \<and> inv_client_id i = map_option cl_id (d_client est)
          \<and> inv_source_estimate_id i = Some (est_id (d_estimate est))
          \<and> invoice_number i = document_number ''INV'' (now_number env)
          \<and> inv_title i = est_title (d_estimate est)
          \<and> inv_description i = est_description (d_estimate est)
          \<and> inv_tax_rate i = est_tax_rate (d_estimate est)
          \<and> inv_notes i = est_notes (d_estimate est)
          \<and> inv_status i = Unpaid
          \<and> inv_paid_date i = None
          \<and> inv_issue_date i = utc_date (now_issue env)
          \<and> inv_due_date i = Some (utc_date (now_due env) + 30))
    \<and> invoice_items_of db' k
         = map (\<lambda>(index, item).
                  \<lparr>ii_id = new_item_id env index, ii_invoice_id = k,
                   ii_description = ei_description item, ii_quantity = ei_quantity item,
                   ii_unit = ei_unit item, ii_unit_price = ei_unit_price item,
                   ii_sort_order = int index\<rparr>)
               (enumerate 0 (d_items est))"
proof -
  from convert_created_state(2)[OF assms] obtain i where i: "find_invoice db' k = Some i"
    and c: "inv_core i = inv_core (converted_invoice userId est env)"
    by blast
  have k: "k = new_invoice_id env"
    by (rule convert_created_state(1)[OF assms])
  have "invoice_items_of db' k = converted_items est env"
    by (rule convert_created_state(3)[OF assms])
  then have items: "invoice_items_of db' k
         = map (\<lambda>(index, item).
                  \<lparr>ii_id = new_item_id env index, ii_invoice_id = k,
                   ii_description = ei_description item, ii_quantity = ei_quantity item,
                   ii_unit = ei_unit item, ii_unit_price = ei_unit_price item,
                   ii_sort_order = int index\<rparr>)
               (enumerate 0 (d_items est))"
    using k by (simp add: converted_items_def converted_item_def[abs_def])
  have "inv_user_id i = userId"
    "inv_client_id i = map_option cl_id (d_client est)"
    "inv_source_estimate_id i = Some (est_id (d_estimate est))"
    "invoice_number i = document_number ''INV'' (now_number env)"
    "inv_title i = est_title (d_estimate est)"
    "inv_description i = est_description (d_estimate est)"
    "inv_tax_rate i = est_tax_rate (d_estimate est)"
    "inv_notes i = est_notes (d_estimate est)"
    "inv_status i = Unpaid"
    "inv_paid_date i = None"
    "inv_issue_date i = utc_date (now_issue env)"
    "inv_due_date i = Some (utc_date (now_due env) + 30)"
    using inv_core_fields[OF c] utc_date_plus_30_days[of "now_due env"]
    by (simp_all add: converted_invoice_def)
  with i k items show ?thesis by blast
qed


theorem conversion_copies_estimate_witness:
  "handleConvertToInvoice stale_db 100 stale_detail example_env = (converted_db, InvoiceCreated 2)
   \<and> invoice_items_of stale_db (new_invoice_id example_env) = []
   \<and> (\<exists>i. find_invoice converted_db 2 = Some i
          \<and> inv_client_id i = Some 7
          \<and> inv_source_estimate_id i = Some 1
          \<and> invoice_number i = ''INV-123456''
          \<and> inv_title i = ''Deck''
          \<and> inv_tax_rate i = 800
          \<and> inv_status i = Unpaid
          \<and> inv_issue_date i = 19675
          \<and> inv_due_date i = Some 19705)
   \<and> map ii_description (invoice_items_of converted_db 2) = [''Labor'', ''Materials'']
   \<and> map ii_sort_order (invoice_items_of converted_db 2) = [0, 1]"
proof -
  have h2: "invoice_items_of stale_db (new_invoice_id example_env) = []"
    by (simp add: example_defs invoice_items_of_def)
  note c = conversion_copies_estimate[OF stale_conversion h2]
  from c obtain i where i: "find_invoice converted_db 2 = Some i"
    and "inv_client_id i = map_option cl_id (d_client stale_detail)"
    and "inv_source_estimate_id i = Some (est_id (d_estimate stale_detail))"
    and "invoice_number i = document_number ''INV'' (now_number example_env)"
    and "inv_title i = est_title (d_estimate stale_detail)"
    and "inv_tax_rate i = est_tax_rate (d_estimate stale_detail)"
    and "inv_status i = Unpaid"
    and "inv_issue_date i = utc_date (now_issue example_env)"
    and "inv_due_date i = Some (utc_date (now_due example_env) + 30)"
    by blast
  then have fields: "inv_client_id i = Some 7 \<and> inv_source_estimate_id i = Some 1
      \<and> invoice_number i = ''INV-123456'' \<and> inv_title i = ''Deck'' \<and> inv_tax_rate i = 800
      \<and> inv_status i = Unpaid \<and> inv_issue_date i = 19675 \<and> inv_due_date i = Some 19705"
    by (simp add: example_defs clock_defs)
  from c have "invoice_items_of converted_db 2
         = map (\<lambda>(index, item).
                  \<lparr>ii_id = new_item_id example_env index, ii_invoice_id = 2,
                   ii_description = ei_description item, ii_quantity = ei_quantity item,
                   ii_unit = ei_unit item, ii_unit_price = ei_unit_price item,
                   ii_sort_order = int index\<rparr>)
               (enumerate 0 (d_items stale_detail))"
    by blast
  then have items: "map ii_description (invoice_items_of converted_db 2) = [''Labor'', ''Materials'']
      \<and> map ii_sort_order (invoice_items_of converted_db 2) = [0, 1]"
    by (simp add: stale_detail_def example_labor_def example_materials_def)
  from i fields items stale_conversion h2 show ?thesis
    by blast
qed

text \<open>
  C2 as stated fails on the sort order: the handler writes \<^verbatim>\<open>sort_order: index\<close>.  When the
  store returns Materials (sort order 1) before Labor (sort order 0), the invoice's
  Materials gets sort order 0 and its Labor sort order 1.
\<close>

theorem conversion_sort_order_counterexample:
  "handleConvertToInvoice stale_db 100 swapped_detail example_env = (swapped_db, InvoiceCreated 2)
   \<and> map ei_description (d_items swapped_detail) = [''Materials'', ''Labor'']
   \<and> map ei_sort_order (d_items swapped_detail) = [1, 0]
   \<and> map ii_description (invoice_items_of swapped_db 2) = [''Materials'', ''Labor'']
   \<and> map ii_sort_order (invoice_items_of swapped_db 2) = [0, 1]"
  by (simp add: example_defs convert_defs clock_defs store_defs)


text \<open>
  C3.  The totals of an invoice produced by conversion are computed by the trigger from
  the copied line items, not copied from the estimate's stored totals: the subtotal is
  \<open>round2\<close> of the sum over the invoice's items, which is the sum over the estimate's
  items, the tax amount is \<open>round2 (subtotal * rate / 100)\<close> and the total their sum.  The
  estimate's stored subtotal, tax amount and total do not occur.  In the example (10 at
  50.00, 1 at 200.00, 8 percent, a stale stored total of 1.00) the invoice's total is
  756.00.
\<close>

theorem conversion_totals_from_copied_items:
  assumes "handleConvertToInvoice db userId est env = (db', InvoiceCreated k)"
    and "invoice_items_of db (new_invoice_id env) = []"
  shows "\<exists>i. find_invoice db' k = Some i
           \<and> inv_tax_rate i = est_tax_rate (d_estimate est)
           \<and> dec (inv_subtotal i)
               = round2 (\<Sum>it\<leftarrow>invoice_items_of db' k. dec (ii_quantity it) * dec (ii_unit_price it))
           \<and> (\<Sum>it\<leftarrow>invoice_items_of db' k. dec (ii_quantity it) * dec (ii_unit_price it))
               = (\<Sum>it\<leftarrow>d_items est. dec (ei_quantity it) * dec (ei_unit_price it))
           \<and> dec (inv_tax_amount i)
               = round2 (dec (inv_subtotal i) * dec (est_tax_rate (d_estimate est)) / 100)
           \<and> dec (inv_total i) = dec (inv_subtotal i) + dec (inv_tax_amount i)"
proof -
  from convert_created_state(2)[OF assms] obtain i where i: "find_invoice db' k = Some i"
    and c: "inv_core i = inv_core (converted_invoice userId est env)"
    by blast
  have r: "inv_tax_rate i = est_tax_rate (d_estimate est)"
    using inv_core_fields(12)[OF c] by (simp add: converted_invoice_def)
  have items: "invoice_items_of db' k = converted_items est env"
    by (rule convert_created_state(3)[OF assms])
  from convert_created_state(4)[OF assms] i
  have s: "inv_subtotal i = round_half_away (\<Sum>it\<leftarrow>invoice_items_of db' k. ii_quantity it * ii_unit_price it) 100"
    and t: "inv_tax_amount i = round_half_away (inv_subtotal i * inv_tax_rate i) 10000"
    and u: "inv_total i = inv_subtotal i + inv_tax_amount i"
    by (simp_all add: invoice_in_sync_def)
  have "dec (inv_subtotal i) = round2 (\<Sum>it\<leftarrow>invoice_items_of db' k. dec (ii_quantity it) * dec (ii_unit_price it))"
    unfolding s by (rule dec_subtotal)
  moreover have "(\<Sum>it\<leftarrow>invoice_items_of db' k. dec (ii_quantity it) * dec (ii_unit_price it))
               = (\<Sum>it\<leftarrow>d_items est. dec (ei_quantity it) * dec (ei_unit_price it))"
    unfolding items using converted_items_lines[of "\<lambda>q p. dec q * dec p" est env] by simp
  moreover have "dec (inv_tax_amount i) = round2 (dec (inv_subtotal i) * dec (est_tax_rate (d_estimate est)) / 100)"
    unfolding t r by (rule dec_tax)
  moreover have "dec (inv_total i) = dec (inv_subtotal i) + dec (inv_tax_amount i)"
    unfolding u by (rule dec_add)
  ultimately show ?thesis using i r by blast
qed

theorem conversion_totals_from_copied_items_witness:
  "handleConvertToInvoice stale_db 100 stale_detail example_env = (converted_db, InvoiceCreated 2)
   \<and> invoice_items_of stale_db (new_invoice_id example_env) = []
   \<and> est_total (d_estimate stale_detail) = 100
   \<and> (\<exists>i. find_invoice converted_db 2 = Some i
           \<and> inv_tax_rate i = 800
           \<and> inv_total i = 75600 \<and> dec (inv_total i) = 756
           \<and> dec (inv_subtotal i)
               = round2 (\<Sum>it\<leftarrow>invoice_items_of converted_db 2. dec (ii_quantity it) * dec (ii_unit_price it))
           \<and> dec (inv_tax_amount i) = round2 (dec (inv_subtotal i) * dec 800 / 100)
           \<and> dec (inv_total i) = dec (inv_subtotal i) + dec (inv_tax_amount i))"
proof -
  have h2: "invoice_items_of stale_db (new_invoice_id example_env) = []"
    by (simp add: example_defs invoice_items_of_def)
  have t: "est_tax_rate (d_estimate stale_detail) = 800" "est_total (d_estimate stale_detail) = 100"
    by (simp_all add: example_defs)
  have f: "find_invoice converted_db 2 = Some i \<Longrightarrow> inv_total i = 75600 \<and> dec (inv_total i) = 756" for i
    by (auto simp: example_defs find_invoice_def dec_def)
  from conversion_totals_from_copied_items[OF stale_conversion h2] obtain i where
    "find_invoice converted_db 2 = Some i" "inv_tax_rate i = 800"
    "dec (inv_subtotal i)
               = round2 (\<Sum>it\<leftarrow>invoice_items_of converted_db 2. dec (ii_quantity it) * dec (ii_unit_price it))"
    "dec (inv_tax_amount i) = round2 (dec (inv_subtotal i) * dec 800 / 100)"
    "dec (inv_total i) = dec (inv_subtotal i) + dec (inv_tax_amount i)"
    unfolding t by blast
  with f stale_conversion h2 t(2) show ?thesis by blast
qed


text \<open>
  C4.  The paid toggle keeps "paid date set exactly when paid", but the invoice form does
  not: its edit-mode \<^verbatim>\<open>UPDATE\<close> writes the status chosen in the form and never the paid
  date.  Saving the converted example invoice (unpaid, no paid date) with the status select
  on paid leaves it paid without a paid date.
\<close>

theorem invoice_form_breaks_paid_date:
  "map_option inv_status (find_invoice converted_db 2) = Some Unpaid
   \<and> map_option inv_paid_date (find_invoice converted_db 2) = Some None
   \<and> snd (handleSubmit_invoice converted_db 100 (EditInvoice 2) paid_form example_submit_env) = Saved 2
   \<and> map_option inv_status
        (find_invoice (fst (handleSubmit_invoice converted_db 100 (EditInvoice 2) paid_form
                              example_submit_env)) 2) = Some Paid
   \<and> map_option inv_paid_date
        (find_invoice (fst (handleSubmit_invoice converted_db 100 (EditInvoice 2) paid_form
                              example_submit_env)) 2) = Some None
   \<and> map_option paid_date_consistent
        (find_invoice (fst (handleSubmit_invoice converted_db 100 (EditInvoice 2) paid_form
                              example_submit_env)) 2) = Some False"
  by (simp add: example_defs form_defs update_defs store_defs paid_date_consistent_def)





text \<open>
  C6 (as amended).  Overdue is derived from the status, the due date and the clock, and
  stored nowhere: an invoice is overdue exactly when it is unpaid, has a due date, and
  midnight UTC at the start of the due date lies before the current instant, that is, the
  due date is before today (UTC), or it is today and midnight has passed.  In particular an
  unpaid invoice due yesterday is overdue, and a paid invoice is never overdue, whatever
  its due date.
\<close>

theorem overdue_derivation:
  "(isOverdue st due now \<longleftrightarrow>
      st = Unpaid \<and> (case due of None \<Rightarrow> False
                      | Some d \<Rightarrow> d < utc_date now \<or> (d = utc_date now \<and> 0 < now mod ms_per_day)))
   \<and> isOverdue Unpaid (Some (utc_date now - 1)) now
   \<and> \<not> isOverdue Paid due now"
proof -
  have "isOverdue Unpaid (Some (utc_date now - 1)) now"
    by (simp add: isOverdue_def before_instant_iff)
  moreover have "\<not> isOverdue Paid due now"
    by (simp add: isOverdue_def)
  moreover have "isOverdue st due now \<longleftrightarrow>
      st = Unpaid \<and> (case due of None \<Rightarrow> False
                      | Some d \<Rightarrow> d < utc_date now \<or> (d = utc_date now \<and> 0 < now mod ms_per_day))"
    by (cases due) (simp_all add: isOverdue_def before_instant_iff)
  ultimately show ?thesis by blast
qed


text \<open>
  C6 as stated fails on the due date itself: at 01:00 UTC of day 19675 an unpaid invoice due
  on day 19675 is reported overdue, although its due date is not before today.
\<close>

theorem overdue_on_due_date_counterexample:
  "isOverdue Unpaid (Some 19675) (19675 * ms_per_day + 3600000)
   \<and> utc_date (19675 * ms_per_day + 3600000) = 19675
   \<and> \<not> spec_overdue Unpaid (Some 19675) (utc_date (19675 * ms_per_day + 3600000))"
  by (simp add: isOverdue_def spec_overdue_def utc_date_def ms_per_day_def)


text \<open>
  C7.  For the same reason a document can be left without line items and with totals that
  are not zero.  Invoice 2, taxed at 8 percent, has the one item Labor (10 at 50.00) and
  the totals 500.00, 40.00 and 540.00; after
  \<^verbatim>\<open>UPDATE invoice_items SET invoice_id = 9 WHERE id = 21\<close> has completed it has no line
  item, and its stored totals are still 500.00, 40.00 and 540.00.
\<close>

theorem item_move_leaves_empty_document_totals:
  "document_in_sync two_invoices_db (InvoiceRef 2)
   \<and> apply_item_mutation two_invoices_db (UpdateInvoiceItem 21 (move_to 9))
        = Inr two_invoices_moved
   \<and> documents_before two_invoices_db (UpdateInvoiceItem 21 (move_to 9)) = [InvoiceRef 2]
   \<and> document_lines two_invoices_moved (InvoiceRef 2) = []
   \<and> document_totals two_invoices_moved (InvoiceRef 2)
        = Some \<lparr>t_subtotal = 50000, t_tax_rate = 800, t_tax_amount = 4000, t_total = 54000\<rparr>"
proof -
  have run: "apply_item_mutation two_invoices_db (UpdateInvoiceItem 21 (move_to 9))
               = Inr two_invoices_moved"
    by (simp add: example_defs store_defs update_invoice_items_def patch_invoice_item_def)
  have before: "document_in_sync two_invoices_db (InvoiceRef 2)"
    by (simp add: example_defs invoice_in_sync_def find_invoice_def invoice_items_of_def
          round_half_away_def)
  have docs: "documents_before two_invoices_db (UpdateInvoiceItem 21 (move_to 9)) = [InvoiceRef 2]"
    by (simp add: example_defs)
  have lines: "document_lines two_invoices_moved (InvoiceRef 2) = []"
    by (simp add: example_defs invoice_items_of_def)
  have totals: "document_totals two_invoices_moved (InvoiceRef 2)
           = Some \<lparr>t_subtotal = 50000, t_tax_rate = 800, t_tax_amount = 4000, t_total = 54000\<rparr>"
    by (simp add: example_defs find_invoice_def)
  from before run docs lines totals show ?thesis
    by - (intro conjI, assumption+)
qed


text \<open>
  C8.  Archiving hides an estimate from the list of estimates, but not an invoice from
  the list of invoices: \<^verbatim>\<open>InvoicesPage\<close> selects the tenant's invoices without the
  condition \<^verbatim>\<open>archived_at IS NULL\<close> that \<^verbatim>\<open>EstimatesPage\<close> has.  Invoice 2 of the
  conversion example, archived at the example instant by the archive toggle, carries the
  stamp and is still the one entry of tenant 100's invoice list, while the example
  estimate archived the same way has left the estimate list.
\<close>

theorem archived_invoice_still_listed:
  "map inv_id (InvoicesPage converted_db 100) = [2]
   \<and> map_option inv_archived_at (find_invoice converted_db 2) = Some None
   \<and> snd (handleArchive converted_db (InvoiceRef 2) None 1700000123456) = Some 1700000123456
   \<and> map_option inv_archived_at
        (find_invoice (fst (handleArchive converted_db (InvoiceRef 2) None 1700000123456)) 2)
        = Some (Some 1700000123456)
   \<and> map inv_id (InvoicesPage (fst (handleArchive converted_db (InvoiceRef 2) None 1700000123456))
                               100) = [2]
   \<and> default_list (fst (handleArchive converted_db (InvoiceRef 2) None 1700000123456)) 100
        (InvoiceRef 2)
   \<and> map est_id (EstimatesPage example_db 100) = [1]
   \<and> map est_id (EstimatesPage (fst (handleArchive example_db (EstimateRef 1) None 1700000123456))
                                100) = []"
  by (simp add: converted_db_def stale_db_def example_db_def example_estimate_def
        archive_invoice_result archive_estimate_result InvoicesPage_def EstimatesPage_def
        find_invoice_def)


text \<open>
  C10.  When the mail is delivered, the send-estimate action sets the estimate's status to
  sent whatever the status was before: an approved or declined estimate that is sent again
  becomes sent.  (The action runs in the session of the tenant that owns the estimate, and
  the estimate has a client of that tenant with an email address; nothing else of the row
  changes.)
\<close>

theorem send_sets_status_sent:
  assumes "find_estimate db k = Some e"
    and "est_user_id e = u"
    and "client_email (Some u) db e = Some addr"
  shows "\<exists>db'. sendEstimateAction db (Some u) k Delivered = (db', SendOk)
           \<and> find_estimate db' k = Some (e\<lparr>est_status := Sent\<rparr>)"
proof -
  have visible: "select_estimate (Some u) db k = Some e"
    using assms(1,2) by (simp add: select_estimate_owner)
  have "update_estimate_as (Some u) db k (\<lambda>e. e\<lparr>est_status := Sent\<rparr>)
           = Inr (db\<lparr>estimates := map (\<lambda>e. if est_id e = k \<and> Some u = Some (est_user_id e)
                                               then e\<lparr>est_status := Sent\<rparr> else e) (estimates db)\<rparr>)"
    by (rule update_estimate_as_unconstrained) simp
  moreover have "find_estimate (db\<lparr>estimates := map (\<lambda>e. if est_id e = k \<and> Some u = Some (est_user_id e)
                                               then e\<lparr>est_status := Sent\<rparr> else e) (estimates db)\<rparr>) k
           = Some (e\<lparr>est_status := Sent\<rparr>)"
    using assms(1,2) by (intro find_estimate_updated_as) simp_all
  ultimately show ?thesis
    using visible assms(3) by (simp add: sendEstimateAction_def)
qed

text \<open>
  The approved example estimate, sent again by its tenant 100 to the client with an email
  address, becomes sent.
\<close>

theorem send_sets_status_sent_witness:
  "find_estimate example_db 1 = Some example_estimate
   \<and> est_user_id example_estimate = 100
   \<and> client_email (Some 100) example_db example_estimate = Some ''ada@example.com''
   \<and> est_status example_estimate = Approved
   \<and> (\<exists>db'. sendEstimateAction example_db (Some 100) 1 Delivered = (db', SendOk)
           \<and> find_estimate db' 1 = Some (example_estimate\<lparr>est_status := Sent\<rparr>))"
proof -
  have h1: "find_estimate example_db 1 = Some example_estimate"
    by (simp add: example_defs find_estimate_def)
  have h2: "est_user_id example_estimate = 100"
    by (simp add: example_defs)
  have h3: "client_email (Some 100) example_db example_estimate = Some ''ada@example.com''"
    by (simp add: example_defs client_email_def select_client_def)
  have h4: "est_status example_estimate = Approved"
    by (simp add: example_defs)
  from send_sets_status_sent[OF h1 h2 h3] h1 h2 h3 h4 show ?thesis by blast
qed

section \<open>The paid toggle\<close>

text \<open>
  X1.  The paid toggle, applied to a stored invoice while the page holds the status \<open>st\<close>,
  always completes; it stores the opposite status together with the paid date (today, UTC,
  when the new status is paid, and null when it is unpaid), so the toggled invoice has a
  paid date exactly when it is paid.
\<close>

theorem toggle_paid_keeps_paid_date:
  assumes "find_invoice db k = Some i"
  shows "\<exists>db'. handleTogglePaid db k st now = (db', if st = Paid then Unpaid else Paid)
           \<and> find_invoice db' k
                = Some (i\<lparr>inv_status := (if st = Paid then Unpaid else Paid),
                           inv_paid_date := (if st = Paid then None else Some (utc_date now))\<rparr>)
           \<and> map_option paid_date_consistent (find_invoice db' k) = Some True"
proof -
  define paid :: "invoice \<Rightarrow> invoice"
    where "paid = (\<lambda>i. i\<lparr>inv_status := (if st = Paid then Unpaid else Paid),
                           inv_paid_date := (if st = Paid then None else Some (utc_date now))\<rparr>)"
  define db' where "db' = db\<lparr>invoices := map (\<lambda>i. if inv_id i = k then paid i else i) (invoices db)\<rparr>"
  have run: "handleTogglePaid db k st now = (db', if st = Paid then Unpaid else Paid)"
    unfolding db'_def paid_def by (rule toggle_paid_result)
  have found: "find_invoice db' k = Some (paid i)"
    using assms by (simp add: db'_def find_invoice_updated paid_def)
  have "paid_date_consistent (paid i)"
    by (simp add: paid_date_consistent_def paid_def)
  with found have "map_option paid_date_consistent (find_invoice db' k) = Some True"
    by simp
  with run found show ?thesis
    unfolding paid_def by blast
qed

theorem toggle_paid_keeps_paid_date_witness:
  "map_option inv_status (find_invoice converted_db 2) = Some Unpaid
   \<and> (\<exists>db' i'. handleTogglePaid converted_db 2 Unpaid 1700000123456 = (db', Paid)
          \<and> find_invoice db' 2 = Some i' \<and> inv_status i' = Paid
          \<and> inv_paid_date i' = Some 19675 \<and> paid_date_consistent i')"
proof -
  obtain i where i: "find_invoice converted_db 2 = Some i" "inv_status i = Unpaid"
    by (simp add: converted_db_def find_invoice_def)
  have day: "utc_date 1700000123456 = 19675"
    by (simp add: utc_date_def ms_per_day_def)
  from toggle_paid_keeps_paid_date[OF i(1), of Unpaid 1700000123456] day i show ?thesis
    by auto
qed

section \<open>The archive toggle\<close>

text \<open>
  X2.  The archive toggle of an estimate or invoice writes \<open>archived_at\<close> and nothing else:
  the stamp is set when it was null and cleared when it was set; the document's row is
  otherwise the same, so its status and totals are unchanged; every other document, every
  item and every client is unchanged.  An archived estimate is in no tenant's list of
  estimates, and an unarchived one is in its owner's; an invoice is in its owner's list
  of invoices whether archived or not.  The document is still found by its id, and the
  status change of an estimate and the paid toggle of an invoice, which address the
  document by id, still apply to it and leave the archive stamp alone.
\<close>

theorem archive_toggle_frame:
  assumes "document_row db d = Some row"
    and "handleArchive db d (row_archived_at row) now = (db', toggled)"
  shows "toggled = (case row_archived_at row of Some a \<Rightarrow> None | None \<Rightarrow> Some now)
    \<and> document_row db' d = Some (set_row_archived_at toggled row)
    \<and> map_option row_status (document_row db' d) = Some (row_status row)
    \<and> document_totals db' d = document_totals db d
    \<and> (\<forall>d'. d' \<noteq> d \<longrightarrow> document_row db' d' = document_row db d')
    \<and> estimate_items db' = estimate_items db \<and> invoice_items db' = invoice_items db
    \<and> clients db' = clients db
    \<and> (\<forall>k. d = EstimateRef k \<and> toggled \<noteq> None \<longrightarrow> (\<forall>tenant. \<not> default_list db' tenant d))
    \<and> (toggled = None \<or> (\<exists>k. d = InvoiceRef k) \<longrightarrow> default_list db' (row_owner row) d)
    \<and> (\<forall>k s. d = EstimateRef k \<longrightarrow>
          (\<exists>db''. handleStatusChange db' k s = (db'', True)
              \<and> map_option row_status (document_row db'' d) = Some (EstimateStatus s)
              \<and> map_option row_archived_at (document_row db'' d) = Some toggled))
    \<and> (\<forall>k st t. d = InvoiceRef k \<longrightarrow>
          (\<exists>db''. handleTogglePaid db' k st t = (db'', if st = Paid then Unpaid else Paid)
              \<and> map_option row_status (document_row db'' d)
                   = Some (InvoiceStatus (if st = Paid then Unpaid else Paid))
              \<and> map_option row_archived_at (document_row db'' d) = Some toggled))"
proof -
  note r = archive_rows[OF assms(2)]
  have row': "document_row db' d = Some (set_row_archived_at toggled row)"
    using r(2)[of d] assms(1) by simp
  have status: "map_option row_status (document_row db' d) = Some (row_status row)"
    unfolding row' by simp
  have others: "\<forall>d'. d' \<noteq> d \<longrightarrow> document_row db' d' = document_row db d'"
    using r(2) by simp
  have totals: "document_totals db' d = document_totals db d"
  proof (cases d)
    case (EstimateRef k)
    with assms(1) row' show ?thesis by (cases row) auto
  next
    case (InvoiceRef k)
    with assms(1) row' show ?thesis by (cases row) auto
  qed
  have hidden: "\<forall>k. d = EstimateRef k \<and> toggled \<noteq> None \<longrightarrow> (\<forall>tenant. \<not> default_list db' tenant d)"
    using archive_hidden assms(2) by blast
  have shown: "toggled = None \<or> (\<exists>k. d = InvoiceRef k) \<longrightarrow> default_list db' (row_owner row) d"
    using listed_when_active[OF row'] by auto
  have edit_est: "\<forall>k s. d = EstimateRef k \<longrightarrow>
          (\<exists>db''. handleStatusChange db' k s = (db'', True)
              \<and> map_option row_status (document_row db'' d) = Some (EstimateStatus s)
              \<and> map_option row_archived_at (document_row db'' d) = Some toggled)"
  proof (intro allI impI)
    fix k s
    assume "d = EstimateRef k"
    with status_change_row[of db' k "set_row_archived_at toggled row" s] row'
    show "\<exists>db''. handleStatusChange db' k s = (db'', True)
              \<and> map_option row_status (document_row db'' d) = Some (EstimateStatus s)
              \<and> map_option row_archived_at (document_row db'' d) = Some toggled"
      by simp
  qed
  have edit_inv: "\<forall>k st t. d = InvoiceRef k \<longrightarrow>
          (\<exists>db''. handleTogglePaid db' k st t = (db'', if st = Paid then Unpaid else Paid)
              \<and> map_option row_status (document_row db'' d)
                   = Some (InvoiceStatus (if st = Paid then Unpaid else Paid))
              \<and> map_option row_archived_at (document_row db'' d) = Some toggled)"
  proof (intro allI impI)
    fix k st t
    assume "d = InvoiceRef k"
    with toggle_paid_row[of db' k "set_row_archived_at toggled row" st t] row'
    show "\<exists>db''. handleTogglePaid db' k st t = (db'', if st = Paid then Unpaid else Paid)
              \<and> map_option row_status (document_row db'' d)
                   = Some (InvoiceStatus (if st = Paid then Unpaid else Paid))
              \<and> map_option row_archived_at (document_row db'' d) = Some toggled"
      by simp
  qed
  from r(1) row' status totals others r(3) r(4) r(5) hidden shown edit_est edit_inv
  show ?thesis by - (intro conjI, assumption+)
qed



text \<open>Archiving the example estimate at the example instant.\<close>

theorem archive_toggle_frame_witness:
  "document_row example_db (EstimateRef 1) = Some (EstimateRow example_estimate)
   \<and> handleArchive example_db (EstimateRef 1) (row_archived_at (EstimateRow example_estimate))
         1700000123456 = (archived_db, Some 1700000123456)
   \<and> document_row archived_db (EstimateRef 1)
        = Some (set_row_archived_at (Some 1700000123456) (EstimateRow example_estimate))
   \<and> map_option row_status (document_row archived_db (EstimateRef 1))
        = Some (EstimateStatus Approved)
   \<and> document_totals archived_db (EstimateRef 1) = document_totals example_db (EstimateRef 1)
   \<and> \<not> default_list archived_db 100 (EstimateRef 1)
   \<and> default_list example_db 100 (EstimateRef 1)"
proof -
  have h1: "document_row example_db (EstimateRef 1) = Some (EstimateRow example_estimate)"
    by (simp add: example_defs find_estimate_def)
  have h2: "handleArchive example_db (EstimateRef 1) (row_archived_at (EstimateRow example_estimate))
         1700000123456 = (archived_db, Some 1700000123456)"
    by (simp add: example_defs archive_estimate_result)
  have h3: "row_status (EstimateRow example_estimate) = EstimateStatus Approved"
    by (simp add: example_defs)
  have h4: "default_list example_db 100 (EstimateRef 1)"
    by (simp add: example_defs EstimatesPage_def)
  from archive_toggle_frame[OF h1 h2] h1 h2 h3 h4 show ?thesis
    by simp
qed

section \<open>What the triggers establish\<close>

text \<open>
  X3.  For every insert, update or delete of one line item that completes, and every
  document whose totals the trigger of that mutation recomputes (the document the item
  belongs to after an insert or update, the one it belonged to before a delete), with tax
  rate \<open>r\<close>: the document's stored subtotal is \<open>round2\<close> of the sum of quantity times unit
  price over its current line items, its tax amount is \<open>round2 (subtotal * r / 100)\<close>, and
  its total is subtotal plus tax amount.  The tax rate itself is left as it was.
\<close>

theorem totals_follow_item_mutation:
  assumes "apply_item_mutation db m = Inr db'"
    and "d \<in> set (recalculated_documents db m)"
    and "document_totals db d = Some t0"
  shows "\<exists>t. document_totals db' d = Some t
           \<and> t_tax_rate t = t_tax_rate t0
           \<and> dec (t_subtotal t) = round2 (\<Sum>(q, p)\<leftarrow>document_lines db' d. dec q * dec p)
           \<and> dec (t_tax_amount t) = round2 (dec (t_subtotal t) * dec (t_tax_rate t0) / 100)
           \<and> dec (t_total t) = dec (t_subtotal t) + dec (t_tax_amount t)"
proof (cases d)
  case (EstimateRef k)
  from assms(3) EstimateRef obtain e where e: "find_estimate db k = Some e"
    and r: "t_tax_rate t0 = est_tax_rate e"
    by auto
  from find_estimate_core_cases[OF apply_estimate_mutation_core[OF assms(1)] e]
  obtain e' where e': "find_estimate db' k = Some e'" and c: "est_core e' = est_core e"
    by blast
  from item_mutation_in_sync[OF assms(1,2)] EstimateRef e'
  have s: "est_subtotal e' = round_half_away (\<Sum>it\<leftarrow>estimate_items_of db' k. ei_quantity it * ei_unit_price it) 100"
    and t: "est_tax_amount e' = round_half_away (est_subtotal e' * est_tax_rate e') 10000"
    and u: "est_total e' = est_subtotal e' + est_tax_amount e'"
    by (simp_all add: estimate_in_sync_def)
  have "dec (est_subtotal e') = round2 (\<Sum>it\<leftarrow>estimate_items_of db' k. dec (ei_quantity it) * dec (ei_unit_price it))"
    unfolding s by (rule dec_subtotal)
  moreover have "dec (est_tax_amount e') = round2 (dec (est_subtotal e') * dec (est_tax_rate e) / 100)"
    unfolding t est_core_fields(10)[OF c] by (rule dec_tax)
  moreover have "dec (est_total e') = dec (est_subtotal e') + dec (est_tax_amount e')"
    unfolding u by (rule dec_add)
  ultimately show ?thesis
    using EstimateRef e' r est_core_fields(10)[OF c] by (simp add: comp_def)
next
  case (InvoiceRef k)
  from assms(3) InvoiceRef obtain i where i: "find_invoice db k = Some i"
    and r: "t_tax_rate t0 = inv_tax_rate i"
    by auto
  from find_invoice_core_cases[OF apply_invoice_mutation_core[OF assms(1)] i]
  obtain i' where i': "find_invoice db' k = Some i'" and c: "inv_core i' = inv_core i"
    by blast
  from item_mutation_in_sync[OF assms(1,2)] InvoiceRef i'
  have s: "inv_subtotal i' = round_half_away (\<Sum>it\<leftarrow>invoice_items_of db' k. ii_quantity it * ii_unit_price it) 100"
    and t: "inv_tax_amount i' = round_half_away (inv_subtotal i' * inv_tax_rate i') 10000"
    and u: "inv_total i' = inv_subtotal i' + inv_tax_amount i'"
    by (simp_all add: invoice_in_sync_def)
  have "dec (inv_subtotal i') = round2 (\<Sum>it\<leftarrow>invoice_items_of db' k. dec (ii_quantity it) * dec (ii_unit_price it))"
    unfolding s by (rule dec_subtotal)
  moreover have "dec (inv_tax_amount i') = round2 (dec (inv_subtotal i') * dec (inv_tax_rate i) / 100)"
    unfolding t inv_core_fields(12)[OF c] by (rule dec_tax)
  moreover have "dec (inv_total i') = dec (inv_subtotal i') + dec (inv_tax_amount i')"
    unfolding u by (rule dec_add)
  ultimately show ?thesis
    using InvoiceRef i' r inv_core_fields(12)[OF c] by (simp add: comp_def)
qed

theorem totals_follow_item_mutation_witness:
  "apply_item_mutation example_db (InsertEstimateItem example_labor) = Inr example_db1
   \<and> EstimateRef 1 \<in> set (recalculated_documents example_db (InsertEstimateItem example_labor))
   \<and> document_totals example_db (EstimateRef 1)
        = Some \<lparr>t_subtotal = 0, t_tax_rate = 800, t_tax_amount = 0, t_total = 0\<rparr>
   \<and> (\<exists>t. document_totals example_db1 (EstimateRef 1) = Some t
           \<and> t_tax_rate t = 800
           \<and> dec (t_subtotal t) = round2 (\<Sum>(q, p)\<leftarrow>document_lines example_db1 (EstimateRef 1). dec q * dec p)
           \<and> dec (t_tax_amount t) = round2 (dec (t_subtotal t) * dec 800 / 100)
           \<and> dec (t_total t) = dec (t_subtotal t) + dec (t_tax_amount t))"
proof -
  have h1: "apply_item_mutation example_db (InsertEstimateItem example_labor) = Inr example_db1"
    by (simp add: example_defs store_defs)
  have h2: "EstimateRef 1 \<in> set (recalculated_documents example_db (InsertEstimateItem example_labor))"
    by (simp add: example_labor_def)
  have h3: "document_totals example_db (EstimateRef 1)
        = Some \<lparr>t_subtotal = 0, t_tax_rate = 800, t_tax_amount = 0, t_total = 0\<rparr>"
    by (simp add: example_db_def example_estimate_def find_estimate_def)
  from totals_follow_item_mutation[OF h1 h2 h3] h1 h2 h3 show ?thesis by simp
qed

text \<open>
  X4.  If such a document has no line item after the mutation, its subtotal, tax amount
  and total are all zero.
\<close>

theorem empty_document_totals_zero:
  assumes "apply_item_mutation db m = Inr db'"
    and "d \<in> set (recalculated_documents db m)"
    and "document_totals db d = Some t0"
    and "document_lines db' d = []"
  shows "document_totals db' d
           = Some \<lparr>t_subtotal = 0, t_tax_rate = t_tax_rate t0, t_tax_amount = 0, t_total = 0\<rparr>"
proof (cases d)
  case (EstimateRef k)
  from assms(3) EstimateRef obtain e where e: "find_estimate db k = Some e"
    and r: "t_tax_rate t0 = est_tax_rate e"
    by auto
  from find_estimate_core_cases[OF apply_estimate_mutation_core[OF assms(1)] e]
  obtain e' where e': "find_estimate db' k = Some e'" and c: "est_core e' = est_core e"
    by blast
  from assms(4) EstimateRef have no_items: "estimate_items_of db' k = []"
    by simp
  from item_mutation_in_sync[OF assms(1,2)] EstimateRef e' no_items
  have "est_subtotal e' = 0" "est_tax_amount e' = 0" "est_total e' = 0"
    by (simp_all add: estimate_in_sync_def)
  with EstimateRef e' r est_core_fields(10)[OF c] show ?thesis
    by simp
next
  case (InvoiceRef k)
  from assms(3) InvoiceRef obtain i where i: "find_invoice db k = Some i"
    and r: "t_tax_rate t0 = inv_tax_rate i"
    by auto
  from find_invoice_core_cases[OF apply_invoice_mutation_core[OF assms(1)] i]
  obtain i' where i': "find_invoice db' k = Some i'" and c: "inv_core i' = inv_core i"
    by blast
  from assms(4) InvoiceRef have no_items: "invoice_items_of db' k = []"
    by simp
  from item_mutation_in_sync[OF assms(1,2)] InvoiceRef i' no_items
  have "inv_subtotal i' = 0" "inv_tax_amount i' = 0" "inv_total i' = 0"
    by (simp_all add: invoice_in_sync_def)
  with InvoiceRef i' r inv_core_fields(12)[OF c] show ?thesis
    by simp
qed

theorem empty_document_totals_zero_witness:
  "apply_item_mutation example_db1 (DeleteEstimateItem 11) = Inr example_db
   \<and> EstimateRef 1 \<in> set (recalculated_documents example_db1 (DeleteEstimateItem 11))
   \<and> document_totals example_db1 (EstimateRef 1)
        = Some \<lparr>t_subtotal = 50000, t_tax_rate = 800, t_tax_amount = 4000, t_total = 54000\<rparr>
   \<and> document_lines example_db (EstimateRef 1) = []
   \<and> document_totals example_db (EstimateRef 1)
        = Some \<lparr>t_subtotal = 0, t_tax_rate = 800, t_tax_amount = 0, t_total = 0\<rparr>"
proof -
  have h1: "apply_item_mutation example_db1 (DeleteEstimateItem 11) = Inr example_db"
    by (simp add: example_defs store_defs delete_estimate_items_def)
  have h2: "EstimateRef 1 \<in> set (recalculated_documents example_db1 (DeleteEstimateItem 11))"
    by (simp add: example_defs)
  have h3: "document_totals example_db1 (EstimateRef 1)
        = Some \<lparr>t_subtotal = 50000, t_tax_rate = 800, t_tax_amount = 4000, t_total = 54000\<rparr>"
    by (simp add: example_defs find_estimate_def)
  have h4: "document_lines example_db (EstimateRef 1) = []"
    by (simp add: example_defs estimate_items_of_def)
  from empty_document_totals_zero[OF h1 h2 h3 h4] h1 h2 h3 h4 show ?thesis by simp
qed

end
